theory Spec2Isabelle
  imports Main "HOL-Library.Word"
begin

unbundle bit_operations_syntax

section \<open>Basic types of tui.h\<close>

type_synonym u8 = "8 word"
type_synonym u32 = "32 word"

text \<open>
  A C \<^verbatim>\<open>int\<close> is a mathematical integer between \<open>INT_MIN\<close> and \<open>INT_MAX\<close>. Where an
  addition or a negation of the source can leave that range, the model writes the result
  as \<open>int32\<close> of the exact one: the 32-bit two's complement value that the machine's
  instruction leaves (C itself leaves the overflow undefined).
\<close>

definition INT_MIN :: int where "INT_MIN = - 2147483648"
definition INT_MAX :: int where "INT_MAX = 2147483647"

definition int32 :: "int \<Rightarrow> int" where
  "int32 v = (v + 2147483648) mod 4294967296 - 2147483648"

text \<open>
  \<^verbatim>\<open>tui_cell\<close>: code point, foreground, background, underline colour, style flags.
\<close>

record tui_cell =
  codepoint :: u32
  fg :: u32
  bg :: u32
  underline_color :: u32
  style :: u8

section \<open>Display width (\<^verbatim>\<open>tui_char_width\<close>)\<close>

text \<open>
  The source tests the code point against literal ranges, in this order: NUL, the C0 and
  C1 controls, the combining blocks and zero-width format characters, the East Asian wide
  ranges, the emoji ranges. The first test that succeeds decides the result.
\<close>

definition tui_char_width :: "u32 \<Rightarrow> int" where
  "tui_char_width cp =
    (if cp = 0 then 0
     else if cp < 32 \<or> (cp \<ge> 0x7F \<and> cp < 0xA0) then 0
     else if (cp \<ge> 0x0300 \<and> cp \<le> 0x036F) \<or>
             (cp \<ge> 0x1AB0 \<and> cp \<le> 0x1AFF) \<or>
             (cp \<ge> 0x1DC0 \<and> cp \<le> 0x1DFF) \<or>
             (cp \<ge> 0x20D0 \<and> cp \<le> 0x20FF) \<or>
             (cp \<ge> 0xFE20 \<and> cp \<le> 0xFE2F) \<or>
             cp = 0x200B \<or> cp = 0x200C \<or>
             cp = 0x200D \<or> cp = 0xFEFF then 0
     else if (cp \<ge> 0x1100 \<and> cp \<le> 0x115F) \<or>
             (cp \<ge> 0x2E80 \<and> cp \<le> 0x9FFF) \<or>
             (cp \<ge> 0xAC00 \<and> cp \<le> 0xD7A3) \<or>
             (cp \<ge> 0xF900 \<and> cp \<le> 0xFAFF) \<or>
             (cp \<ge> 0xFE10 \<and> cp \<le> 0xFE1F) \<or>
             (cp \<ge> 0xFE30 \<and> cp \<le> 0xFE6F) \<or>
             (cp \<ge> 0xFF00 \<and> cp \<le> 0xFF60) \<or>
             (cp \<ge> 0xFFE0 \<and> cp \<le> 0xFFE6) \<or>
             (cp \<ge> 0x20000 \<and> cp \<le> 0x2FFFD) \<or>
             (cp \<ge> 0x30000 \<and> cp \<le> 0x3FFFD) then 2
     else if (cp \<ge> 0x1F300 \<and> cp \<le> 0x1F9FF) \<or>
             (cp \<ge> 0x2600 \<and> cp \<le> 0x26FF) \<or>
             (cp \<ge> 0x2700 \<and> cp \<le> 0x27BF) then 2
     else 1)"

text \<open>
  The ranges the specification lists as two columns wide (section 6), written from the
  specification's words, to be compared with the source's tests.
\<close>

definition spec_wide_range :: "u32 \<Rightarrow> bool" where
  "spec_wide_range cp \<longleftrightarrow>
     (0x1100 \<le> cp \<and> cp \<le> 0x115F) \<or>
     (0x2E80 \<le> cp \<and> cp \<le> 0x9FFF) \<or>
     (0xAC00 \<le> cp \<and> cp \<le> 0xD7A3) \<or>
     (0xF900 \<le> cp \<and> cp \<le> 0xFAFF) \<or>
     (0xFE10 \<le> cp \<and> cp \<le> 0xFE6F) \<or>
     (0xFF00 \<le> cp \<and> cp \<le> 0xFF60) \<or>
     (0xFFE0 \<le> cp \<and> cp \<le> 0xFFE6) \<or>
     (0x20000 \<le> cp \<and> cp \<le> 0x2FFFD) \<or>
     (0x30000 \<le> cp \<and> cp \<le> 0x3FFFD) \<or>
     (0x1F300 \<le> cp \<and> cp \<le> 0x1F9FF) \<or>
     (0x2600 \<le> cp \<and> cp \<le> 0x27BF)"

text \<open>The specification's width-0 classes: controls, combining marks, zero-width format characters.\<close>

definition spec_control :: "u32 \<Rightarrow> bool" where
  "spec_control cp \<longleftrightarrow> cp < 32 \<or> (0x7F \<le> cp \<and> cp < 0xA0)"

definition spec_combining :: "u32 \<Rightarrow> bool" where
  "spec_combining cp \<longleftrightarrow>
     (0x0300 \<le> cp \<and> cp \<le> 0x036F) \<or>
     (0x1AB0 \<le> cp \<and> cp \<le> 0x1AFF) \<or>
     (0x1DC0 \<le> cp \<and> cp \<le> 0x1DFF) \<or>
     (0x20D0 \<le> cp \<and> cp \<le> 0x20FF) \<or>
     (0xFE20 \<le> cp \<and> cp \<le> 0xFE2F)"

definition spec_zero_width_format :: "u32 \<Rightarrow> bool" where
  "spec_zero_width_format cp \<longleftrightarrow> cp = 0x200B \<or> cp = 0x200C \<or> cp = 0x200D \<or> cp = 0xFEFF"

definition spec_zero_width :: "u32 \<Rightarrow> bool" where
  "spec_zero_width cp \<longleftrightarrow> spec_control cp \<or> spec_combining cp \<or> spec_zero_width_format cp"


section \<open>UTF-8 decoding (\<^verbatim>\<open>tui_utf8_decode\<close>)\<close>

text \<open>
  \<^verbatim>\<open>data\<close> is the list of the \<^verbatim>\<open>len\<close> bytes that remain. The result is the number of
  bytes used and the code point. With no byte left the source returns 0 and does not
  write the code point (the callers never ask for that).
\<close>

definition tui_utf8_decode :: "u8 list \<Rightarrow> nat \<times> u32" where
  "tui_utf8_decode data =
    (if length data < 1 then (0, 0)
     else
       let b0 = data ! 0 in
       if b0 < 0x80 then (1, ucast b0)
       else if b0 AND 0xE0 = 0xC0 \<and> length data \<ge> 2 then
         (2, push_bit 6 (ucast (b0 AND 0x1F)) OR ucast (data ! 1 AND 0x3F))
       else if b0 AND 0xF0 = 0xE0 \<and> length data \<ge> 3 then
         (3, push_bit 12 (ucast (b0 AND 0x0F)) OR
             push_bit 6 (ucast (data ! 1 AND 0x3F)) OR
             ucast (data ! 2 AND 0x3F))
       else if b0 AND 0xF8 = 0xF0 \<and> length data \<ge> 4 then
         (4, push_bit 18 (ucast (b0 AND 0x07)) OR
             push_bit 12 (ucast (data ! 1 AND 0x3F)) OR
             push_bit 6 (ucast (data ! 2 AND 0x3F)) OR
             ucast (data ! 3 AND 0x3F))
       else (1, ucast b0))"

section \<open>The context\<close>

datatype tui_mouse_button =
  TUI_MOUSE_NONE | TUI_MOUSE_LEFT | TUI_MOUSE_MIDDLE | TUI_MOUSE_RIGHT |
  TUI_MOUSE_RELEASE | TUI_MOUSE_WHEEL_UP | TUI_MOUSE_WHEEL_DOWN | TUI_MOUSE_MOVE

definition TUI_MAX_WIDTH :: int where "TUI_MAX_WIDTH = 512"
definition TUI_MAX_HEIGHT :: int where "TUI_MAX_HEIGHT = 256"
definition TUI_INPUT_BUFFER_SIZE :: int where "TUI_INPUT_BUFFER_SIZE = 64"
definition TUI_OUTPUT_BUFFER_SIZE :: int where "TUI_OUTPUT_BUFFER_SIZE = 65536"
definition TUI_COLOR_DEFAULT :: u32 where "TUI_COLOR_DEFAULT = 0x80000000"
definition TUI_STYLE_NONE :: u8 where "TUI_STYLE_NONE = 0x00"

text \<open>
  \<^verbatim>\<open>struct tui_context\<close>. The two cell arrays and the input ring are stores from the
  C index to the element. \<^verbatim>\<open>output_buffer\<close> holds the \<^verbatim>\<open>output_pos\<close> bytes that wait in
  the buffer. \<^verbatim>\<open>tty_out\<close> is not a field of the source: it records every byte written to
  \<^verbatim>\<open>tty_fd\<close> so far, so that what a call emits can be stated.
\<close>

record tui_context =
  width :: int
  height :: int
  front_buffer :: "int \<Rightarrow> tui_cell"
  back_buffer :: "int \<Rightarrow> tui_cell"
  current_fg :: u32
  current_bg :: u32
  current_style :: u8
  input_buffer :: "int \<Rightarrow> u8"
  input_start :: int
  input_end :: int
  output_buffer :: "u8 list"
  cursor_x :: int
  cursor_y :: int
  cursor_visible :: bool
  button_pressed :: bool
  mouse_enabled :: bool
  ctx_mouse_x :: int
  ctx_mouse_y :: int
  ctx_mouse_button :: tui_mouse_button
  resized :: bool
  current_underline_color :: u32
  is_pasting :: bool
  initialized :: bool
  in_frame :: bool
  needs_redraw :: bool
  tty_out :: "u8 list"

section \<open>Drawing into the back buffer\<close>

text \<open>
  A context pointer is \<open>None\<close> for \<^verbatim>\<open>NULL\<close> and \<open>Some ctx\<close> for a pointer to a context
  whose contents are \<open>ctx\<close>; a call returns the contents after it.
\<close>

definition tui_set_fg :: "tui_context option \<Rightarrow> u32 \<Rightarrow> tui_context option" where
  "tui_set_fg ctxp color =
    (case ctxp of None \<Rightarrow> None | Some ctx \<Rightarrow> Some (ctx\<lparr>current_fg := color\<rparr>))"

definition tui_set_bg :: "tui_context option \<Rightarrow> u32 \<Rightarrow> tui_context option" where
  "tui_set_bg ctxp color =
    (case ctxp of None \<Rightarrow> None | Some ctx \<Rightarrow> Some (ctx\<lparr>current_bg := color\<rparr>))"

definition tui_set_style :: "tui_context option \<Rightarrow> u8 \<Rightarrow> tui_context option" where
  "tui_set_style ctxp st =
    (case ctxp of None \<Rightarrow> None | Some ctx \<Rightarrow> Some (ctx\<lparr>current_style := st\<rparr>))"

definition tui_set_underline_color :: "tui_context option \<Rightarrow> u32 \<Rightarrow> tui_context option" where
  "tui_set_underline_color ctxp color =
    (case ctxp of None \<Rightarrow> None | Some ctx \<Rightarrow> Some (ctx\<lparr>current_underline_color := color\<rparr>))"

definition tui_get_width :: "tui_context option \<Rightarrow> int" where
  "tui_get_width ctxp = (case ctxp of None \<Rightarrow> 0 | Some ctx \<Rightarrow> width ctx)"

definition tui_get_height :: "tui_context option \<Rightarrow> int" where
  "tui_get_height ctxp = (case ctxp of None \<Rightarrow> 0 | Some ctx \<Rightarrow> height ctx)"

definition tui_set_cell :: "tui_context option \<Rightarrow> int \<Rightarrow> int \<Rightarrow> u32 \<Rightarrow> tui_context option" where
  "tui_set_cell ctxp px py cp =
    (case ctxp of None \<Rightarrow> None | Some ctx \<Rightarrow>
      if \<not> in_frame ctx then Some ctx
      else if px < 0 \<or> px \<ge> width ctx \<or> py < 0 \<or> py \<ge> height ctx then Some ctx
      else
        let idx = py * TUI_MAX_WIDTH + px in
        Some (ctx\<lparr>back_buffer := (back_buffer ctx)(idx :=
          \<lparr>codepoint = cp, fg = current_fg ctx, bg = current_bg ctx,
           underline_color = current_underline_color ctx, style = current_style ctx\<rparr>)\<rparr>))"

definition tui_set_cell_wide :: "tui_context option \<Rightarrow> int \<Rightarrow> int \<Rightarrow> u32 \<Rightarrow> tui_context option" where
  "tui_set_cell_wide ctxp px py cp =
    (case ctxp of None \<Rightarrow> None | Some ctx \<Rightarrow>
      if \<not> in_frame ctx then Some ctx
      else if px < 0 \<or> px \<ge> width ctx - 1 \<or> py < 0 \<or> py \<ge> height ctx then Some ctx
      else
        let idx = py * TUI_MAX_WIDTH + px;
            idx2 = py * TUI_MAX_WIDTH + px + 1 in
        Some (ctx\<lparr>back_buffer := (back_buffer ctx)
          (idx := \<lparr>codepoint = cp, fg = current_fg ctx, bg = current_bg ctx,
                   underline_color = current_underline_color ctx, style = current_style ctx\<rparr>,
           idx2 := \<lparr>codepoint = 0x20, fg = current_fg ctx, bg = current_bg ctx,
                    underline_color = current_underline_color ctx, style = current_style ctx\<rparr>)\<rparr>))"

text \<open>
  The loop of \<^verbatim>\<open>tui_label\<close>. \<open>rest\<close> is the text from \<^verbatim>\<open>pos\<close> on, so \<^verbatim>\<open>pos < len\<close> is
  \<open>rest \<noteq> []\<close>; \<open>x0\<close> is the column the label started at. A C string is the list of its
  bytes before the terminating NUL.
\<close>

function label_loop :: "tui_context option \<Rightarrow> int \<Rightarrow> int \<Rightarrow> int \<Rightarrow> u8 list \<Rightarrow> tui_context option" where
  "label_loop ctxp x0 cur_x py rest =
    (case ctxp of None \<Rightarrow> None | Some ctx \<Rightarrow>
      if rest \<noteq> [] \<and> cur_x < width ctx then
        (let char_len = fst (tui_utf8_decode rest);
             cp = snd (tui_utf8_decode rest);
             rest' = drop char_len rest in
         if cp = 0x0A then label_loop ctxp x0 x0 (int32 (py + 1)) rest'
         else if cp \<ge> 32 then
           (let char_width = tui_char_width cp in
            if char_width = 2 then
              (if int32 (cur_x + 1) < width ctx
               then label_loop (tui_set_cell_wide ctxp cur_x py cp) x0 (int32 (cur_x + 2)) py rest'
               else label_loop ctxp x0 (int32 (cur_x + 1)) py rest')
            else if char_width = 1
              then label_loop (tui_set_cell ctxp cur_x py cp) x0 (int32 (cur_x + 1)) py rest'
            else label_loop ctxp x0 cur_x py rest')
         else label_loop ctxp x0 cur_x py rest')
      else ctxp)"
  by pat_completeness auto

termination label_loop
proof -
  have shorter: "length data - fst (tui_utf8_decode data) < length data"
    if "data \<noteq> []" for data
    using that by (cases data) (simp_all add: tui_utf8_decode_def Let_def)
  show ?thesis
    by (relation "measure (\<lambda>(ctxp, x0, cur_x, py, rest). length rest)")
       (simp_all add: shorter)
qed

declare label_loop.simps [simp del]

definition tui_label :: "tui_context option \<Rightarrow> int \<Rightarrow> int \<Rightarrow> u8 list option \<Rightarrow> tui_context option" where
  "tui_label ctxp px py text =
    (case ctxp of None \<Rightarrow> None | Some ctx \<Rightarrow>
      if \<not> in_frame ctx then Some ctx
      else (case text of None \<Rightarrow> Some ctx
            | Some str \<Rightarrow> label_loop (Some ctx) px px py str))"


section \<open>Output encoder\<close>

text \<open>
  \<^verbatim>\<open>tui_output_flush\<close> writes the waiting bytes to the terminal and empties the buffer.
  The terminal is taken to accept every write (the retry loop of the source ends with all
  bytes written).
\<close>

definition tui_output_flush :: "tui_context \<Rightarrow> tui_context" where
  "tui_output_flush ctx =
    (if length (output_buffer ctx) > 0
     then ctx\<lparr>tty_out := tty_out ctx @ output_buffer ctx, output_buffer := []\<rparr>
     else ctx)"

text \<open>
  \<^verbatim>\<open>tui_output_write\<close> copies the data in chunks and flushes when the buffer is full.
  \<^verbatim>\<open>output_pos\<close> never exceeds the buffer size, so the free space is a natural number.
\<close>

function tui_output_write :: "tui_context \<Rightarrow> u8 list \<Rightarrow> tui_context" where
  "tui_output_write ctx data =
    (if length data > 0 then
       (let space = nat TUI_OUTPUT_BUFFER_SIZE - length (output_buffer ctx);
            ctx1 = (if space = 0 then tui_output_flush ctx else ctx);
            space1 = (if space = 0 then nat TUI_OUTPUT_BUFFER_SIZE else space);
            chunk = (if length data < space1 then length data else space1)
        in tui_output_write
             (ctx1\<lparr>output_buffer := output_buffer ctx1 @ take chunk data\<rparr>)
             (drop chunk data))
     else ctx)"
  by pat_completeness auto

termination tui_output_write
  by (relation "measure (\<lambda>(ctx, data). length data)")
     (auto simp: TUI_OUTPUT_BUFFER_SIZE_def)

declare tui_output_write.simps [simp del]

text \<open>A string literal of the source as bytes.\<close>

definition ascii :: "string \<Rightarrow> u8 list" where
  "ascii s = map (\<lambda>c. of_nat (of_char c)) s"

definition ESC :: u8 where "ESC = 0x1B"

definition tui_output_str :: "tui_context \<Rightarrow> u8 list \<Rightarrow> tui_context" where
  "tui_output_str ctx str = tui_output_write ctx str"

text \<open>
  The digit loop of \<^verbatim>\<open>tui_output_int\<close>: \<open>pos\<close> counts down from 15 in a 16-byte buffer,
  \<open>acc\<close> is the part of the buffer already filled.
\<close>

function int_digits :: "int \<Rightarrow> nat \<Rightarrow> u8 list \<Rightarrow> nat \<times> u8 list" where
  "int_digits v pos acc =
    (if v > 0 \<and> pos > 0
     then int_digits (v div 10) (pos - 1) (of_int (0x30 + v mod 10) # acc)
     else (pos, acc))"
  by pat_completeness auto

termination int_digits
  by (relation "measure (\<lambda>(v, pos, acc). pos)") auto

declare int_digits.simps [simp del]

definition int_text :: "int \<Rightarrow> u8 list" where
  "int_text v =
    (if v = 0 then [0x30]
     else
       let neg = (v < 0);
           v1 = (if neg then int32 (- v) else v);
           r = int_digits v1 15 []
       in if neg \<and> fst r > 0 then 0x2D # snd r else snd r)"

definition tui_output_int :: "tui_context \<Rightarrow> int \<Rightarrow> tui_context" where
  "tui_output_int ctx v = tui_output_str ctx (int_text v)"

definition tui_ansi_move_cursor :: "tui_context \<Rightarrow> int \<Rightarrow> int \<Rightarrow> tui_context" where
  "tui_ansi_move_cursor ctx px py =
    tui_output_str
      (tui_output_int
        (tui_output_str
          (tui_output_int (tui_output_str ctx (ESC # ascii ''['')) (int32 (py + 1)))
          (ascii '';''))
        (int32 (px + 1)))
      (ascii ''H'')"

definition tui_ansi_hide_cursor :: "tui_context \<Rightarrow> tui_context" where
  "tui_ansi_hide_cursor ctx = tui_output_str ctx (ESC # ascii ''[?25l'')"

definition tui_ansi_show_cursor :: "tui_context \<Rightarrow> tui_context" where
  "tui_ansi_show_cursor ctx = tui_output_str ctx (ESC # ascii ''[?25h'')"

definition tui_ansi_reset :: "tui_context \<Rightarrow> tui_context" where
  "tui_ansi_reset ctx = tui_output_str ctx (ESC # ascii ''[0m'')"

text \<open>The three colour components, each printed in decimal.\<close>

definition rgb_text :: "u32 \<Rightarrow> u8 list" where
  "rgb_text color =
     int_text (uint (drop_bit 16 color AND 0xFF)) @ ascii '';'' @
     int_text (uint (drop_bit 8 color AND 0xFF)) @ ascii '';'' @
     int_text (uint (color AND 0xFF)) @ ascii ''m''"

definition tui_ansi_set_fg :: "tui_context \<Rightarrow> u32 \<Rightarrow> tui_context" where
  "tui_ansi_set_fg ctx color =
    (if color AND 0x80000000 \<noteq> 0 then tui_output_str ctx (ESC # ascii ''[39m'')
     else
       tui_output_str
        (tui_output_int
          (tui_output_str
            (tui_output_int
              (tui_output_str
                (tui_output_int
                  (tui_output_str ctx (ESC # ascii ''[38;2;''))
                  (uint (drop_bit 16 color AND 0xFF)))
                (ascii '';''))
              (uint (drop_bit 8 color AND 0xFF)))
            (ascii '';''))
          (uint (color AND 0xFF)))
        (ascii ''m''))"

definition tui_ansi_set_bg :: "tui_context \<Rightarrow> u32 \<Rightarrow> tui_context" where
  "tui_ansi_set_bg ctx color =
    (if color AND 0x80000000 \<noteq> 0 then tui_output_str ctx (ESC # ascii ''[49m'')
     else
       tui_output_str
        (tui_output_int
          (tui_output_str
            (tui_output_int
              (tui_output_str
                (tui_output_int
                  (tui_output_str ctx (ESC # ascii ''[48;2;''))
                  (uint (drop_bit 16 color AND 0xFF)))
                (ascii '';''))
              (uint (drop_bit 8 color AND 0xFF)))
            (ascii '';''))
          (uint (color AND 0xFF)))
        (ascii ''m''))"

definition tui_ansi_set_style :: "tui_context \<Rightarrow> u8 \<Rightarrow> tui_context" where
  "tui_ansi_set_style ctx st =
    (let c1 = (if st AND 0x01 \<noteq> 0 then tui_output_str ctx (ESC # ascii ''[1m'') else ctx);
         c2 = (if st AND 0x02 \<noteq> 0 then tui_output_str c1 (ESC # ascii ''[2m'') else c1);
         c3 = (if st AND 0x04 \<noteq> 0 then tui_output_str c2 (ESC # ascii ''[3m'') else c2);
         c4 = (if st AND 0x08 \<noteq> 0 then tui_output_str c3 (ESC # ascii ''[4m'') else c3);
         c5 = (if st AND 0x10 \<noteq> 0 then tui_output_str c4 (ESC # ascii ''[5m'') else c4);
         c6 = (if st AND 0x20 \<noteq> 0 then tui_output_str c5 (ESC # ascii ''[7m'') else c5);
         c7 = (if st AND 0x40 \<noteq> 0 then tui_output_str c6 (ESC # ascii ''[9m'') else c6)
     in if st AND 0x80 \<noteq> 0 then tui_output_str c7 (ESC # ascii ''[4:3m'') else c7)"

text \<open>
  The source formats the underline colour with \<^verbatim>\<open>snprintf\<close> and \<^verbatim>\<open>%d\<close> into a 24-byte
  buffer; the longest result has 19 characters, so nothing is cut.
\<close>

definition tui_ansi_set_underline_color :: "tui_context \<Rightarrow> u32 \<Rightarrow> tui_context" where
  "tui_ansi_set_underline_color ctx color =
    (if color AND 0x80000000 \<noteq> 0 then tui_output_str ctx (ESC # ascii ''[59m'')
     else tui_output_str ctx (ESC # ascii ''[58;2;'' @ rgb_text color))"

definition tui_ansi_begin_sync :: "tui_context \<Rightarrow> tui_context" where
  "tui_ansi_begin_sync ctx = tui_output_str ctx (ESC # ascii ''[?2026h'')"

definition tui_ansi_end_sync :: "tui_context \<Rightarrow> tui_context" where
  "tui_ansi_end_sync ctx = tui_output_str ctx (ESC # ascii ''[?2026l'')"

section \<open>UTF-8 encoding (\<^verbatim>\<open>tui_utf8_encode\<close>)\<close>

definition tui_utf8_encode :: "u32 \<Rightarrow> u8 list" where
  "tui_utf8_encode cp =
    (if cp < 0x80 then [ucast cp]
     else if cp < 0x800 then
       [ucast (0xC0 OR drop_bit 6 cp), ucast (0x80 OR (cp AND 0x3F))]
     else if cp < 0x10000 then
       [ucast (0xE0 OR drop_bit 12 cp), ucast (0x80 OR (drop_bit 6 cp AND 0x3F)),
        ucast (0x80 OR (cp AND 0x3F))]
     else if cp < 0x110000 then
       [ucast (0xF0 OR drop_bit 18 cp), ucast (0x80 OR (drop_bit 12 cp AND 0x3F)),
        ucast (0x80 OR (drop_bit 6 cp AND 0x3F)), ucast (0x80 OR (cp AND 0x3F))]
     else [0x3F])"

section \<open>Buffers and terminal size\<close>

definition tui_make_empty_cell :: tui_cell where
  "tui_make_empty_cell =
    \<lparr>codepoint = 0x20, fg = TUI_COLOR_DEFAULT, bg = TUI_COLOR_DEFAULT,
     underline_color = TUI_COLOR_DEFAULT, style = TUI_STYLE_NONE\<rparr>"

text \<open>A \<^verbatim>\<open>for (i = 0; i < n; i++)\<close> loop over a state.\<close>

definition for_loop :: "int \<Rightarrow> (int \<Rightarrow> 's \<Rightarrow> 's) \<Rightarrow> 's \<Rightarrow> 's" where
  "for_loop n body s = foldl (\<lambda>s i. body i s) s (map int [0..<nat n])"

definition tui_clear_buffer :: "(int \<Rightarrow> tui_cell) \<Rightarrow> int \<Rightarrow> int \<Rightarrow> (int \<Rightarrow> tui_cell)" where
  "tui_clear_buffer buffer w h =
    for_loop h (\<lambda>py. for_loop w (\<lambda>px b. b(py * TUI_MAX_WIDTH + px := tui_make_empty_cell))) buffer"

definition tui_cell_equal :: "tui_cell \<Rightarrow> tui_cell \<Rightarrow> bool" where
  "tui_cell_equal a b \<longleftrightarrow>
     codepoint a = codepoint b \<and> fg a = fg b \<and> bg a = bg b \<and>
     underline_color a = underline_color b \<and> style a = style b"

text \<open>
  \<^verbatim>\<open>tui_get_terminal_size\<close> (POSIX): \<open>ws\<close> is what the size query returns, \<open>None\<close> when it
  fails, else the columns and rows.
\<close>

definition tui_get_terminal_size :: "tui_context \<Rightarrow> (int \<times> int) option \<Rightarrow> tui_context" where
  "tui_get_terminal_size ctx ws =
    (let c1 = (case ws of
                 Some (ws_col, ws_row) \<Rightarrow>
                   if ws_col > 0 \<and> ws_row > 0 then ctx\<lparr>width := ws_col, height := ws_row\<rparr>
                   else ctx\<lparr>width := 80, height := 24\<rparr>
               | None \<Rightarrow> ctx\<lparr>width := 80, height := 24\<rparr>);
         c2 = (if width c1 > TUI_MAX_WIDTH then c1\<lparr>width := TUI_MAX_WIDTH\<rparr> else c1)
     in if height c2 > TUI_MAX_HEIGHT then c2\<lparr>height := TUI_MAX_HEIGHT\<rparr> else c2)"

section \<open>Frames\<close>

definition tui_begin_frame :: "tui_context option \<Rightarrow> (int \<times> int) option \<Rightarrow> tui_context option" where
  "tui_begin_frame ctxp ws =
    (case ctxp of None \<Rightarrow> None | Some ctx \<Rightarrow>
      if \<not> initialized ctx then Some ctx
      else
        let c1 = tui_get_terminal_size ctx ws;
            c2 = c1\<lparr>back_buffer := tui_clear_buffer (back_buffer c1) TUI_MAX_WIDTH TUI_MAX_HEIGHT\<rparr>
        in Some (c2\<lparr>current_fg := TUI_COLOR_DEFAULT, current_bg := TUI_COLOR_DEFAULT,
                     current_style := TUI_STYLE_NONE, button_pressed := False,
                     in_frame := True\<rparr>))"

text \<open>The local variables of the diff loop of \<^verbatim>\<open>tui_end_frame\<close>, with the context.\<close>

record diff_state =
  d_ctx :: tui_context
  last_fg :: u32
  last_bg :: u32
  last_underline_color :: u32
  last_style :: u8
  last_x :: int
  last_y :: int

text \<open>The body of the inner loop: one cell at column \<open>px\<close> of row \<open>py\<close>.\<close>

definition end_frame_cell :: "int \<Rightarrow> int \<Rightarrow> diff_state \<Rightarrow> diff_state" where
  "end_frame_cell py px st =
    (let ctx = d_ctx st;
         idx = py * TUI_MAX_WIDTH + px;
         front_cell = front_buffer ctx idx;
         back_cell = back_buffer ctx idx
     in if \<not> tui_cell_equal front_cell back_cell then
          let c1 = (if last_x st \<noteq> px - 1 \<or> last_y st \<noteq> py
                    then tui_ansi_move_cursor ctx px py else ctx);
              s2 = (if style back_cell \<noteq> last_style st
                    then st\<lparr>d_ctx := tui_ansi_set_style (tui_ansi_reset c1) (style back_cell),
                            last_style := style back_cell,
                            last_fg := 0xFFFFFFFF, last_bg := 0xFFFFFFFF,
                            last_underline_color := 0xFFFFFFFF\<rparr>
                    else st\<lparr>d_ctx := c1\<rparr>);
              s3 = (if fg back_cell \<noteq> last_fg s2
                    then s2\<lparr>d_ctx := tui_ansi_set_fg (d_ctx s2) (fg back_cell), last_fg := fg back_cell\<rparr>
                    else s2);
              s4 = (if bg back_cell \<noteq> last_bg s3
                    then s3\<lparr>d_ctx := tui_ansi_set_bg (d_ctx s3) (bg back_cell), last_bg := bg back_cell\<rparr>
                    else s3);
              s5 = (if underline_color back_cell \<noteq> last_underline_color s4
                    then s4\<lparr>d_ctx := tui_ansi_set_underline_color (d_ctx s4) (underline_color back_cell),
                            last_underline_color := underline_color back_cell\<rparr>
                    else s4);
              c6 = tui_output_write (d_ctx s5) (tui_utf8_encode (codepoint back_cell));
              c7 = c6\<lparr>front_buffer := (front_buffer c6)(idx := back_cell)\<rparr>
          in s5\<lparr>d_ctx := c7, last_x := px, last_y := py\<rparr>
        else st)"

text \<open>
  The two loops read \<^verbatim>\<open>ctx->width\<close> and \<^verbatim>\<open>ctx->height\<close> at every test; the body never
  changes them, so the bounds are those at loop entry.
\<close>

definition end_frame_diff :: "tui_context \<Rightarrow> diff_state" where
  "end_frame_diff ctx =
    for_loop (height ctx) (\<lambda>py. for_loop (width ctx) (end_frame_cell py))
      \<lparr>d_ctx = ctx, last_fg = 0xFFFFFFFF, last_bg = 0xFFFFFFFF,
       last_underline_color = 0xFFFFFFFF, last_style = 0xFF, last_x = - 2, last_y = - 2\<rparr>"

definition tui_end_frame :: "tui_context option \<Rightarrow> tui_context option" where
  "tui_end_frame ctxp =
    (case ctxp of None \<Rightarrow> None | Some ctx \<Rightarrow>
      if \<not> initialized ctx \<or> \<not> in_frame ctx then Some ctx
      else
        let c1 = (if needs_redraw ctx then
                    (let r1 = ctx\<lparr>needs_redraw := False\<rparr>;
                         r2 = tui_output_str r1 (ESC # ascii ''[0m'');
                         r3 = tui_output_str r2 (ESC # ascii ''[2J'');
                         r4 = tui_output_str r3 (ESC # ascii ''[H'');
                         r5 = tui_output_flush r4
                     in r5\<lparr>front_buffer :=
                             tui_clear_buffer (front_buffer r5) TUI_MAX_WIDTH TUI_MAX_HEIGHT\<rparr>)
                  else ctx);
            c2 = tui_ansi_begin_sync c1;
            c3 = d_ctx (end_frame_diff c2);
            c4 = (if cursor_visible c3
                  then tui_ansi_show_cursor (tui_ansi_move_cursor c3 (cursor_x c3) (cursor_y c3))
                  else c3);
            c5 = tui_ansi_end_sync c4;
            c6 = tui_output_flush c5
        in Some (c6\<lparr>in_frame := False\<rparr>))"

section \<open>More drawing calls\<close>

definition tui_clear :: "tui_context option \<Rightarrow> tui_context option" where
  "tui_clear ctxp =
    (case ctxp of None \<Rightarrow> None | Some ctx \<Rightarrow>
      if \<not> in_frame ctx then Some ctx
      else for_loop (height ctx) (\<lambda>py. for_loop (width ctx) (\<lambda>px c. tui_set_cell c px py 0x20))
             (Some ctx))"

definition tui_fill :: "tui_context option \<Rightarrow> int \<Rightarrow> int \<Rightarrow> int \<Rightarrow> int \<Rightarrow> u32 \<Rightarrow> tui_context option" where
  "tui_fill ctxp px py w h ch =
    (case ctxp of None \<Rightarrow> None | Some ctx \<Rightarrow>
      if \<not> in_frame ctx then Some ctx
      else for_loop h (\<lambda>j. for_loop w (\<lambda>i c. tui_set_cell c (px + i) (py + j) ch)) (Some ctx))"

definition tui_hline :: "tui_context option \<Rightarrow> int \<Rightarrow> int \<Rightarrow> int \<Rightarrow> u32 \<Rightarrow> tui_context option" where
  "tui_hline ctxp px py len ch =
    (case ctxp of None \<Rightarrow> None | Some ctx \<Rightarrow>
      if \<not> in_frame ctx then Some ctx
      else for_loop len (\<lambda>i c. tui_set_cell c (px + i) py ch) (Some ctx))"

definition tui_vline :: "tui_context option \<Rightarrow> int \<Rightarrow> int \<Rightarrow> int \<Rightarrow> u32 \<Rightarrow> tui_context option" where
  "tui_vline ctxp px py len ch =
    (case ctxp of None \<Rightarrow> None | Some ctx \<Rightarrow>
      if \<not> in_frame ctx then Some ctx
      else for_loop len (\<lambda>i c. tui_set_cell c px (py + i) ch) (Some ctx))"

definition tui_set_cursor :: "tui_context option \<Rightarrow> int \<Rightarrow> int \<Rightarrow> tui_context option" where
  "tui_set_cursor ctxp px py =
    (case ctxp of None \<Rightarrow> None | Some ctx \<Rightarrow> Some (ctx\<lparr>cursor_x := px, cursor_y := py\<rparr>))"

definition tui_show_cursor :: "tui_context option \<Rightarrow> bool \<Rightarrow> tui_context option" where
  "tui_show_cursor ctxp show =
    (case ctxp of None \<Rightarrow> None | Some ctx \<Rightarrow>
      let c1 = ctx\<lparr>cursor_visible := show\<rparr>
      in if \<not> in_frame c1
         then Some (tui_output_flush
                (if show then tui_ansi_show_cursor c1 else tui_ansi_hide_cursor c1))
         else Some c1)"

text \<open>The calls a program makes between \<^verbatim>\<open>tui_begin_frame\<close> and \<^verbatim>\<open>tui_end_frame\<close>.\<close>

datatype draw_call =
    SetFg u32
  | SetBg u32
  | SetStyle u8
  | SetUnderlineColor u32
  | SetCell int int u32
  | SetCellWide int int u32
  | Label int int "u8 list option"
  | Clear
  | Fill int int int int u32
  | HLine int int int u32
  | VLine int int int u32
  | SetCursor int int
  | ShowCursor bool

fun draw :: "tui_context option \<Rightarrow> draw_call \<Rightarrow> tui_context option" where
  "draw c (SetFg color) = tui_set_fg c color"
| "draw c (SetBg color) = tui_set_bg c color"
| "draw c (SetStyle st) = tui_set_style c st"
| "draw c (SetUnderlineColor color) = tui_set_underline_color c color"
| "draw c (SetCell px py cp) = tui_set_cell c px py cp"
| "draw c (SetCellWide px py cp) = tui_set_cell_wide c px py cp"
| "draw c (Label px py str) = tui_label c px py str"
| "draw c Clear = tui_clear c"
| "draw c (Fill px py w h ch) = tui_fill c px py w h ch"
| "draw c (HLine px py len ch) = tui_hline c px py len ch"
| "draw c (VLine px py len ch) = tui_vline c px py len ch"
| "draw c (SetCursor px py) = tui_set_cursor c px py"
| "draw c (ShowCursor b) = tui_show_cursor c b"

definition draw_all :: "tui_context option \<Rightarrow> draw_call list \<Rightarrow> tui_context option" where
  "draw_all c calls = foldl draw c calls"

text \<open>
  One whole frame: \<^verbatim>\<open>tui_begin_frame\<close>, the drawing calls, \<^verbatim>\<open>tui_end_frame\<close>.
\<close>

definition frame :: "(int \<times> int) option \<Rightarrow> draw_call list \<Rightarrow> tui_context option \<Rightarrow> tui_context option" where
  "frame ws calls c = tui_end_frame (draw_all (tui_begin_frame c ws) calls)"


section \<open>Auxiliary notions for the proofs\<close>

text \<open>
  \<open>emits f bytes\<close>: the step \<open>f\<close> changes nothing but the output buffer and the
  terminal, and appends exactly \<open>bytes\<close> to the stream of bytes sent or waiting.
\<close>

definition emits :: "(tui_context \<Rightarrow> tui_context) \<Rightarrow> u8 list \<Rightarrow> bool" where
  "emits f bytes \<longleftrightarrow>
     (\<forall>ctx. \<exists>t b. f ctx = ctx\<lparr>output_buffer := b, tty_out := t\<rparr> \<and>
                    t @ b = tty_out ctx @ output_buffer ctx @ bytes)"

text \<open>\<open>output_only a b\<close>: \<open>b\<close> is \<open>a\<close> but for the output buffer and the terminal.\<close>

definition output_only :: "tui_context \<Rightarrow> tui_context \<Rightarrow> bool" where
  "output_only a b \<longleftrightarrow> (\<exists>t ob. b = a\<lparr>output_buffer := ob, tty_out := t\<rparr>)"

text \<open>The cells where the front buffer already shows the back buffer.\<close>

definition agree :: "tui_context \<Rightarrow> int set" where
  "agree c = {i. front_buffer c i = back_buffer c i}"

text \<open>
  \<open>flushes a b\<close>: from \<open>a\<close> to \<open>b\<close> only the front buffer, the output buffer and the
  terminal changed, and every cell that agreed still agrees.
\<close>

definition flushes :: "tui_context \<Rightarrow> tui_context \<Rightarrow> bool" where
  "flushes a b \<longleftrightarrow>
     (\<exists>F t ob. b = a\<lparr>front_buffer := F, output_buffer := ob, tty_out := t\<rparr>) \<and>
     agree a \<subseteq> agree b"

text \<open>Index of the cell at column \<open>px\<close> of row \<open>py\<close>, and the cells on screen.\<close>

definition cell_index :: "int \<Rightarrow> int \<Rightarrow> int" where
  "cell_index px py = py * TUI_MAX_WIDTH + px"

definition visible_cells :: "tui_context \<Rightarrow> int set" where
  "visible_cells c = {cell_index px py | px py. 0 \<le> px \<and> px < width c \<and> 0 \<le> py \<and> py < height c}"

text \<open>
  \<open>composes a b\<close>: from \<open>a\<close> to \<open>b\<close> a drawing call ran inside a frame: the front buffer,
  the size, the frame flags and the output are as they were.
\<close>

definition composes :: "tui_context option \<Rightarrow> tui_context option \<Rightarrow> bool" where
  "composes a b \<longleftrightarrow>
     (case a of None \<Rightarrow> b = None
      | Some x \<Rightarrow> (\<exists>y. b = Some y \<and>
          front_buffer y = front_buffer x \<and> width y = width x \<and> height y = height x \<and>
          in_frame y = in_frame x \<and> initialized y = initialized x \<and>
          needs_redraw y = needs_redraw x \<and> tty_out y = tty_out x \<and>
          output_buffer y = output_buffer x))"

text \<open>The byte sequences of the synchronized-output wrapper and of the cursor placement.\<close>

definition BEGIN_SYNC :: "u8 list" where "BEGIN_SYNC = ESC # ascii ''[?2026h''"
definition END_SYNC :: "u8 list" where "END_SYNC = ESC # ascii ''[?2026l''"

definition move_cursor_bytes :: "int \<Rightarrow> int \<Rightarrow> u8 list" where
  "move_cursor_bytes px py =
     ESC # ascii ''['' @ int_text (py + 1) @ ascii '';'' @ int_text (px + 1) @ ascii ''H''"

definition show_cursor_bytes :: "u8 list" where
  "show_cursor_bytes = ESC # ascii ''[?25h''"


text \<open>A context pointer that is \<^verbatim>\<open>NULL\<close> or points to a context inside a frame.\<close>

definition framed :: "tui_context option \<Rightarrow> bool" where
  "framed c \<longleftrightarrow> (case c of None \<Rightarrow> True | Some ctx \<Rightarrow> in_frame ctx)"


text \<open>
  The context \<^verbatim>\<open>tui_create\<close> returns when the terminal setup and both allocations
  succeed: fields zeroed, the size queried, both buffers cleared, the alternate screen
  entered, the cursor hidden and the screen cleared. \<open>ws\<close> is the result of the size query.
\<close>

definition created :: "(int \<times> int) option \<Rightarrow> tui_context" where
  "created ws =
    (let z = \<lparr>width = 0, height = 0,
              front_buffer = (\<lambda>i. tui_make_empty_cell),
              back_buffer = (\<lambda>i. tui_make_empty_cell),
              current_fg = TUI_COLOR_DEFAULT, current_bg = TUI_COLOR_DEFAULT,
              current_style = TUI_STYLE_NONE,
              input_buffer = (\<lambda>i. 0), input_start = 0, input_end = 0,
              output_buffer = [],
              cursor_x = 0, cursor_y = 0, cursor_visible = False,
              button_pressed = False, mouse_enabled = False,
              ctx_mouse_x = 0, ctx_mouse_y = 0, ctx_mouse_button = TUI_MOUSE_NONE,
              resized = False, current_underline_color = TUI_COLOR_DEFAULT,
              is_pasting = False, initialized = True, in_frame = False, needs_redraw = True,
              tty_out = ESC # ascii ''[?1049h'' @ ESC # ascii ''[?25l'' @
                        ESC # ascii ''[0m'' @ ESC # ascii ''[2J'' @ ESC # ascii ''[H''\<rparr>
     in tui_get_terminal_size z ws)"


text \<open>The drawing calls of the "Hello write" scenario, and the same with a visible cursor.\<close>

definition hello_calls :: "draw_call list" where
  "hello_calls = [SetFg 0x00CC0000, Label 0 0 (Some (ascii ''Hi''))]"

definition typing_calls :: "draw_call list" where
  "typing_calls = hello_calls @ [SetCursor 2 0, ShowCursor True]"


text \<open>The back buffer those calls compose on a 10 by 3 terminal, starting from the context \<open>c\<close>.\<close>

definition hello_back :: "tui_context \<Rightarrow> int \<Rightarrow> tui_cell" where
  "hello_back c = (tui_clear_buffer (back_buffer c) TUI_MAX_WIDTH TUI_MAX_HEIGHT)
      (0 := \<lparr>codepoint = 0x48, fg = 0x00CC0000, bg = TUI_COLOR_DEFAULT,
               underline_color = current_underline_color c, style = TUI_STYLE_NONE\<rparr>,
       1 := \<lparr>codepoint = 0x69, fg = 0x00CC0000, bg = TUI_COLOR_DEFAULT,
               underline_color = current_underline_color c, style = TUI_STYLE_NONE\<rparr>)"


text \<open>A context inside a frame on a 10 by 3 terminal, before any drawing call.\<close>

definition in_frame_context :: tui_context where
  "in_frame_context = the (tui_begin_frame (Some (created (Some (10, 3)))) (Some (10, 3)))"


section \<open>The label of the specification\<close>

text \<open>
  The code points of a byte string, decoded left to right with \<^verbatim>\<open>tui_utf8_decode\<close>.
\<close>

function code_points :: "u8 list \<Rightarrow> u32 list" where
  "code_points data =
    (if data = [] then []
     else snd (tui_utf8_decode data) # code_points (drop (fst (tui_utf8_decode data)) data))"
  by pat_completeness auto

termination code_points
proof -
  have shorter: "length data - fst (tui_utf8_decode data) < length data"
    if "data \<noteq> []" for data
    using that by (cases data) (simp_all add: tui_utf8_decode_def Let_def)
  show ?thesis
    by (relation "measure length") (simp_all add: shorter)
qed

declare code_points.simps [simp del]

text \<open>
  \<^verbatim>\<open>tui_label\<close> in the words of the specification, with exact integers. \<open>W\<close> is the
  width of the screen, \<open>x0\<close> the column the label starts at, (\<open>cur_x\<close>, \<open>py\<close>) the place of
  the next code point. A newline moves to (\<open>x0\<close>, \<open>py + 1\<close>); a code point of width 0
  writes nothing and does not advance; a code point of width 2 is written with
  \<^verbatim>\<open>tui_set_cell_wide\<close> unless its second column is at or beyond \<open>W\<close>, where it writes no
  cell, and advances by 2; a code point of width 1 is written with \<^verbatim>\<open>tui_set_cell\<close> and
  advances by 1. Every code point of the text is treated so, to the end of the text.
\<close>

fun spec_label ::
  "int \<Rightarrow> tui_context option \<Rightarrow> int \<Rightarrow> int \<Rightarrow> int \<Rightarrow> u32 list \<Rightarrow> tui_context option" where
  "spec_label W ctxp x0 cur_x py [] = ctxp"
| "spec_label W ctxp x0 cur_x py (cp # cps) =
    (if cp = 0x0A then spec_label W ctxp x0 x0 (py + 1) cps
     else if tui_char_width cp = 0 then spec_label W ctxp x0 cur_x py cps
     else if tui_char_width cp = 2 then
       (if cur_x + 1 < W
        then spec_label W (tui_set_cell_wide ctxp cur_x py cp) x0 (cur_x + 2) py cps
        else spec_label W ctxp x0 (cur_x + 2) py cps)
     else spec_label W (tui_set_cell ctxp cur_x py cp) x0 (cur_x + 1) py cps)"

text \<open>
  The code points that \<^verbatim>\<open>tui_label\<close> reaches: the text up to the first code point that
  would be placed at or beyond the right edge. The source tests the column before it
  decodes, so what follows that code point, also a newline and the lines after it, is
  never looked at.
\<close>

fun reached :: "int \<Rightarrow> int \<Rightarrow> int \<Rightarrow> u32 list \<Rightarrow> u32 list" where
  "reached W x0 cur_x [] = []"
| "reached W x0 cur_x (cp # cps) =
    (if cur_x < W
     then cp # reached W x0 (if cp = 0x0A then x0 else cur_x + tui_char_width cp) cps
     else [])"

text \<open>
  The cell at column \<open>px\<close> of row \<open>py\<close> of the back buffer that a drawing call leaves.
\<close>

definition drawn :: "tui_context option \<Rightarrow> int \<Rightarrow> int \<Rightarrow> tui_cell option" where
  "drawn r px py = (case r of None \<Rightarrow> None | Some c \<Rightarrow> Some (back_buffer c (cell_index px py)))"

text \<open>
  A frame on a 10 by 3 terminal after \<^verbatim>\<open>tui_set_fg(ctx, 0x00CC0000)\<close>, and the cell that
  \<^verbatim>\<open>tui_set_cell\<close> writes for a code point there.
\<close>

definition red_context :: tui_context where
  "red_context = the (tui_set_fg (Some in_frame_context) 0x00CC0000)"

definition red_cell :: "u32 \<Rightarrow> tui_cell" where
  "red_cell cp = \<lparr>codepoint = cp, fg = 0x00CC0000, bg = TUI_COLOR_DEFAULT,
                  underline_color = TUI_COLOR_DEFAULT, style = TUI_STYLE_NONE\<rparr>"

text \<open>The two-line label "ab", newline, "cd", and the label of a wide code point and "A".\<close>

definition two_lines :: "u8 list" where
  "two_lines = ascii ''ab'' @ [0x0A] @ ascii ''cd''"

definition wide_then_A :: "u8 list" where
  "wide_then_A = [0xE4, 0xB8, 0xAD, 0x41]"

section \<open>Events\<close>

datatype tui_key =
  TUI_KEY_NONE | TUI_KEY_UP | TUI_KEY_DOWN | TUI_KEY_LEFT | TUI_KEY_RIGHT | TUI_KEY_ENTER |
  TUI_KEY_ESC | TUI_KEY_BACKSPACE | TUI_KEY_TAB | TUI_KEY_SPACE | TUI_KEY_CHAR |
  TUI_KEY_HOME | TUI_KEY_END | TUI_KEY_PAGEUP | TUI_KEY_PAGEDOWN | TUI_KEY_INSERT |
  TUI_KEY_DELETE | TUI_KEY_F1 | TUI_KEY_F2 | TUI_KEY_F3 | TUI_KEY_F4 | TUI_KEY_F5 |
  TUI_KEY_F6 | TUI_KEY_F7 | TUI_KEY_F8 | TUI_KEY_F9 | TUI_KEY_F10 | TUI_KEY_F11 | TUI_KEY_F12

datatype tui_event_type =
  TUI_EVENT_NONE | TUI_EVENT_KEY | TUI_EVENT_MOUSE | TUI_EVENT_RESIZE |
  TUI_EVENT_PASTE_START | TUI_EVENT_PASTE_END | TUI_EVENT_FOCUS_IN | TUI_EVENT_FOCUS_OUT

record tui_event =
  ev_type :: tui_event_type
  key :: tui_key
  ch :: u32
  mouse_button :: tui_mouse_button
  mouse_x :: int
  mouse_y :: int
  new_width :: int
  new_height :: int
  ctrl :: bool
  alt :: bool
  shift :: bool

section \<open>Input ring\<close>

text \<open>
  The indices \<^verbatim>\<open>input_start\<close> and \<^verbatim>\<open>input_end\<close> are only ever assigned a value
  \<^verbatim>\<open>% TUI_INPUT_BUFFER_SIZE\<close> of a non-negative number, so they stay in 0..63 and C's
  remainder agrees with \<open>mod\<close>.
\<close>

definition tui_input_available :: "tui_context \<Rightarrow> int" where
  "tui_input_available ctx =
     (input_end ctx - input_start ctx + TUI_INPUT_BUFFER_SIZE) mod TUI_INPUT_BUFFER_SIZE"

definition tui_input_peek :: "tui_context \<Rightarrow> int \<Rightarrow> u8" where
  "tui_input_peek ctx offset =
     input_buffer ctx ((input_start ctx + offset) mod TUI_INPUT_BUFFER_SIZE)"

definition tui_input_consume :: "tui_context \<Rightarrow> int \<Rightarrow> tui_context" where
  "tui_input_consume ctx n =
     ctx\<lparr>input_start := (input_start ctx + n) mod TUI_INPUT_BUFFER_SIZE\<rparr>"

text \<open>A character constant of the source as a byte.\<close>

definition byte :: "char \<Rightarrow> u8" where
  "byte c = of_nat (of_char c)"

section \<open>Input decoder\<close>

text \<open>
  The loop of \<^verbatim>\<open>tui_parse_csi_params\<close>. The result is the return value, the parameter
  array, \<^verbatim>\<open>*end_pos\<close> and \<^verbatim>\<open>*final_char\<close>. When no final byte is found the source leaves
  \<^verbatim>\<open>*final_char\<close> unwritten and no caller reads it; the model gives 0 then.
\<close>

function csi_params_loop ::
  "tui_context \<Rightarrow> int \<Rightarrow> int \<Rightarrow> int list \<Rightarrow> int \<Rightarrow> int \<Rightarrow> bool \<Rightarrow> int \<times> int list \<times> int \<times> u8" where
  "csi_params_loop ctx max_params i params param_count current_param has_digit =
    (if i < tui_input_available ctx \<and> i < 32 then
       (let c = tui_input_peek ctx i in
        if c \<ge> byte CHR ''0'' \<and> c \<le> byte CHR ''9'' then
          csi_params_loop ctx max_params (i + 1) params param_count
            (int32 (current_param * 10 + (uint c - uint (byte CHR ''0'')))) True
        else if c = byte CHR '';'' then
          (if param_count < max_params
           then csi_params_loop ctx max_params (i + 1)
                  (params[nat param_count := (if has_digit then current_param else 0)])
                  (param_count + 1) 0 False
           else csi_params_loop ctx max_params (i + 1) params param_count 0 False)
        else if c \<ge> 0x40 \<and> c \<le> 0x7E then
          (if param_count < max_params
           then (param_count + 1,
                 params[nat param_count := (if has_digit then current_param else 0)], i, c)
           else (param_count, params, i, c))
        else if c = byte CHR ''<'' \<or> c = byte CHR ''>'' \<or> c = byte CHR ''?'' \<or> c = byte CHR ''=''
          then csi_params_loop ctx max_params (i + 1) params param_count current_param has_digit
        else (0, params, - 1, 0))
     else (0, params, - 1, 0))"
  by pat_completeness auto

termination csi_params_loop
  by (relation "measure (\<lambda>(ctx, max_params, i, params, param_count, current_param, has_digit).
        nat (32 - i))") auto

declare csi_params_loop.simps [simp del]

definition tui_parse_csi_params ::
  "tui_context \<Rightarrow> int \<Rightarrow> int list \<Rightarrow> int \<Rightarrow> int \<times> int list \<times> int \<times> u8" where
  "tui_parse_csi_params ctx start params max_params =
     csi_params_loop ctx max_params start params 0 0 False"

definition tui_decode_modifiers :: "int \<Rightarrow> bool \<times> bool \<times> bool" where
  "tui_decode_modifiers modifier_param =
    (let bits = modifier_param - 1
     in (bits AND 1 \<noteq> 0, bits AND 2 \<noteq> 0, bits AND 4 \<noteq> 0))"

text \<open>
  \<^verbatim>\<open>tui_parse_escape_sequence\<close> in four parts: the button of an SGR mouse report, the CSI
  sequences after the mouse block, the CSI branch, and the bytes that are not an escape.
  Each result is the return value, the context and the event after the call.
\<close>

definition sgr_mouse_button :: "int \<Rightarrow> u8 \<Rightarrow> tui_mouse_button" where
  "sgr_mouse_button button_code final_char =
    (if final_char = byte CHR ''m'' then TUI_MOUSE_RELEASE
     else
       let sel = button_code AND 0x43 in
       if sel = 0 then TUI_MOUSE_LEFT
       else if sel = 1 then TUI_MOUSE_MIDDLE
       else if sel = 2 then TUI_MOUSE_RIGHT
       else if sel = 3 then TUI_MOUSE_RELEASE
       else if sel = 64 then TUI_MOUSE_WHEEL_UP
       else if sel = 65 then TUI_MOUSE_WHEEL_DOWN
       else if button_code AND 32 \<noteq> 0 then TUI_MOUSE_MOVE
       else TUI_MOUSE_NONE)"

definition csi_tilde_key :: "int \<Rightarrow> tui_key" where
  "csi_tilde_key p =
    (if p = 1 then TUI_KEY_HOME else if p = 2 then TUI_KEY_INSERT
     else if p = 3 then TUI_KEY_DELETE else if p = 4 then TUI_KEY_END
     else if p = 5 then TUI_KEY_PAGEUP else if p = 6 then TUI_KEY_PAGEDOWN
     else if p = 11 then TUI_KEY_F1 else if p = 12 then TUI_KEY_F2
     else if p = 13 then TUI_KEY_F3 else if p = 14 then TUI_KEY_F4
     else if p = 15 then TUI_KEY_F5 else if p = 17 then TUI_KEY_F6
     else if p = 18 then TUI_KEY_F7 else if p = 19 then TUI_KEY_F8
     else if p = 20 then TUI_KEY_F9 else if p = 21 then TUI_KEY_F10
     else if p = 23 then TUI_KEY_F11 else if p = 24 then TUI_KEY_F12
     else TUI_KEY_NONE)"

definition csi_arrow_key :: "u8 \<Rightarrow> tui_key" where
  "csi_arrow_key final_char =
    (if final_char = byte CHR ''A'' then TUI_KEY_UP
     else if final_char = byte CHR ''B'' then TUI_KEY_DOWN
     else if final_char = byte CHR ''C'' then TUI_KEY_RIGHT
     else if final_char = byte CHR ''D'' then TUI_KEY_LEFT
     else if final_char = byte CHR ''H'' then TUI_KEY_HOME
     else if final_char = byte CHR ''F'' then TUI_KEY_END
     else TUI_KEY_NONE)"

definition parse_csi_keys :: "tui_context \<Rightarrow> tui_event \<Rightarrow> u8 \<Rightarrow> int \<times> tui_context \<times> tui_event" where
  "parse_csi_keys ctx event b2 =
    (if b2 = byte CHR ''A'' then
       (1, tui_input_consume ctx 3, event\<lparr>ev_type := TUI_EVENT_KEY, key := TUI_KEY_UP\<rparr>)
     else if b2 = byte CHR ''B'' then
       (1, tui_input_consume ctx 3, event\<lparr>ev_type := TUI_EVENT_KEY, key := TUI_KEY_DOWN\<rparr>)
     else if b2 = byte CHR ''C'' then
       (1, tui_input_consume ctx 3, event\<lparr>ev_type := TUI_EVENT_KEY, key := TUI_KEY_RIGHT\<rparr>)
     else if b2 = byte CHR ''D'' then
       (1, tui_input_consume ctx 3, event\<lparr>ev_type := TUI_EVENT_KEY, key := TUI_KEY_LEFT\<rparr>)
     else if b2 = byte CHR ''H'' then
       (1, tui_input_consume ctx 3, event\<lparr>ev_type := TUI_EVENT_KEY, key := TUI_KEY_HOME\<rparr>)
     else if b2 = byte CHR ''F'' then
       (1, tui_input_consume ctx 3, event\<lparr>ev_type := TUI_EVENT_KEY, key := TUI_KEY_END\<rparr>)
     else
       (case tui_parse_csi_params ctx 2 [0, 0, 0, 0] 4 of
         (param_count, params, end_pos, final_char) \<Rightarrow>
          if end_pos < 0 then (0, ctx, event)
          else
            let e1 = event\<lparr>ev_type := TUI_EVENT_KEY\<rparr>;
                e2 = (if param_count \<ge> 2 \<and> params ! 1 > 1
                      then (case tui_decode_modifiers (params ! 1) of
                              (sh, al, ct) \<Rightarrow> e1\<lparr>shift := sh, alt := al, ctrl := ct\<rparr>)
                      else e1);
                e3 = (if param_count \<ge> 2 \<and> params ! 0 = 1
                      then e2\<lparr>key := csi_arrow_key final_char\<rparr> else e2)
            in if param_count \<ge> 2 \<and> params ! 0 = 1 \<and> key e3 \<noteq> TUI_KEY_NONE
               then (1, tui_input_consume ctx (end_pos + 1), e3)
               else
                 let e4 = (if final_char = byte CHR ''~'' \<and> param_count \<ge> 1
                           then e3\<lparr>key := csi_tilde_key (params ! 0)\<rparr>
                           else e3\<lparr>key := TUI_KEY_NONE\<rparr>)
                 in (1, tui_input_consume ctx (end_pos + 1), e4)))"

definition parse_csi :: "tui_context \<Rightarrow> tui_event \<Rightarrow> int \<times> tui_context \<times> tui_event" where
  "parse_csi ctx event =
    (if tui_input_available ctx < 3 then (0, ctx, event)
     else
       let b2 = tui_input_peek ctx 2 in
       if b2 = byte CHR ''I'' then
         (1, tui_input_consume ctx 3, event\<lparr>ev_type := TUI_EVENT_FOCUS_IN\<rparr>)
       else if b2 = byte CHR ''O'' then
         (1, tui_input_consume ctx 3, event\<lparr>ev_type := TUI_EVENT_FOCUS_OUT\<rparr>)
       else if b2 = byte CHR ''2'' \<and> tui_input_available ctx \<ge> 6 \<and>
               tui_input_peek ctx 3 = byte CHR ''0'' \<and> tui_input_peek ctx 5 = byte CHR ''~'' \<and>
               tui_input_peek ctx 4 = byte CHR ''0'' then
         (1, tui_input_consume (ctx\<lparr>is_pasting := True\<rparr>) 6,
          event\<lparr>ev_type := TUI_EVENT_PASTE_START\<rparr>)
       else if b2 = byte CHR ''2'' \<and> tui_input_available ctx \<ge> 6 \<and>
               tui_input_peek ctx 3 = byte CHR ''0'' \<and> tui_input_peek ctx 5 = byte CHR ''~'' \<and>
               tui_input_peek ctx 4 = byte CHR ''1'' then
         (1, tui_input_consume (ctx\<lparr>is_pasting := False\<rparr>) 6,
          event\<lparr>ev_type := TUI_EVENT_PASTE_END\<rparr>)
       else if b2 = byte CHR ''<'' then
         (case tui_parse_csi_params ctx 3 [0, 0, 0, 0] 4 of
           (param_count, params, end_pos, final_char) \<Rightarrow>
            if end_pos < 0 then (0, ctx, event)
            else if (final_char = byte CHR ''M'' \<or> final_char = byte CHR ''m'') \<and> param_count \<ge> 3
            then
              (let button_code = params ! 0;
                   mx = int32 (params ! 1 - 1);
                   my = int32 (params ! 2 - 1)
               in (1, tui_input_consume ctx (end_pos + 1),
                   event\<lparr>ev_type := TUI_EVENT_MOUSE, mouse_x := mx, mouse_y := my,
                         mouse_button := sgr_mouse_button button_code final_char\<rparr>))
            else parse_csi_keys ctx event b2)
       else parse_csi_keys ctx event b2)"

definition ss3_key :: "u8 \<Rightarrow> tui_key" where
  "ss3_key b2 =
    (if b2 = byte CHR ''A'' then TUI_KEY_UP
     else if b2 = byte CHR ''B'' then TUI_KEY_DOWN
     else if b2 = byte CHR ''C'' then TUI_KEY_RIGHT
     else if b2 = byte CHR ''D'' then TUI_KEY_LEFT
     else if b2 = byte CHR ''H'' then TUI_KEY_HOME
     else if b2 = byte CHR ''F'' then TUI_KEY_END
     else if b2 = byte CHR ''P'' then TUI_KEY_F1
     else if b2 = byte CHR ''Q'' then TUI_KEY_F2
     else if b2 = byte CHR ''R'' then TUI_KEY_F3
     else if b2 = byte CHR ''S'' then TUI_KEY_F4
     else TUI_KEY_NONE)"

definition parse_plain :: "tui_context \<Rightarrow> tui_event \<Rightarrow> u8 \<Rightarrow> int \<times> tui_context \<times> tui_event" where
  "parse_plain ctx event b0 =
    (if b0 = 0x0D \<or> b0 = 0x0A then
       (1, tui_input_consume ctx 1, event\<lparr>ev_type := TUI_EVENT_KEY, key := TUI_KEY_ENTER\<rparr>)
     else if b0 = 0x7F \<or> b0 = 0x08 then
       (1, tui_input_consume ctx 1, event\<lparr>ev_type := TUI_EVENT_KEY, key := TUI_KEY_BACKSPACE\<rparr>)
     else if b0 = 0x09 then
       (1, tui_input_consume ctx 1,
        event\<lparr>ev_type := TUI_EVENT_KEY, key := TUI_KEY_TAB, ch := 0x09\<rparr>)
     else if b0 = byte CHR '' '' then
       (1, tui_input_consume ctx 1,
        event\<lparr>ev_type := TUI_EVENT_KEY, key := TUI_KEY_SPACE, ch := 0x20\<rparr>)
     else if b0 = 0 then
       (1, tui_input_consume ctx 1,
        event\<lparr>ev_type := TUI_EVENT_KEY, key := TUI_KEY_SPACE, ch := 0x20, ctrl := True\<rparr>)
     else if b0 \<ge> 1 \<and> b0 \<le> 26 \<and> b0 \<noteq> 0x09 \<and> b0 \<noteq> 0x0D \<and> b0 \<noteq> 0x0A then
       (1, tui_input_consume ctx 1,
        event\<lparr>ev_type := TUI_EVENT_KEY, key := TUI_KEY_CHAR,
              ch := 0x61 + (ucast b0 - 1), ctrl := True\<rparr>)
     else
       let len = (if b0 AND 0x80 = 0 then 1
                  else if b0 AND 0xE0 = 0xC0 then 2
                  else if b0 AND 0xF0 = 0xE0 then 3
                  else if b0 AND 0xF8 = 0xF0 then 4
                  else (0::int))
       in if len = 0 then (0, tui_input_consume ctx 1, event)
          else if tui_input_available ctx < len then (0, ctx, event)
          else
            let temp = map (\<lambda>i. tui_input_peek ctx (int i)) [0..<nat len];
                codepoint = snd (tui_utf8_decode temp)
            in (1, tui_input_consume ctx len,
                event\<lparr>ev_type := TUI_EVENT_KEY, key := TUI_KEY_CHAR, ch := codepoint\<rparr>))"

definition tui_parse_escape_sequence :: "tui_context \<Rightarrow> tui_event \<Rightarrow> int \<times> tui_context \<times> tui_event" where
  "tui_parse_escape_sequence ctx event0 =
    (if tui_input_available ctx < 1 then (0, ctx, event0)
     else
       let event = event0\<lparr>ev_type := TUI_EVENT_NONE, key := TUI_KEY_NONE, ch := 0,
                          mouse_button := TUI_MOUSE_NONE, mouse_x := 0, mouse_y := 0,
                          ctrl := False, alt := False, shift := False\<rparr>;
           b0 = tui_input_peek ctx 0
       in if b0 = 0x1B then
            (if tui_input_available ctx < 2 then (0, ctx, event)
             else
               let b1 = tui_input_peek ctx 1 in
               if b1 = byte CHR ''['' then parse_csi ctx event
               else if b1 = byte CHR ''O'' then
                 (if tui_input_available ctx < 3 then (0, ctx, event)
                  else (1, tui_input_consume ctx 3,
                        event\<lparr>ev_type := TUI_EVENT_KEY, key := ss3_key (tui_input_peek ctx 2)\<rparr>))
               else (1, tui_input_consume ctx 1,
                     event\<lparr>ev_type := TUI_EVENT_KEY, key := TUI_KEY_ESC\<rparr>))
          else parse_plain ctx event b0)"


section \<open>Reading input and polling\<close>

text \<open>The bytes \<open>bs\<close> stored in the array from index \<open>pos\<close> on.\<close>

definition store_bytes :: "(int \<Rightarrow> u8) \<Rightarrow> int \<Rightarrow> u8 list \<Rightarrow> (int \<Rightarrow> u8)" where
  "store_bytes buf pos bs =
     (\<lambda>j. if pos \<le> j \<and> j < pos + int (length bs) then bs ! nat (j - pos) else buf j)"

text \<open>
  \<^verbatim>\<open>tui_posix_read_input\<close>: \<open>tty\<close> is the list of bytes that wait on the terminal; the
  non-blocking \<^verbatim>\<open>read\<close> takes those that wait, at most the free space up to the end of the
  array. The result is the return value, the context and the bytes still waiting.
\<close>

definition tui_posix_read_input :: "tui_context \<Rightarrow> u8 list \<Rightarrow> int \<times> tui_context \<times> u8 list" where
  "tui_posix_read_input ctx tty =
    (let available =
           (if input_end ctx \<ge> input_start ctx
            then (TUI_INPUT_BUFFER_SIZE - input_end ctx) - (if input_start ctx = 0 then 1 else 0)
            else input_start ctx - input_end ctx - 1)
     in if available \<le> 0 then (0, ctx, tty)
        else
          let got = take (nat available) tty;
              n = int (length got)
          in if n > 0
             then (n,
                   ctx\<lparr>input_buffer := store_bytes (input_buffer ctx) (input_end ctx) got,
                        input_end := (input_end ctx + n) mod TUI_INPUT_BUFFER_SIZE\<rparr>,
                   drop (nat available) tty)
             else (0, ctx, tty))"

text \<open>
  \<^verbatim>\<open>tui_poll_event\<close> (POSIX). Besides the two pointers it is given the resize latch
  \<open>sigwinch\<close>, the answer \<open>ws\<close> of the size query and the bytes \<open>tty\<close> waiting on the
  terminal; it returns the return value, both objects, the latch and the bytes still waiting.
\<close>

definition tui_poll_event ::
  "tui_context option \<Rightarrow> tui_event option \<Rightarrow> bool \<Rightarrow> (int \<times> int) option \<Rightarrow> u8 list \<Rightarrow>
   int \<times> tui_context option \<times> tui_event option \<times> bool \<times> u8 list" where
  "tui_poll_event ctxp eventp sigwinch ws tty =
    (case ctxp of None \<Rightarrow> (0, ctxp, eventp, sigwinch, tty) | Some ctx \<Rightarrow>
     case eventp of None \<Rightarrow> (0, ctxp, eventp, sigwinch, tty) | Some event0 \<Rightarrow>
      let event = event0\<lparr>ev_type := TUI_EVENT_NONE, key := TUI_KEY_NONE, ch := 0,
                         mouse_button := TUI_MOUSE_NONE, mouse_x := 0, mouse_y := 0,
                         new_width := 0, new_height := 0\<rparr>;
          sized = tui_get_terminal_size ctx ws
      in if sigwinch \<and> (width sized \<noteq> width ctx \<or> height sized \<noteq> height ctx) then
           (1, Some (sized\<lparr>resized := True, needs_redraw := True\<rparr>),
            Some (event\<lparr>ev_type := TUI_EVENT_RESIZE, new_width := width sized,
                         new_height := height sized\<rparr>),
            False, tty)
         else
           let c1 = (if sigwinch then sized else ctx) in
           (case tui_posix_read_input c1 tty of (n, c2, tty') \<Rightarrow>
             if tui_input_available c2 > 0 then
               (case tui_parse_escape_sequence c2 event of (r, c3, e3) \<Rightarrow>
                 if r \<noteq> 0 then
                   let c4 = (if ev_type e3 = TUI_EVENT_MOUSE
                             then c3\<lparr>ctx_mouse_x := mouse_x e3, ctx_mouse_y := mouse_y e3,
                                     ctx_mouse_button := mouse_button e3\<rparr>
                             else c3);
                       c5 = (if key e3 = TUI_KEY_ENTER then c4\<lparr>button_pressed := True\<rparr> else c4)
                   in (1, Some c5, Some e3, False, tty')
                 else (0, Some c3, Some e3, False, tty'))
             else (0, Some c2, Some event, False, tty')))"

text \<open>An event object before its first use (all fields zero).\<close>

definition zero_event :: tui_event where
  "zero_event = \<lparr>ev_type = TUI_EVENT_NONE, key = TUI_KEY_NONE, ch = 0,
                 mouse_button = TUI_MOUSE_NONE, mouse_x = 0, mouse_y = 0,
                 new_width = 0, new_height = 0, ctrl = False, alt = False, shift = False\<rparr>"

text \<open>
  One \<^verbatim>\<open>tui_poll_event\<close> on a freshly created context with the bytes \<open>bs\<close> waiting on
  the terminal and no resize pending: the return value and the event.
\<close>

definition poll_fresh :: "u8 list \<Rightarrow> int \<times> tui_event option" where
  "poll_fresh bs =
    (case tui_poll_event (Some (created None)) (Some zero_event) False None bs of
       (r, c, e, s, t) \<Rightarrow> (r, e))"


section \<open>Widgets\<close>

datatype tui_widget_type =
  TUI_WIDGET_CONTAINER | TUI_WIDGET_PANEL | TUI_WIDGET_LABEL | TUI_WIDGET_BUTTON |
  TUI_WIDGET_TEXTBOX | TUI_WIDGET_TEXTAREA | TUI_WIDGET_CHECKBOX | TUI_WIDGET_RADIO |
  TUI_WIDGET_LIST | TUI_WIDGET_PROGRESS | TUI_WIDGET_SLIDER | TUI_WIDGET_SPINNER |
  TUI_WIDGET_DROPDOWN | TUI_WIDGET_TABS | TUI_WIDGET_SCROLLBAR | TUI_WIDGET_SPLITTER |
  TUI_WIDGET_CUSTOM

datatype tui_event_phase = TUI_PHASE_CAPTURE | TUI_PHASE_TARGET | TUI_PHASE_BUBBLE

text \<open>A widget pointer: \<open>None\<close> is \<^verbatim>\<open>NULL\<close>, \<open>Some a\<close> the widget stored at address \<open>a\<close>.\<close>

type_synonym widget_ptr = "nat option"

record tui_widget_event =
  base :: tui_event
  phase :: tui_event_phase
  target :: widget_ptr
  current :: widget_ptr
  stopped :: bool
  prevented :: bool
  consumed :: bool

text \<open>
  A handler is a function of the host program. What the router can observe of it is which
  of the three helpers it calls on the event. A handler is modelled by a name, which the
  record of invocations shows, and by the helper calls it makes, given the widget, the
  event and the user data it is called with. Handlers are taken to leave the widget tree
  and the handler tables as they are.
\<close>

datatype handler_call = CallStop | CallPrevent | CallConsume

datatype tui_event_handler =
  Handler (handler_name: nat)
          (handler_calls: "widget_ptr \<Rightarrow> tui_widget_event \<Rightarrow> nat \<Rightarrow> handler_call list")

record tui_handler_entry =
  event_type :: tui_event_type
  handler :: tui_event_handler
  userdata :: nat
  capture :: bool

record tui_hotkey =
  hk_key :: tui_key
  hk_ch :: u32
  hk_ctrl :: bool
  hk_alt :: bool
  hk_shift :: bool
  hk_handler :: "tui_event_handler option"
  hk_userdata :: nat
  hk_active :: bool

text \<open>
  The textarea arm of the widget's state union. \<^verbatim>\<open>lines\<close> is \<^verbatim>\<open>NULL\<close> or an array of line
  pointers, each \<^verbatim>\<open>NULL\<close> or a C string (its bytes before the NUL).
\<close>

record textarea_state =
  lines :: "u8 list option list option"
  line_count :: int
  line_capacity :: int
  cursor_row :: int
  cursor_col :: int
  scroll_row :: int
  scroll_col :: int
  line_numbers :: bool
  word_wrap :: bool
  editable :: bool
  max_line_len :: int

text \<open>
  \<^verbatim>\<open>struct tui_widget\<close>. Of the state union the textarea arm and the button's
  \<^verbatim>\<open>pressed\<close> flag are modelled. \<open>children\<close> holds the \<^verbatim>\<open>child_count\<close> child pointers and
  \<open>handlers\<close> the \<^verbatim>\<open>handler_count\<close> entries.
\<close>

record tui_widget =
  w_type :: tui_widget_type
  w_id :: int
  w_x :: int
  w_y :: int
  w_width :: int
  w_height :: int
  parent :: widget_ptr
  children :: "nat list"
  visible :: bool
  enabled :: bool
  focusable :: bool
  focused :: bool
  tab_index :: int
  handlers :: "tui_handler_entry list"
  has_border :: bool
  textarea :: textarea_state
  pressed :: bool

record tui_widget_manager =
  root :: widget_ptr
  focus :: widget_ptr
  hover :: widget_ptr
  focus_stack :: "widget_ptr list"
  hotkeys :: "tui_hotkey list"

text \<open>One entry of the record of invocations: a handler, or the built-in default behaviour.\<close>

datatype invocation =
    Invoked nat widget_ptr tui_event_phase bool
  | DefaultInput nat

text \<open>
  The memory the router works on: the widgets by address, whether the next \<^verbatim>\<open>malloc\<close>
  succeeds, and the record of invocations made so far (not a variable of the source).
\<close>

record world =
  widgets :: "nat \<Rightarrow> tui_widget"
  malloc_ok :: bool
  trace :: "invocation list"

section \<open>Event helpers and handler calls\<close>

definition tui_widget_event_stop :: "tui_widget_event \<Rightarrow> tui_widget_event" where
  "tui_widget_event_stop e = e\<lparr>stopped := True\<rparr>"

definition tui_widget_event_prevent :: "tui_widget_event \<Rightarrow> tui_widget_event" where
  "tui_widget_event_prevent e = e\<lparr>prevented := True\<rparr>"

definition tui_widget_event_consume :: "tui_widget_event \<Rightarrow> tui_widget_event" where
  "tui_widget_event_consume e = e\<lparr>consumed := True, stopped := True\<rparr>"

fun helper_call :: "tui_widget_event \<Rightarrow> handler_call \<Rightarrow> tui_widget_event" where
  "helper_call e CallStop = tui_widget_event_stop e"
| "helper_call e CallPrevent = tui_widget_event_prevent e"
| "helper_call e CallConsume = tui_widget_event_consume e"

text \<open>
  Calling the handler \<open>f\<close> with widget \<open>w\<close>, the event and user data: the event after the
  call, and the invocation added to the record (\<open>cap\<close> is the capture flag of the entry).
\<close>

definition invoke ::
  "tui_event_handler \<Rightarrow> widget_ptr \<Rightarrow> nat \<Rightarrow> bool \<Rightarrow> tui_widget_event \<times> world \<Rightarrow>
   tui_widget_event \<times> world" where
  "invoke f w ud cap s =
    (case s of (e, wd) \<Rightarrow>
      (foldl helper_call e (handler_calls f w e ud),
       wd\<lparr>trace := trace wd @ [Invoked (handler_name f) w (phase e) cap]\<rparr>))"

text \<open>
  \<^verbatim>\<open>tui_widget_call_handlers\<close>: the entries of widget \<open>a\<close> in order; the loop ends when
  \<^verbatim>\<open>stopped\<close> is set.
\<close>

fun call_handlers_loop ::
  "nat \<Rightarrow> bool \<Rightarrow> tui_handler_entry list \<Rightarrow> tui_widget_event \<times> world \<Rightarrow> tui_widget_event \<times> world" where
  "call_handlers_loop a cap [] s = s"
| "call_handlers_loop a cap (entry # entries) s =
    (if stopped (fst s) then s
     else if capture entry = cap \<and> event_type entry = ev_type (base (fst s))
     then call_handlers_loop a cap entries
            (invoke (handler entry) (Some a) (userdata entry) cap
               ((fst s)\<lparr>current := Some a\<rparr>, snd s))
     else call_handlers_loop a cap entries s)"

definition tui_widget_call_handlers ::
  "nat \<Rightarrow> bool \<Rightarrow> tui_widget_event \<times> world \<Rightarrow> tui_widget_event \<times> world" where
  "tui_widget_call_handlers a cap s = call_handlers_loop a cap (handlers (widgets (snd s) a)) s"

text \<open>
  \<^verbatim>\<open>tui_widget_build_path\<close>: climb the parent pointers from the target, at most
  \<open>max_depth\<close> widgets, then reverse to root-first order.
\<close>

fun build_path_up :: "(nat \<Rightarrow> tui_widget) \<Rightarrow> nat \<Rightarrow> widget_ptr \<Rightarrow> nat list" where
  "build_path_up ws 0 w = []"
| "build_path_up ws (Suc n) None = []"
| "build_path_up ws (Suc n) (Some a) = a # build_path_up ws n (parent (ws a))"

definition tui_widget_build_path :: "(nat \<Rightarrow> tui_widget) \<Rightarrow> widget_ptr \<Rightarrow> nat \<Rightarrow> nat list" where
  "tui_widget_build_path ws tgt max_depth = rev (build_path_up ws max_depth tgt)"

section \<open>Bounds and hit test\<close>

text \<open>
  The loops and the recursion over the tree end only if the pointers form a tree; a call
  that does not return has the value \<open>None\<close>.
\<close>

partial_function (option) abs_bounds_loop ::
  "(nat \<Rightarrow> tui_widget) \<Rightarrow> widget_ptr \<Rightarrow> int \<Rightarrow> int \<Rightarrow> (int \<times> int) option" where
  "abs_bounds_loop ws p abs_x abs_y =
    (case p of None \<Rightarrow> Some (abs_x, abs_y)
     | Some a \<Rightarrow> abs_bounds_loop ws (parent (ws a))
                 (int32 (abs_x + w_x (ws a))) (int32 (abs_y + w_y (ws a))))"

definition tui_widget_get_absolute_bounds ::
  "(nat \<Rightarrow> tui_widget) \<Rightarrow> nat \<Rightarrow> (int \<times> int \<times> int \<times> int) option" where
  "tui_widget_get_absolute_bounds ws a =
    (case abs_bounds_loop ws (parent (ws a)) (w_x (ws a)) (w_y (ws a)) of
       None \<Rightarrow> None
     | Some (abs_x, abs_y) \<Rightarrow> Some (abs_x, abs_y, w_width (ws a), w_height (ws a)))"

definition tui_widget_contains_point :: "(nat \<Rightarrow> tui_widget) \<Rightarrow> nat \<Rightarrow> int \<Rightarrow> int \<Rightarrow> bool option" where
  "tui_widget_contains_point ws a px py =
    (case tui_widget_get_absolute_bounds ws a of
       None \<Rightarrow> None
     | Some (bx, by, bw, bh) \<Rightarrow> Some (px \<ge> bx \<and> px < int32 (bx + bw) \<and> py \<ge> by \<and> py < int32 (by + bh)))"

text \<open>
  \<^verbatim>\<open>tui_widget_hit_test_recursive\<close> at the point \<open>pt\<close>. \<open>Inl w\<close> is the call on the
  widget \<open>w\<close>; \<open>Inr (cs, a)\<close> is the loop over the children \<open>cs\<close> of \<open>a\<close> still to try, last
  child first.
\<close>

partial_function (option) hit_test_rec ::
  "(nat \<Rightarrow> tui_widget) \<Rightarrow> int \<times> int \<Rightarrow> widget_ptr + nat list \<times> nat \<Rightarrow> widget_ptr option" where
  "hit_test_rec ws pt arg =
    (case arg of
       Inl w \<Rightarrow>
        (case w of None \<Rightarrow> Some None
         | Some a \<Rightarrow>
            if \<not> visible (ws a) then Some None
            else (case tui_widget_contains_point ws a (fst pt) (snd pt) of
                    None \<Rightarrow> None
                  | Some inside \<Rightarrow>
                      if \<not> inside then Some None
                      else hit_test_rec ws pt (Inr (rev (children (ws a)), a))))
     | Inr todo \<Rightarrow>
        (case fst todo of [] \<Rightarrow> Some (Some (snd todo))
         | c # rest \<Rightarrow>
            Option.bind (hit_test_rec ws pt (Inl (Some c)))
              (\<lambda>hit. if hit \<noteq> None then Some hit
                      else hit_test_rec ws pt (Inr (rest, snd todo)))))"

definition tui_wm_hit_test ::
  "tui_widget_manager option \<Rightarrow> (nat \<Rightarrow> tui_widget) \<Rightarrow> int \<Rightarrow> int \<Rightarrow> widget_ptr option" where
  "tui_wm_hit_test wmp ws px py =
    (case wmp of None \<Rightarrow> Some None
     | Some wm \<Rightarrow> if root wm = None then Some None else hit_test_rec ws (px, py) (Inl (root wm)))"


section \<open>Focus\<close>

text \<open>
  The depth-first walk of \<^verbatim>\<open>tui_widget_find_next_focusable\<close>: \<open>stack\<close> holds the stack
  with its top first, \<open>found\<close> the focusable widgets collected so far; both arrays of the
  source have 256 slots.
\<close>

partial_function (option) collect_focusable ::
  "(nat \<Rightarrow> tui_widget) \<Rightarrow> nat list \<Rightarrow> nat list \<Rightarrow> nat list option" where
  "collect_focusable ws stack found =
    (case stack of [] \<Rightarrow> Some found
     | a # rest \<Rightarrow>
        if length found < 256 then
          collect_focusable ws
            (foldl (\<lambda>st c. if length st < 256 then c # st else st) rest (rev (children (ws a))))
            (if focusable (ws a) \<and> visible (ws a) \<and> enabled (ws a) then found @ [a] else found)
        else Some found)"

text \<open>The bubble sort by \<^verbatim>\<open>tab_index\<close>.\<close>

definition sort_by_tab_index :: "(nat \<Rightarrow> tui_widget) \<Rightarrow> nat list \<Rightarrow> nat list" where
  "sort_by_tab_index ws found =
    (let n = int (length found) in
     for_loop (n - 1) (\<lambda>i. for_loop (n - i - 1) (\<lambda>j xs.
        if tab_index (ws (xs ! nat j)) > tab_index (ws (xs ! nat (j + 1)))
        then xs[nat j := xs ! nat (j + 1), nat (j + 1) := xs ! nat j]
        else xs)) found)"

definition tui_widget_find_next_focusable ::
  "(nat \<Rightarrow> tui_widget) \<Rightarrow> widget_ptr \<Rightarrow> widget_ptr \<Rightarrow> bool \<Rightarrow> widget_ptr option" where
  "tui_widget_find_next_focusable ws search_root cur forward =
    (case search_root of None \<Rightarrow> Some None
     | Some r \<Rightarrow>
        (case collect_focusable ws [r] [] of None \<Rightarrow> None
         | Some found \<Rightarrow>
            if length found = 0 then Some None
            else
              let sorted = sort_by_tab_index ws found;
                  n = int (length sorted);
                  current_idx = (case find (\<lambda>i. Some (sorted ! i) = cur) [0..<length sorted] of
                                   None \<Rightarrow> - 1 | Some i \<Rightarrow> int i)
              in if current_idx < 0 then Some (Some (sorted ! 0))
                 else if forward then Some (Some (sorted ! nat ((current_idx + 1) mod n)))
                 else Some (Some (sorted ! nat ((current_idx - 1 + n) mod n)))))"

definition tui_wm_focus ::
  "tui_widget_manager option \<Rightarrow> widget_ptr \<Rightarrow> (nat \<Rightarrow> tui_widget) \<Rightarrow>
   tui_widget_manager option \<times> (nat \<Rightarrow> tui_widget)" where
  "tui_wm_focus wmp widget ws =
    (case wmp of None \<Rightarrow> (None, ws)
     | Some wm \<Rightarrow>
        let ws1 = (case focus wm of None \<Rightarrow> ws
                   | Some f \<Rightarrow> ws(f := (ws f)\<lparr>focused := False\<rparr>));
            ws2 = (case widget of None \<Rightarrow> ws1
                   | Some a \<Rightarrow> ws1(a := (ws1 a)\<lparr>focused := True\<rparr>))
        in (Some (wm\<lparr>focus := widget\<rparr>), ws2))"

definition tui_wm_focus_next ::
  "tui_widget_manager option \<Rightarrow> (nat \<Rightarrow> tui_widget) \<Rightarrow>
   (tui_widget_manager option \<times> (nat \<Rightarrow> tui_widget)) option" where
  "tui_wm_focus_next wmp ws =
    (case wmp of None \<Rightarrow> Some (None, ws)
     | Some wm \<Rightarrow>
        if root wm = None then Some (wmp, ws)
        else
          let search_root = (if length (focus_stack wm) > 0 then last (focus_stack wm) else root wm)
          in (case tui_widget_find_next_focusable ws search_root (focus wm) True of
                None \<Rightarrow> None
              | Some nxt \<Rightarrow> Some (tui_wm_focus wmp nxt ws)))"

section \<open>Hotkeys\<close>

text \<open>
  \<^verbatim>\<open>tui_wm_check_hotkeys\<close>: the table in order; a handler is called with a \<^verbatim>\<open>NULL\<close>
  widget; the loop returns true as soon as a handler has marked the event consumed.
\<close>

fun check_hotkeys_loop ::
  "tui_hotkey list \<Rightarrow> tui_widget_event \<times> world \<Rightarrow> bool \<times> tui_widget_event \<times> world" where
  "check_hotkeys_loop [] s = (False, s)"
| "check_hotkeys_loop (hk # hks) s =
    (if \<not> hk_active hk then check_hotkeys_loop hks s
     else
       let matches = (if hk_key hk = TUI_KEY_CHAR
                      then key (base (fst s)) = TUI_KEY_CHAR \<and> ch (base (fst s)) = hk_ch hk
                      else key (base (fst s)) = hk_key hk)
       in (case hk_handler hk of
             Some f \<Rightarrow>
               if matches then
                 (let s1 = invoke f None (hk_userdata hk) False s
                  in if consumed (fst s1) then (True, s1) else check_hotkeys_loop hks s1)
               else check_hotkeys_loop hks s
           | None \<Rightarrow> check_hotkeys_loop hks s))"

definition tui_wm_check_hotkeys ::
  "tui_widget_manager \<Rightarrow> tui_widget_event \<times> world \<Rightarrow> bool \<times> tui_widget_event \<times> world" where
  "tui_wm_check_hotkeys wm s =
    (if ev_type (base (fst s)) \<noteq> TUI_EVENT_KEY then (False, s)
     else check_hotkeys_loop (hotkeys wm) s)"

section \<open>Built-in input behaviour\<close>

definition tui_widget_handle_button_input :: "nat \<Rightarrow> tui_widget_event \<Rightarrow> world \<Rightarrow> bool \<times> world" where
  "tui_widget_handle_button_input a e wd =
    (let activate =
           (if ev_type (base e) = TUI_EVENT_KEY
            then key (base e) = TUI_KEY_ENTER \<or> key (base e) = TUI_KEY_SPACE
            else if ev_type (base e) = TUI_EVENT_MOUSE
            then mouse_button (base e) = TUI_MOUSE_LEFT
            else False)
     in if activate
        then (True, wd\<lparr>widgets := (widgets wd)(a := (widgets wd a)\<lparr>pressed := True\<rparr>)\<rparr>)
        else (False, wd))"

text \<open>
  Textarea. A line pointer that is \<^verbatim>\<open>NULL\<close> counts as length 0. The row is an index of
  the array (anything else is undefined in the source; the model reads \<^verbatim>\<open>NULL\<close> there).
  The line buffers are taken to have room for \<^verbatim>\<open>max_line_len\<close> bytes, which is what the
  guards of the source rely on.
\<close>

definition line_at :: "u8 list option list \<Rightarrow> int \<Rightarrow> u8 list option" where
  "line_at ls r = (if 0 \<le> r \<and> r < int (length ls) then ls ! nat r else None)"

definition line_len :: "u8 list option list \<Rightarrow> int \<Rightarrow> int" where
  "line_len ls r = (case line_at ls r of None \<Rightarrow> 0 | Some l \<Rightarrow> int (length l))"

text \<open>\<^verbatim>\<open>for (i = from; i < to; i++) lines[i] = lines[i + 1]\<close>.\<close>

definition shift_lines_up :: "u8 list option list \<Rightarrow> int \<Rightarrow> int \<Rightarrow> u8 list option list" where
  "shift_lines_up ls from to =
     for_loop (to - from) (\<lambda>k xs. xs[nat (from + k) := line_at xs (from + k + 1)]) ls"

text \<open>\<^verbatim>\<open>for (i = from; i > to; i--) lines[i] = lines[i - 1]\<close>.\<close>

definition shift_lines_down :: "u8 list option list \<Rightarrow> int \<Rightarrow> int \<Rightarrow> u8 list option list" where
  "shift_lines_down ls from to =
     for_loop (from - to) (\<lambda>k xs. xs[nat (from - k) := line_at xs (from - k - 1)]) ls"

text \<open>The mouse part of \<^verbatim>\<open>tui_widget_handle_textarea_input\<close>, given the absolute position.\<close>

definition textarea_mouse :: "tui_widget \<Rightarrow> tui_event \<Rightarrow> int \<Rightarrow> int \<Rightarrow> bool \<times> tui_widget" where
  "textarea_mouse w ev ax ay =
    (let ta = textarea w;
         ls = the (lines ta);
         visible_rows = int32 (w_height w - (if has_border w then 2 else 0));
         gutter_width = (if line_numbers ta then 5 else 0)
     in if mouse_button ev = TUI_MOUSE_LEFT then
          (let click_row = int32 (mouse_y ev - ay + scroll_row ta);
               click_col = int32 (mouse_x ev - ax - gutter_width)
           in if click_row \<ge> 0 \<and> click_row < line_count ta then
                (let len = line_len ls click_row;
                     c0 = (if click_col \<ge> 0 then click_col else 0);
                     c1 = (if c0 > len then len else c0)
                 in (True, w\<lparr>textarea := ta\<lparr>cursor_row := click_row, cursor_col := c1\<rparr>\<rparr>))
              else (True, w))
        else if mouse_button ev = TUI_MOUSE_WHEEL_UP then
          (let s0 = int32 (scroll_row ta - 3);
               s1 = (if s0 < 0 then 0 else s0)
           in (True, w\<lparr>textarea := ta\<lparr>scroll_row := s1\<rparr>\<rparr>))
        else if mouse_button ev = TUI_MOUSE_WHEEL_DOWN then
          (let s0 = int32 (scroll_row ta + 3);
               m0 = int32 (line_count ta - visible_rows);
               max_scroll = (if m0 < 0 then 0 else m0);
               s1 = (if s0 > max_scroll then max_scroll else s0)
           in (True, w\<lparr>textarea := ta\<lparr>scroll_row := s1\<rparr>\<rparr>))
        else (False, w))"

text \<open>
  \<^verbatim>\<open>if (*row >= *scroll_row + visible_rows) *scroll_row = *row - visible_rows + 1\<close>:
  the scroll row that keeps row \<open>r\<close> on screen.
\<close>

definition scroll_to_show :: "int \<Rightarrow> int \<Rightarrow> int \<Rightarrow> int" where
  "scroll_to_show r scr visible_rows =
     (if r \<ge> int32 (scr + visible_rows) then int32 (r - visible_rows + 1) else scr)"

text \<open>The navigation keys; \<open>None\<close> when the key is none of them.\<close>

definition textarea_navigate :: "tui_widget \<Rightarrow> tui_event \<Rightarrow> tui_widget option" where
  "textarea_navigate w ev =
    (let ta = textarea w;
         ls = the (lines ta);
         row = cursor_row ta;
         col = cursor_col ta;
         scr = scroll_row ta;
         n = line_count ta;
         visible_rows = int32 (w_height w - (if has_border w then 2 else 0));
         current_line_len = line_len ls row
     in if key ev = TUI_KEY_UP then
          (if row > 0 then
             (let r1 = int32 (row - 1);
                  len = line_len ls r1
              in Some (w\<lparr>textarea := ta\<lparr>cursor_row := r1,
                     cursor_col := (if col > len then len else col),
                     scroll_row := (if r1 < scr then r1 else scr)\<rparr>\<rparr>))
           else Some w)
        else if key ev = TUI_KEY_DOWN then
          (if row < int32 (n - 1) then
             (let r1 = int32 (row + 1);
                  len = line_len ls r1
              in Some (w\<lparr>textarea := ta\<lparr>cursor_row := r1,
                     cursor_col := (if col > len then len else col),
                     scroll_row := scroll_to_show r1 scr visible_rows\<rparr>\<rparr>))
           else Some w)
        else if key ev = TUI_KEY_LEFT then
          (if col > 0 then Some (w\<lparr>textarea := ta\<lparr>cursor_col := int32 (col - 1)\<rparr>\<rparr>)
           else if row > 0 then
             (let r1 = int32 (row - 1)
              in Some (w\<lparr>textarea := ta\<lparr>cursor_row := r1, cursor_col := line_len ls r1,
                     scroll_row := (if r1 < scr then r1 else scr)\<rparr>\<rparr>))
           else Some w)
        else if key ev = TUI_KEY_RIGHT then
          (if col < current_line_len
           then Some (w\<lparr>textarea := ta\<lparr>cursor_col := int32 (col + 1)\<rparr>\<rparr>)
           else if row < int32 (n - 1) then
             (let r1 = int32 (row + 1)
              in Some (w\<lparr>textarea := ta\<lparr>cursor_row := r1, cursor_col := 0,
                     scroll_row := scroll_to_show r1 scr visible_rows\<rparr>\<rparr>))
           else Some w)
        else if key ev = TUI_KEY_HOME then
          (if ctrl ev
           then Some (w\<lparr>textarea := ta\<lparr>cursor_row := 0, cursor_col := 0, scroll_row := 0\<rparr>\<rparr>)
           else Some (w\<lparr>textarea := ta\<lparr>cursor_col := 0\<rparr>\<rparr>))
        else if key ev = TUI_KEY_END then
          (if ctrl ev then
             (let r1 = int32 (n - 1)
              in Some (w\<lparr>textarea := ta\<lparr>cursor_row := r1, cursor_col := line_len ls r1,
                     scroll_row := scroll_to_show r1 scr visible_rows\<rparr>\<rparr>))
           else Some (w\<lparr>textarea := ta\<lparr>cursor_col := current_line_len\<rparr>\<rparr>))
        else if key ev = TUI_KEY_PAGEUP then
          (let r0 = int32 (row - visible_rows);
               r1 = (if r0 < 0 then 0 else r0);
               s0 = int32 (scr - visible_rows);
               s1 = (if s0 < 0 then 0 else s0);
               len = line_len ls r1
           in Some (w\<lparr>textarea := ta\<lparr>cursor_row := r1,
                  cursor_col := (if col > len then len else col), scroll_row := s1\<rparr>\<rparr>))
        else if key ev = TUI_KEY_PAGEDOWN then
          (let r0 = int32 (row + visible_rows);
               r1 = (if r0 \<ge> n then int32 (n - 1) else r0);
               s0 = int32 (scr + visible_rows);
               m0 = int32 (n - visible_rows);
               max_scroll = (if m0 < 0 then 0 else m0);
               s1 = (if s0 > max_scroll then max_scroll else s0);
               len = line_len ls r1
           in Some (w\<lparr>textarea := ta\<lparr>cursor_row := r1,
                  cursor_col := (if col > len then len else col), scroll_row := s1\<rparr>\<rparr>))
        else None)"

text \<open>
  The editing keys. \<open>alloc\<close> says whether \<^verbatim>\<open>malloc\<close> succeeds. Inserting and deleting
  inside a line are the \<^verbatim>\<open>memmove\<close> calls of the source, for a cursor inside the line.
\<close>

definition textarea_edit :: "tui_widget \<Rightarrow> tui_event \<Rightarrow> bool \<Rightarrow> bool \<times> tui_widget" where
  "textarea_edit w ev alloc =
    (let ta = textarea w;
         ls = the (lines ta);
         row = cursor_row ta;
         col = cursor_col ta;
         scr = scroll_row ta;
         visible_rows = int32 (w_height w - (if has_border w then 2 else 0));
         mll = (if max_line_len ta > 0 then max_line_len ta else 256);
         current_line = line_at ls row;
         current_line_len = line_len ls row
     in if key ev = TUI_KEY_BACKSPACE then
          (if col > 0 \<and> current_line \<noteq> None then
             (let l = the current_line;
                  l1 = take (nat (col - 1)) l @ drop (nat col) l
              in (True, w\<lparr>textarea := ta\<lparr>lines := Some (ls[nat row := Some l1]),
                               cursor_col := int32 (col - 1)\<rparr>\<rparr>))
           else if col = 0 \<and> row > 0 then
             (let prev_line = line_at ls (row - 1);
                  prev_len = line_len ls (row - 1);
                  curr_len = line_len ls row
              in if int32 (prev_len + curr_len) < mll then
                   (let ls1 = (if current_line \<noteq> None \<and> prev_line \<noteq> None
                               then ls[nat (row - 1) := Some (the prev_line @ the current_line)]
                               else ls);
                        ls2 = shift_lines_up ls1 row (int32 (line_count ta - 1));
                        r1 = int32 (row - 1)
                    in (True, w\<lparr>textarea := ta\<lparr>lines := Some ls2,
                                  line_count := int32 (line_count ta - 1),
                                  cursor_row := r1, cursor_col := prev_len,
                                  scroll_row := (if r1 < scr then r1 else scr)\<rparr>\<rparr>))
                 else (True, w))
           else (True, w))
        else if key ev = TUI_KEY_DELETE then
          (if current_line \<noteq> None \<and> col < current_line_len then
             (let l = the current_line;
                  l1 = take (nat col) l @ drop (nat (col + 1)) l
              in (True, w\<lparr>textarea := ta\<lparr>lines := Some (ls[nat row := Some l1])\<rparr>\<rparr>))
           else if row < int32 (line_count ta - 1) then
             (let next_line = line_at ls (int32 (row + 1));
                  curr_len = line_len ls row;
                  next_len = line_len ls (int32 (row + 1))
              in if int32 (curr_len + next_len) < mll \<and> current_line \<noteq> None then
                   (let ls1 = ls[nat row := Some (the current_line @
                                   (case next_line of None \<Rightarrow> [] | Some l \<Rightarrow> l))];
                        ls2 = shift_lines_up ls1 (int32 (row + 1)) (int32 (line_count ta - 1))
                    in (True, w\<lparr>textarea := ta\<lparr>lines := Some ls2,
                                  line_count := int32 (line_count ta - 1)\<rparr>\<rparr>))
                 else (True, w))
           else (True, w))
        else if key ev = TUI_KEY_ENTER then
          (if line_count ta < line_capacity ta then
             (let ls1 = shift_lines_down ls (line_count ta) (int32 (row + 1));
                  after_cursor = (case current_line of None \<Rightarrow> []
                                  | Some l \<Rightarrow> drop (nat col) l)
              in if alloc then
                   (let new_line = take (nat (mll - 1)) after_cursor;
                        ls2 = ls1[nat (int32 (row + 1)) := Some new_line];
                        ls3 = (case current_line of None \<Rightarrow> ls2
                               | Some l \<Rightarrow> ls2[nat row := Some (take (nat col) l)]);
                        r1 = int32 (row + 1)
                    in (True, w\<lparr>textarea := ta\<lparr>lines := Some ls3,
                                  line_count := int32 (line_count ta + 1),
                                  cursor_row := r1, cursor_col := 0,
                                  scroll_row := scroll_to_show r1 scr visible_rows\<rparr>\<rparr>))
                 else (True, w\<lparr>textarea := ta\<lparr>lines := Some ls1\<rparr>\<rparr>))
           else (True, w))
        else if key ev = TUI_KEY_TAB then
          (if current_line \<noteq> None \<and> int32 (current_line_len + 4) < mll then
             (let l = the current_line;
                  l1 = take (nat col) l @ replicate 4 0x20 @ drop (nat col) l
              in (True, w\<lparr>textarea := ta\<lparr>lines := Some (ls[nat row := Some l1]),
                               cursor_col := int32 (col + 4)\<rparr>\<rparr>))
           else (True, w))
        else if key ev = TUI_KEY_SPACE then
          (if current_line \<noteq> None \<and> current_line_len < mll - 1 then
             (let l = the current_line;
                  l1 = take (nat col) l @ [0x20] @ drop (nat col) l
              in (True, w\<lparr>textarea := ta\<lparr>lines := Some (ls[nat row := Some l1]),
                               cursor_col := int32 (col + 1)\<rparr>\<rparr>))
           else (True, w))
        else if key ev = TUI_KEY_CHAR then
          (if current_line \<noteq> None \<and> current_line_len < mll - 1 \<and> ch ev \<ge> 32 then
             (let l = the current_line;
                  l1 = take (nat col) l @ [ucast (ch ev)] @ drop (nat col) l
              in (True, w\<lparr>textarea := ta\<lparr>lines := Some (ls[nat row := Some l1]),
                               cursor_col := int32 (col + 1)\<rparr>\<rparr>))
           else (True, w))
        else (False, w))"

definition tui_widget_handle_textarea_input ::
  "nat \<Rightarrow> tui_widget_event \<Rightarrow> world \<Rightarrow> (bool \<times> world) option" where
  "tui_widget_handle_textarea_input a e wd =
    (let w = widgets wd a in
     if lines (textarea w) = None \<or> line_count (textarea w) = 0 then Some (False, wd)
     else if ev_type (base e) = TUI_EVENT_MOUSE then
       (case tui_widget_get_absolute_bounds (widgets wd) a of
          None \<Rightarrow> None
        | Some (ax, ay, aw, ah) \<Rightarrow>
            (case textarea_mouse w (base e) ax ay of
               (r, w1) \<Rightarrow> Some (r, wd\<lparr>widgets := (widgets wd)(a := w1)\<rparr>)))
     else if ev_type (base e) \<noteq> TUI_EVENT_KEY then Some (False, wd)
     else
       (case textarea_navigate w (base e) of
          Some w1 \<Rightarrow> Some (True, wd\<lparr>widgets := (widgets wd)(a := w1)\<rparr>)
        | None \<Rightarrow>
            if \<not> editable (textarea w) then Some (False, wd)
            else (case textarea_edit w (base e) (malloc_ok wd) of
                    (r, w1) \<Rightarrow> Some (r, wd\<lparr>widgets := (widgets wd)(a := w1)\<rparr>))))"

text \<open>
  \<^verbatim>\<open>tui_widget_handle_default_input\<close>. The behaviour of the ten widget types whose state
  is not modelled here (textbox, checkbox, radio, list, slider, spinner, dropdown, tabs,
  scrollbar, splitter) is the parameter \<open>others\<close>: given the widget and the event it
  returns whether the event was handled and the widget after it, or does not return.
\<close>

type_synonym other_input = "tui_widget \<Rightarrow> tui_widget_event \<Rightarrow> (bool \<times> tui_widget) option"

definition tui_widget_handle_default_input ::
  "other_input \<Rightarrow> nat \<Rightarrow> tui_widget_event \<Rightarrow> world \<Rightarrow> (bool \<times> world) option" where
  "tui_widget_handle_default_input others a e wd =
    (let w = widgets wd a in
     if \<not> enabled w then Some (False, wd)
     else if phase e \<noteq> TUI_PHASE_TARGET then Some (False, wd)
     else if w_type w = TUI_WIDGET_BUTTON then Some (tui_widget_handle_button_input a e wd)
     else if w_type w = TUI_WIDGET_TEXTAREA then tui_widget_handle_textarea_input a e wd
     else if w_type w \<in> {TUI_WIDGET_TEXTBOX, TUI_WIDGET_CHECKBOX, TUI_WIDGET_RADIO,
                          TUI_WIDGET_LIST, TUI_WIDGET_SLIDER, TUI_WIDGET_SPINNER,
                          TUI_WIDGET_DROPDOWN, TUI_WIDGET_TABS, TUI_WIDGET_SCROLLBAR,
                          TUI_WIDGET_SPLITTER}
     then (case others w e of None \<Rightarrow> None
           | Some (r, w1) \<Rightarrow> Some (r, wd\<lparr>widgets := (widgets wd)(a := w1)\<rparr>))
     else Some (False, wd))"

section \<open>Routing\<close>

text \<open>A loop over path entries that ends when \<^verbatim>\<open>stopped\<close> is set.\<close>

fun phase_loop ::
  "bool \<Rightarrow> nat list \<Rightarrow> tui_widget_event \<times> world \<Rightarrow> tui_widget_event \<times> world" where
  "phase_loop cap [] s = s"
| "phase_loop cap (a # path) s =
    (if stopped (fst s) then s else phase_loop cap path (tui_widget_call_handlers a cap s))"

text \<open>The part of \<^verbatim>\<open>tui_wm_route_event\<close> from the path on, for the target \<open>tgt\<close>.\<close>

definition dispatch ::
  "other_input \<Rightarrow> nat \<Rightarrow> tui_widget_event \<times> world \<Rightarrow> (tui_widget_event \<times> world) option" where
  "dispatch others tgt s0 =
    (let we0 = (fst s0)\<lparr>target := Some tgt\<rparr>;
         path = tui_widget_build_path (widgets (snd s0)) (Some tgt) 64;
         s1 = phase_loop True (butlast path) (we0\<lparr>phase := TUI_PHASE_CAPTURE\<rparr>, snd s0);
         s2 = (if \<not> stopped (fst s1) then
                 (let s3 = tui_widget_call_handlers tgt True
                             ((fst s1)\<lparr>phase := TUI_PHASE_TARGET, current := Some tgt\<rparr>, snd s1)
                  in if \<not> stopped (fst s3) \<and> \<not> prevented (fst s3) then
                       (case tui_widget_handle_default_input others tgt (fst s3)
                               ((snd s3)\<lparr>trace := trace (snd s3) @ [DefaultInput tgt]\<rparr>) of
                          None \<Rightarrow> None
                        | Some (r, wd) \<Rightarrow>
                            Some (tui_widget_call_handlers tgt False
                                   (if r then (fst s3)\<lparr>consumed := True\<rparr> else fst s3, wd)))
                     else Some (tui_widget_call_handlers tgt False s3))
               else Some s1)
     in (case s2 of None \<Rightarrow> None
         | Some s4 \<Rightarrow>
             Some (phase_loop False (rev (butlast path))
                     ((fst s4)\<lparr>phase := TUI_PHASE_BUBBLE\<rparr>, snd s4))))"

text \<open>The widget event \<^verbatim>\<open>tui_wm_route_event\<close> starts with.\<close>

definition initial_widget_event :: "tui_event \<Rightarrow> tui_widget_event" where
  "initial_widget_event ev =
     \<lparr>base = ev, phase = TUI_PHASE_CAPTURE, target = None, current = None,
      stopped = False, prevented = False, consumed = False\<rparr>"

text \<open>
  Target selection: the manager and the widgets after it, and the target (\<^verbatim>\<open>NULL\<close> if
  there is neither a hit, a focus nor a root).
\<close>

definition select_target ::
  "tui_widget_manager \<Rightarrow> tui_event \<Rightarrow> (nat \<Rightarrow> tui_widget) \<Rightarrow>
   (tui_widget_manager \<times> (nat \<Rightarrow> tui_widget) \<times> widget_ptr) option" where
  "select_target wm ev ws =
    (if ev_type ev = TUI_EVENT_MOUSE then
       (case tui_wm_hit_test (Some wm) ws (mouse_x ev) (mouse_y ev) of
          None \<Rightarrow> None
        | Some hit \<Rightarrow>
            let wm1 = wm\<lparr>hover := hit\<rparr> in
            (case hit of
               Some a \<Rightarrow>
                 if mouse_button ev = TUI_MOUSE_LEFT \<and> focusable (ws a)
                 then (case tui_wm_focus (Some wm1) hit ws of
                         (Some wm2, ws2) \<Rightarrow> Some (wm2, ws2, hit)
                       | (None, ws2) \<Rightarrow> Some (wm1, ws2, hit))
                 else Some (wm1, ws, hit)
             | None \<Rightarrow> Some (wm1, ws, root wm1)))
     else Some (wm, ws, (if focus wm = None then root wm else focus wm)))"

definition tui_wm_route_event ::
  "other_input \<Rightarrow> tui_widget_manager option \<Rightarrow> tui_event option \<Rightarrow> world \<Rightarrow>
   (tui_widget_manager option \<times> world) option" where
  "tui_wm_route_event others wmp evp wd =
    (case wmp of None \<Rightarrow> Some (wmp, wd) | Some wm \<Rightarrow>
     case evp of None \<Rightarrow> Some (wmp, wd) | Some ev \<Rightarrow>
      if ev_type ev = TUI_EVENT_KEY \<and> key ev = TUI_KEY_TAB then
        (case tui_wm_focus_next wmp (widgets wd) of
           None \<Rightarrow> None
         | Some (wmp1, ws1) \<Rightarrow> Some (wmp1, wd\<lparr>widgets := ws1\<rparr>))
      else
        (case tui_wm_check_hotkeys wm (initial_widget_event ev, wd) of
           (hit, we1, wd1) \<Rightarrow>
             if hit then Some (wmp, wd1)
             else
               (case select_target wm ev (widgets wd1) of
                  None \<Rightarrow> None
                | Some (wm2, ws2, tgt) \<Rightarrow>
                    (case tgt of
                       None \<Rightarrow> Some (Some wm2, wd1\<lparr>widgets := ws2\<rparr>)
                     | Some a \<Rightarrow>
                         (case dispatch others a (we1, wd1\<lparr>widgets := ws2\<rparr>) of
                            None \<Rightarrow> None
                          | Some s \<Rightarrow> Some (Some wm2, snd s))))))"


section \<open>A textarea with the line "Hello World"\<close>




section \<open>Hotkeys in the words of the specification\<close>













section \<open>Properties of the output encoder\<close>

lemma emitsI:
  "(\<And>ctx. \<exists>t b. f ctx = ctx\<lparr>output_buffer := b, tty_out := t\<rparr> \<and>
                    t @ b = tty_out ctx @ output_buffer ctx @ bytes) \<Longrightarrow> emits f bytes"
  by (simp add: emits_def)

lemma emits_id: "emits (\<lambda>c. c) []"
  unfolding emits_def
proof
  fix ctx :: tui_context
  have "ctx = ctx\<lparr>output_buffer := output_buffer ctx, tty_out := tty_out ctx\<rparr>" by simp
  then show "\<exists>t b. ctx = ctx\<lparr>output_buffer := b, tty_out := t\<rparr> \<and> t @ b = tty_out ctx @ output_buffer ctx @ []"
    by (metis append_Nil2)
qed

lemma emits_comp:
  assumes "emits f xs" "emits g ys"
  shows "emits (\<lambda>c. g (f c)) (xs @ ys)"
  unfolding emits_def
proof
  fix ctx
  from assms(1) obtain t b where f: "f ctx = ctx\<lparr>output_buffer := b, tty_out := t\<rparr>"
    and tb: "t @ b = tty_out ctx @ output_buffer ctx @ xs"
    unfolding emits_def by blast
  from assms(2) obtain t' b' where g: "g (f ctx) = (f ctx)\<lparr>output_buffer := b', tty_out := t'\<rparr>"
    and tb': "t' @ b' = tty_out (f ctx) @ output_buffer (f ctx) @ ys"
    unfolding emits_def by blast
  have "g (f ctx) = ctx\<lparr>output_buffer := b', tty_out := t'\<rparr>"
    using f g by simp
  moreover have "t' @ b' = tty_out ctx @ output_buffer ctx @ xs @ ys"
    using tb tb' f by simp
  ultimately show "\<exists>t b. g (f ctx) = ctx\<lparr>output_buffer := b, tty_out := t\<rparr> \<and>
                    t @ b = tty_out ctx @ output_buffer ctx @ xs @ ys"
    by blast
qed

lemma emits_flush: "emits tui_output_flush []"
  unfolding emits_def
proof
  fix ctx :: tui_context
  show "\<exists>t b. tui_output_flush ctx = ctx\<lparr>output_buffer := b, tty_out := t\<rparr> \<and>
                    t @ b = tty_out ctx @ output_buffer ctx @ []"
  proof (cases "length (output_buffer ctx) > 0")
    case True
    then have "tui_output_flush ctx = ctx\<lparr>output_buffer := [], tty_out := tty_out ctx @ output_buffer ctx\<rparr>"
      by (simp add: tui_output_flush_def)
    moreover have "(tty_out ctx @ output_buffer ctx) @ [] = tty_out ctx @ output_buffer ctx @ []"
      by simp
    ultimately show ?thesis by blast
  next
    case False
    then have "tui_output_flush ctx = ctx\<lparr>output_buffer := [], tty_out := tty_out ctx\<rparr>"
      by (simp add: tui_output_flush_def)
    moreover have "tty_out ctx @ [] = tty_out ctx @ output_buffer ctx @ []"
      using False by simp
    ultimately show ?thesis by blast
  qed
qed

lemma output_write_emits_aux:
  "\<exists>t b. tui_output_write ctx data = ctx\<lparr>output_buffer := b, tty_out := t\<rparr> \<and>
         t @ b = tty_out ctx @ output_buffer ctx @ data"
proof (induction ctx data rule: tui_output_write.induct)
  case (1 ctx data)
  show ?case
  proof (cases "length data > 0")
    case False
    then have "tui_output_write ctx data = ctx\<lparr>output_buffer := output_buffer ctx, tty_out := tty_out ctx\<rparr>"
      by (subst tui_output_write.simps) simp
    moreover have "tty_out ctx @ output_buffer ctx = tty_out ctx @ output_buffer ctx @ data"
      using False by simp
    ultimately show ?thesis by blast
  next
    case True
    define space where "space = nat TUI_OUTPUT_BUFFER_SIZE - length (output_buffer ctx)"
    define ctx1 where "ctx1 = (if space = 0 then tui_output_flush ctx else ctx)"
    define space1 where "space1 = (if space = 0 then nat TUI_OUTPUT_BUFFER_SIZE else space)"
    define chunk where "chunk = (if length data < space1 then length data else space1)"
    define ctx2 where "ctx2 = ctx1\<lparr>output_buffer := output_buffer ctx1 @ take chunk data\<rparr>"
    have unfold: "tui_output_write ctx data = tui_output_write ctx2 (drop chunk data)"
      using True
      by (subst tui_output_write.simps)
         (simp add: Let_def space_def ctx1_def space1_def chunk_def ctx2_def)
    from "1.IH" [OF True space_def ctx1_def space1_def chunk_def]
    obtain t b where r: "tui_output_write ctx2 (drop chunk data) = ctx2\<lparr>output_buffer := b, tty_out := t\<rparr>"
      and tb: "t @ b = tty_out ctx2 @ output_buffer ctx2 @ drop chunk data"
      unfolding ctx2_def by blast
    from emits_flush obtain t1 b1 where f1: "tui_output_flush ctx = ctx\<lparr>output_buffer := b1, tty_out := t1\<rparr>"
      and tb1: "t1 @ b1 = tty_out ctx @ output_buffer ctx"
      unfolding emits_def by (metis append_Nil2)
    have c1: "\<exists>t b. ctx1 = ctx\<lparr>output_buffer := b, tty_out := t\<rparr> \<and> t @ b = tty_out ctx @ output_buffer ctx"
    proof (cases "space = 0")
      case True
      then show ?thesis using f1 tb1 by (auto simp: ctx1_def)
    next
      case False
      then have "ctx1 = ctx\<lparr>output_buffer := output_buffer ctx, tty_out := tty_out ctx\<rparr>"
        by (simp add: ctx1_def)
      then show ?thesis by blast
    qed
    then obtain t0 b0 where c1eq: "ctx1 = ctx\<lparr>output_buffer := b0, tty_out := t0\<rparr>"
      and tb0: "t0 @ b0 = tty_out ctx @ output_buffer ctx" by blast
    have "tui_output_write ctx data = ctx\<lparr>output_buffer := b, tty_out := t\<rparr>"
      using unfold r c1eq by (simp add: ctx2_def)
    moreover have "t @ b = tty_out ctx @ output_buffer ctx @ data"
    proof -
      have "t @ b = t0 @ b0 @ take chunk data @ drop chunk data"
        using tb c1eq by (simp add: ctx2_def)
      also have "\<dots> = tty_out ctx @ output_buffer ctx @ data"
        using tb0 by (metis append.assoc append_take_drop_id)
      finally show ?thesis .
    qed
    ultimately show ?thesis by blast
  qed
qed

lemma emits_write: "emits (\<lambda>c. tui_output_write c data) data"
  by (rule emitsI) (rule output_write_emits_aux)

lemma output_only_refl: "output_only a a"
proof -
  have "a = a\<lparr>output_buffer := output_buffer a, tty_out := tty_out a\<rparr>" by simp
  then show ?thesis unfolding output_only_def by blast
qed

lemma output_only_trans:
  assumes "output_only a b" "output_only b c"
  shows "output_only a c"
proof -
  from assms(1) obtain t ob where b: "b = a\<lparr>output_buffer := ob, tty_out := t\<rparr>"
    unfolding output_only_def by blast
  from assms(2) obtain t' ob' where c: "c = b\<lparr>output_buffer := ob', tty_out := t'\<rparr>"
    unfolding output_only_def by blast
  have "c = a\<lparr>output_buffer := ob', tty_out := t'\<rparr>" using b c by simp
  then show ?thesis unfolding output_only_def by blast
qed

lemma emits_output_only: "emits f bytes \<Longrightarrow> output_only c (f c)"
  unfolding emits_def output_only_def by blast

lemma emits_str: "emits (\<lambda>c. tui_output_str c s) s"
  unfolding tui_output_str_def by (rule emits_write)

lemma emits_int: "emits (\<lambda>c. tui_output_int c v) (int_text v)"
  unfolding tui_output_int_def by (rule emits_str)

lemma int32_id: "INT_MIN \<le> v \<Longrightarrow> v \<le> INT_MAX \<Longrightarrow> int32 v = v"
  by (simp add: int32_def INT_MIN_def INT_MAX_def)

lemma emits_move_cursor_wrapped:
  "emits (\<lambda>c. tui_ansi_move_cursor c px py)
     (((((ESC # ascii ''['') @ int_text (int32 (py + 1))) @ ascii '';'') @
        int_text (int32 (px + 1))) @ ascii ''H'')"
  unfolding tui_ansi_move_cursor_def
  by (intro emits_comp emits_str emits_int)

lemma emits_move_cursor:
  assumes "INT_MIN \<le> px" "px < INT_MAX" "INT_MIN \<le> py" "py < INT_MAX"
  shows "emits (\<lambda>c. tui_ansi_move_cursor c px py) (move_cursor_bytes px py)"
proof -
  have "int32 (px + 1) = px + 1" "int32 (py + 1) = py + 1"
    using assms by (simp_all add: int32_id)
  with emits_move_cursor_wrapped [of px py] show ?thesis
    by (simp add: move_cursor_bytes_def)
qed

lemma emits_show_cursor: "emits tui_ansi_show_cursor show_cursor_bytes"
  unfolding tui_ansi_show_cursor_def [abs_def] show_cursor_bytes_def by (rule emits_str)

lemma emits_hide_cursor: "emits tui_ansi_hide_cursor (ESC # ascii ''[?25l'')"
  unfolding tui_ansi_hide_cursor_def [abs_def] by (rule emits_str)

lemma emits_reset: "emits tui_ansi_reset (ESC # ascii ''[0m'')"
  unfolding tui_ansi_reset_def [abs_def] by (rule emits_str)

lemma emits_begin_sync: "emits tui_ansi_begin_sync BEGIN_SYNC"
  unfolding tui_ansi_begin_sync_def [abs_def] BEGIN_SYNC_def by (rule emits_str)

lemma emits_end_sync: "emits tui_ansi_end_sync END_SYNC"
  unfolding tui_ansi_end_sync_def [abs_def] END_SYNC_def by (rule emits_str)

lemma output_only_str: "output_only c (tui_output_str c s)"
  by (rule emits_output_only [OF emits_str])

lemma output_only_int: "output_only c (tui_output_int c v)"
  by (rule emits_output_only [OF emits_int])

lemma output_only_move_cursor: "output_only c (tui_ansi_move_cursor c px py)"
  by (rule emits_output_only [OF emits_move_cursor_wrapped])

lemma output_only_reset: "output_only c (tui_ansi_reset c)"
  by (rule emits_output_only [OF emits_reset])

lemma output_only_write: "output_only c (tui_output_write c data)"
  by (rule emits_output_only [OF emits_write])

lemma output_only_then_str: "output_only a b \<Longrightarrow> output_only a (tui_output_str b s)"
  by (rule output_only_trans [OF _ output_only_str])

lemma output_only_then_int: "output_only a b \<Longrightarrow> output_only a (tui_output_int b v)"
  by (rule output_only_trans [OF _ output_only_int])

lemma output_only_set_fg: "output_only c (tui_ansi_set_fg c color)"
  unfolding tui_ansi_set_fg_def
  by (simp only: split: if_split)
     (intro conjI impI output_only_then_str output_only_then_int output_only_refl)

lemma output_only_set_bg: "output_only c (tui_ansi_set_bg c color)"
  unfolding tui_ansi_set_bg_def
  by (simp only: split: if_split)
     (intro conjI impI output_only_then_str output_only_then_int output_only_refl)

lemma output_only_set_underline_color: "output_only c (tui_ansi_set_underline_color c color)"
  unfolding tui_ansi_set_underline_color_def
  by (simp only: split: if_split)
     (intro conjI impI output_only_then_str output_only_refl)

lemma output_only_if: "output_only a b \<Longrightarrow> output_only a (if P then tui_output_str b s else b)"
  by (auto intro: output_only_trans output_only_str)

lemma output_only_set_style: "output_only c (tui_ansi_set_style c st)"
  unfolding tui_ansi_set_style_def Let_def
  by (intro output_only_if output_only_refl)


section \<open>Loops\<close>

lemma for_loop_nonpos: "n \<le> 0 \<Longrightarrow> for_loop n body s = s"
  by (simp add: for_loop_def)

lemma for_loop_step: "0 \<le> n \<Longrightarrow> for_loop (n + 1) body s = body n (for_loop n body s)"
proof -
  assume n: "0 \<le> n"
  then have "nat (n + 1) = Suc (nat n)" by simp
  then show ?thesis using n by (simp add: for_loop_def)
qed

lemma for_loop_invariant:
  assumes base: "P 0 s"
    and step: "\<And>i t. 0 \<le> i \<Longrightarrow> i < n \<Longrightarrow> P i t \<Longrightarrow> P (i + 1) (body i t)"
  shows "P (max 0 n) (for_loop n body s)"
proof -
  have "int k \<le> max 0 n \<Longrightarrow> P (int k) (for_loop (int k) body s)" for k
  proof (induction k)
    case 0
    then show ?case using base by (simp add: for_loop_nonpos)
  next
    case (Suc k)
    then have "P (int k) (for_loop (int k) body s)" by simp
    moreover have "int k < n" using Suc.prems by simp
    ultimately have "P (int k + 1) (body (int k) (for_loop (int k) body s))"
      by (intro step) simp_all
    then show ?case using for_loop_step [of "int k" body s] by (simp add: add.commute)
  qed
  from this [of "nat (max 0 n)"] have "P (max 0 n) (for_loop (max 0 n) body s)" by simp
  moreover have "for_loop (max 0 n) body s = for_loop n body s"
    by (simp add: for_loop_def max_def)
  ultimately show ?thesis by simp
qed

lemma for_loop_unchanged:
  assumes "\<And>i. 0 \<le> i \<Longrightarrow> i < n \<Longrightarrow> body i s = s"
  shows "for_loop n body s = s"
  using for_loop_invariant [of "\<lambda>i t. t = s" s n body] assms by simp

section \<open>The diff loop\<close>

lemma tui_cell_equal_iff: "tui_cell_equal (a::tui_cell) b \<longleftrightarrow> a = b"
  by (cases a, cases b) (auto simp: tui_cell_equal_def)

lemma flushes_refl: "flushes a a"
proof -
  have "a = a\<lparr>front_buffer := front_buffer a, output_buffer := output_buffer a, tty_out := tty_out a\<rparr>"
    by simp
  then show ?thesis unfolding flushes_def by blast
qed

lemma flushes_trans:
  assumes "flushes a b" "flushes b c"
  shows "flushes a c"
proof -
  from assms(1) obtain F t ob where b: "b = a\<lparr>front_buffer := F, output_buffer := ob, tty_out := t\<rparr>"
    and ab: "agree a \<subseteq> agree b"
    unfolding flushes_def by blast
  from assms(2) obtain F' t' ob' where c: "c = b\<lparr>front_buffer := F', output_buffer := ob', tty_out := t'\<rparr>"
    and bc: "agree b \<subseteq> agree c"
    unfolding flushes_def by blast
  have "c = a\<lparr>front_buffer := F', output_buffer := ob', tty_out := t'\<rparr>" using b c by simp
  moreover have "agree a \<subseteq> agree c" using ab bc by blast
  ultimately show ?thesis unfolding flushes_def by blast
qed

lemma end_frame_cell_output:
  assumes "\<not> tui_cell_equal (front_buffer (d_ctx st) (py * TUI_MAX_WIDTH + px))
                            (back_buffer (d_ctx st) (py * TUI_MAX_WIDTH + px))"
  shows "\<exists>c6. output_only (d_ctx st) c6 \<and>
           d_ctx (end_frame_cell py px st) =
             c6\<lparr>front_buffer := (front_buffer c6)(py * TUI_MAX_WIDTH + px :=
                    back_buffer (d_ctx st) (py * TUI_MAX_WIDTH + px))\<rparr>"
proof -
  define ctx where "ctx = d_ctx st"
  define idx where "idx = py * TUI_MAX_WIDTH + px"
  define bk where "bk = back_buffer ctx idx"
  define c1 where "c1 = (if last_x st \<noteq> px - 1 \<or> last_y st \<noteq> py
                    then tui_ansi_move_cursor ctx px py else ctx)"
  define s2 where "s2 = (if style bk \<noteq> last_style st
                    then st\<lparr>d_ctx := tui_ansi_set_style (tui_ansi_reset c1) (style bk),
                            last_style := style bk,
                            last_fg := 0xFFFFFFFF, last_bg := 0xFFFFFFFF,
                            last_underline_color := 0xFFFFFFFF\<rparr>
                    else st\<lparr>d_ctx := c1\<rparr>)"
  define s3 where "s3 = (if fg bk \<noteq> last_fg s2
                    then s2\<lparr>d_ctx := tui_ansi_set_fg (d_ctx s2) (fg bk), last_fg := fg bk\<rparr>
                    else s2)"
  define s4 where "s4 = (if bg bk \<noteq> last_bg s3
                    then s3\<lparr>d_ctx := tui_ansi_set_bg (d_ctx s3) (bg bk), last_bg := bg bk\<rparr>
                    else s3)"
  define s5 where "s5 = (if underline_color bk \<noteq> last_underline_color s4
                    then s4\<lparr>d_ctx := tui_ansi_set_underline_color (d_ctx s4) (underline_color bk),
                            last_underline_color := underline_color bk\<rparr>
                    else s4)"
  define c6 where "c6 = tui_output_write (d_ctx s5) (tui_utf8_encode (codepoint bk))"
  have o1: "output_only ctx c1"
    by (simp add: c1_def output_only_refl output_only_move_cursor)
  have o2: "output_only c1 (d_ctx s2)"
    by (auto simp: s2_def output_only_refl
        intro: output_only_trans [OF output_only_reset output_only_set_style])
  have o3: "output_only (d_ctx s2) (d_ctx s3)"
    by (simp add: s3_def output_only_refl output_only_set_fg)
  have o4: "output_only (d_ctx s3) (d_ctx s4)"
    by (simp add: s4_def output_only_refl output_only_set_bg)
  have o5: "output_only (d_ctx s4) (d_ctx s5)"
    by (simp add: s5_def output_only_refl output_only_set_underline_color)
  have o6: "output_only (d_ctx s5) c6"
    by (simp add: c6_def output_only_write)
  have oo: "output_only ctx c6"
    using o1 o2 o3 o4 o5 o6 by (blast intro: output_only_trans)
  have "end_frame_cell py px st =
      (if \<not> tui_cell_equal (front_buffer ctx idx) bk then
         s5\<lparr>d_ctx := c6\<lparr>front_buffer := (front_buffer c6)(idx := bk)\<rparr>, last_x := px, last_y := py\<rparr>
       else st)"
    unfolding end_frame_cell_def Let_def c6_def s5_def s4_def s3_def s2_def c1_def bk_def idx_def ctx_def
    by (rule refl)
  with assms have "end_frame_cell py px st =
      s5\<lparr>d_ctx := c6\<lparr>front_buffer := (front_buffer c6)(idx := bk)\<rparr>, last_x := px, last_y := py\<rparr>"
    unfolding bk_def idx_def ctx_def by simp
  then have "d_ctx (end_frame_cell py px st) = c6\<lparr>front_buffer := (front_buffer c6)(idx := bk)\<rparr>"
    by simp
  with oo show ?thesis unfolding ctx_def idx_def bk_def by blast
qed

lemma end_frame_cell_same:
  "tui_cell_equal (front_buffer (d_ctx st) (py * TUI_MAX_WIDTH + px))
                  (back_buffer (d_ctx st) (py * TUI_MAX_WIDTH + px))
   \<Longrightarrow> end_frame_cell py px st = st"
  by (simp add: end_frame_cell_def Let_def)

lemma end_frame_cell_flushes:
  "flushes (d_ctx st) (d_ctx (end_frame_cell py px st)) \<and>
   cell_index px py \<in> agree (d_ctx (end_frame_cell py px st))"
proof (cases "tui_cell_equal (front_buffer (d_ctx st) (py * TUI_MAX_WIDTH + px))
                  (back_buffer (d_ctx st) (py * TUI_MAX_WIDTH + px))")
  case True
  then show ?thesis
    by (simp add: end_frame_cell_same flushes_refl tui_cell_equal_iff agree_def cell_index_def)
next
  case False
  from end_frame_cell_output [OF False] obtain c6 where
    oo: "output_only (d_ctx st) c6" and
    r: "d_ctx (end_frame_cell py px st) =
             c6\<lparr>front_buffer := (front_buffer c6)(py * TUI_MAX_WIDTH + px :=
                    back_buffer (d_ctx st) (py * TUI_MAX_WIDTH + px))\<rparr>"
    by blast
  from oo obtain t ob where c6: "c6 = (d_ctx st)\<lparr>output_buffer := ob, tty_out := t\<rparr>"
    unfolding output_only_def by blast
  have eq: "d_ctx (end_frame_cell py px st) =
      (d_ctx st)\<lparr>front_buffer := (front_buffer (d_ctx st))(py * TUI_MAX_WIDTH + px :=
                    back_buffer (d_ctx st) (py * TUI_MAX_WIDTH + px)),
                 output_buffer := ob, tty_out := t\<rparr>"
    using r c6 by simp
  have "agree (d_ctx st) \<subseteq> agree (d_ctx (end_frame_cell py px st))"
    unfolding eq by (auto simp: agree_def)
  moreover have "cell_index px py \<in> agree (d_ctx (end_frame_cell py px st))"
    unfolding eq by (simp add: agree_def cell_index_def)
  ultimately show ?thesis unfolding flushes_def using eq by blast
qed

lemma flushes_fields:
  assumes "flushes a b"
  shows "back_buffer b = back_buffer a" "width b = width a" "height b = height a"
    "cursor_visible b = cursor_visible a" "cursor_x b = cursor_x a" "cursor_y b = cursor_y a"
    "in_frame b = in_frame a" "initialized b = initialized a" "needs_redraw b = needs_redraw a"
    "current_underline_color b = current_underline_color a"
proof -
  from assms obtain F t ob where "b = a\<lparr>front_buffer := F, output_buffer := ob, tty_out := t\<rparr>"
    unfolding flushes_def by blast
  then show "back_buffer b = back_buffer a" "width b = width a" "height b = height a"
    "cursor_visible b = cursor_visible a" "cursor_x b = cursor_x a" "cursor_y b = cursor_y a"
    "in_frame b = in_frame a" "initialized b = initialized a" "needs_redraw b = needs_redraw a"
    "current_underline_color b = current_underline_color a"
    by simp_all
qed

lemma end_frame_row:
  "flushes (d_ctx st) (d_ctx (for_loop w (end_frame_cell py) st)) \<and>
   {cell_index px py | px. 0 \<le> px \<and> px < w} \<subseteq> agree (d_ctx (for_loop w (end_frame_cell py) st))"
proof -
  let ?P = "\<lambda>i (t::diff_state). flushes (d_ctx st) (d_ctx t) \<and>
              {cell_index px py | px. 0 \<le> px \<and> px < i} \<subseteq> agree (d_ctx t)"
  have "?P (max 0 w) (for_loop w (end_frame_cell py) st)"
  proof (rule for_loop_invariant)
    show "?P 0 st" by (auto simp: flushes_refl)
  next
    fix i and t :: diff_state
    assume i: "0 \<le> i" "i < w" and P: "?P i t"
    have step: "flushes (d_ctx t) (d_ctx (end_frame_cell py i t))"
      and here: "cell_index i py \<in> agree (d_ctx (end_frame_cell py i t))"
      using end_frame_cell_flushes [of t py i] by simp_all
    have mono: "agree (d_ctx t) \<subseteq> agree (d_ctx (end_frame_cell py i t))"
      using step unfolding flushes_def by blast
    have "{cell_index px py | px. 0 \<le> px \<and> px < i + 1} \<subseteq> agree (d_ctx (end_frame_cell py i t))"
    proof
      fix c assume "c \<in> {cell_index px py | px. 0 \<le> px \<and> px < i + 1}"
      then obtain px where c: "c = cell_index px py" and px: "0 \<le> px" "px < i + 1" by blast
      show "c \<in> agree (d_ctx (end_frame_cell py i t))"
      proof (cases "px = i")
        case True
        then show ?thesis using here c by simp
      next
        case False
        then have "px < i" using px by simp
        then have "c \<in> {cell_index px py | px. 0 \<le> px \<and> px < i}" using c px by blast
        then show ?thesis using P mono by blast
      qed
    qed
    moreover have "flushes (d_ctx st) (d_ctx (end_frame_cell py i t))"
      using P step by (blast intro: flushes_trans)
    ultimately show "?P (i + 1) (end_frame_cell py i t)" by simp
  qed
  moreover have "{cell_index px py | px. 0 \<le> px \<and> px < w} \<subseteq>
                 {cell_index px py | px. 0 \<le> px \<and> px < max 0 w}"
    by (auto simp: max_def)
  ultimately show ?thesis by blast
qed

lemma end_frame_rows:
  "flushes (d_ctx st) (d_ctx (for_loop h (\<lambda>py. for_loop w (end_frame_cell py)) st)) \<and>
   {cell_index px py | px py. 0 \<le> px \<and> px < w \<and> 0 \<le> py \<and> py < h}
     \<subseteq> agree (d_ctx (for_loop h (\<lambda>py. for_loop w (end_frame_cell py)) st))"
proof -
  let ?body = "\<lambda>py. for_loop w (end_frame_cell py)"
  let ?P = "\<lambda>i (t::diff_state). flushes (d_ctx st) (d_ctx t) \<and>
              {cell_index px py | px py. 0 \<le> px \<and> px < w \<and> 0 \<le> py \<and> py < i} \<subseteq> agree (d_ctx t)"
  have "?P (max 0 h) (for_loop h ?body st)"
  proof (rule for_loop_invariant)
    show "?P 0 st" by (auto simp: flushes_refl)
  next
    fix i and t :: diff_state
    assume i: "0 \<le> i" "i < h" and P: "?P i t"
    have step: "flushes (d_ctx t) (d_ctx (?body i t))"
      and row: "{cell_index px i | px. 0 \<le> px \<and> px < w} \<subseteq> agree (d_ctx (?body i t))"
      using end_frame_row [of t w i] by simp_all
    have mono: "agree (d_ctx t) \<subseteq> agree (d_ctx (?body i t))"
      using step unfolding flushes_def by blast
    have "{cell_index px py | px py. 0 \<le> px \<and> px < w \<and> 0 \<le> py \<and> py < i + 1}
        \<subseteq> agree (d_ctx (?body i t))"
    proof
      fix c assume "c \<in> {cell_index px py | px py. 0 \<le> px \<and> px < w \<and> 0 \<le> py \<and> py < i + 1}"
      then obtain px py where c: "c = cell_index px py" and px: "0 \<le> px" "px < w"
        and py: "0 \<le> py" "py < i + 1" by blast
      show "c \<in> agree (d_ctx (?body i t))"
      proof (cases "py = i")
        case True
        then have "c \<in> {cell_index px i | px. 0 \<le> px \<and> px < w}" using c px by blast
        then show ?thesis using row by blast
      next
        case False
        then have "py < i" using py by simp
        then have "c \<in> {cell_index px py | px py. 0 \<le> px \<and> px < w \<and> 0 \<le> py \<and> py < i}"
          using c px py by blast
        then show ?thesis using P mono by blast
      qed
    qed
    moreover have "flushes (d_ctx st) (d_ctx (?body i t))"
      using P step by (blast intro: flushes_trans)
    ultimately show "?P (i + 1) (?body i t)" by simp
  qed
  moreover have "{cell_index px py | px py. 0 \<le> px \<and> px < w \<and> 0 \<le> py \<and> py < h} \<subseteq>
                 {cell_index px py | px py. 0 \<le> px \<and> px < w \<and> 0 \<le> py \<and> py < max 0 h}"
    by (auto simp: max_def)
  ultimately show ?thesis by blast
qed

lemma end_frame_diff_flushes:
  "flushes ctx (d_ctx (end_frame_diff ctx)) \<and>
   visible_cells ctx \<subseteq> agree (d_ctx (end_frame_diff ctx))"
  using end_frame_rows [of "\<lparr>d_ctx = ctx, last_fg = 0xFFFFFFFF, last_bg = 0xFFFFFFFF,
       last_underline_color = 0xFFFFFFFF, last_style = 0xFF, last_x = - 2, last_y = - 2\<rparr>"
       "height ctx" "width ctx"]
  by (simp add: end_frame_diff_def visible_cells_def)

lemma end_frame_diff_unchanged:
  assumes "visible_cells ctx \<subseteq> agree ctx"
  shows "d_ctx (end_frame_diff ctx) = ctx"
proof -
  let ?st = "\<lparr>d_ctx = ctx, last_fg = 0xFFFFFFFF, last_bg = 0xFFFFFFFF,
       last_underline_color = 0xFFFFFFFF, last_style = 0xFF, last_x = - 2, last_y = - 2\<rparr>"
  have cell: "end_frame_cell py px ?st = ?st"
    if "0 \<le> px" "px < width ctx" "0 \<le> py" "py < height ctx" for px py
  proof -
    have "cell_index px py \<in> visible_cells ctx"
      using that unfolding visible_cells_def by blast
    with assms have "cell_index px py \<in> agree ctx" by blast
    then show ?thesis
      by (intro end_frame_cell_same) (simp add: agree_def cell_index_def tui_cell_equal_iff)
  qed
  have row: "for_loop (width ctx) (end_frame_cell py) ?st = ?st"
    if "0 \<le> py" "py < height ctx" for py
    by (rule for_loop_unchanged) (rule cell [OF _ _ that])
  have "for_loop (height ctx) (\<lambda>py. for_loop (width ctx) (end_frame_cell py)) ?st = ?st"
    by (rule for_loop_unchanged) (rule row)
  then show ?thesis by (simp add: end_frame_diff_def)
qed


section \<open>\<^verbatim>\<open>tui_end_frame\<close>\<close>

lemma flush_result:
  "tty_out (tui_output_flush c) = tty_out c @ output_buffer c"
  "output_buffer (tui_output_flush c) = []"
  by (simp_all add: tui_output_flush_def)

lemma output_only_flush: "output_only c (tui_output_flush c)"
  by (rule emits_output_only [OF emits_flush])

lemma output_only_flushes: "output_only a b \<Longrightarrow> flushes a b"
proof -
  assume "output_only a b"
  then obtain t ob where b: "b = a\<lparr>output_buffer := ob, tty_out := t\<rparr>"
    unfolding output_only_def by blast
  then have "b = a\<lparr>front_buffer := front_buffer a, output_buffer := ob, tty_out := t\<rparr>" by simp
  moreover have "agree a \<subseteq> agree b" using b by (simp add: agree_def)
  ultimately show ?thesis unfolding flushes_def by blast
qed

lemma output_only_fields:
  assumes "output_only a b"
  shows "front_buffer b = front_buffer a" "agree b = agree a" "visible_cells b = visible_cells a"
    "current_underline_color b = current_underline_color a"
proof -
  from assms obtain t ob where b: "b = a\<lparr>output_buffer := ob, tty_out := t\<rparr>"
    unfolding output_only_def by blast
  then show "front_buffer b = front_buffer a" "agree b = agree a" "visible_cells b = visible_cells a"
    "current_underline_color b = current_underline_color a"
    by (simp_all add: agree_def visible_cells_def)
qed

lemma flushes_visible: "flushes a b \<Longrightarrow> visible_cells b = visible_cells a"
  by (simp add: visible_cells_def flushes_fields)

text \<open>The steps of \<^verbatim>\<open>tui_end_frame\<close> after the diff.\<close>

lemma emits_after_diff:
  assumes "INT_MIN \<le> px" "px < INT_MAX" "INT_MIN \<le> py" "py < INT_MAX"
  shows "emits (\<lambda>c. tui_output_flush (tui_ansi_end_sync
            (if cv then tui_ansi_show_cursor (tui_ansi_move_cursor c px py) else c)))
     ((if cv then move_cursor_bytes px py @ show_cursor_bytes else []) @ END_SYNC)"
proof (cases cv)
  case True
  have "emits (\<lambda>c. tui_output_flush (tui_ansi_end_sync
            (tui_ansi_show_cursor (tui_ansi_move_cursor c px py))))
     (((move_cursor_bytes px py @ show_cursor_bytes) @ END_SYNC) @ [])"
    by (intro emits_comp emits_move_cursor assms emits_show_cursor emits_end_sync emits_flush)
  with True show ?thesis by simp
next
  case False
  have "emits (\<lambda>c. tui_output_flush (tui_ansi_end_sync c)) (END_SYNC @ [])"
    by (intro emits_comp emits_end_sync emits_flush)
  with False show ?thesis by simp
qed

lemma output_only_after_diff:
  "output_only c (tui_output_flush (tui_ansi_end_sync
            (if cv then tui_ansi_show_cursor (tui_ansi_move_cursor c px py) else c)))"
proof -
  have m: "output_only c (tui_ansi_move_cursor c px py)" by (rule output_only_move_cursor)
  have "output_only c (tui_ansi_show_cursor (tui_ansi_move_cursor c px py))"
    by (rule output_only_trans [OF m emits_output_only [OF emits_show_cursor]])
  then have "output_only c (if cv then tui_ansi_show_cursor (tui_ansi_move_cursor c px py) else c)"
    by (simp add: output_only_refl)
  then have "output_only c (tui_ansi_end_sync
      (if cv then tui_ansi_show_cursor (tui_ansi_move_cursor c px py) else c))"
    by (rule output_only_trans [OF _ emits_output_only [OF emits_end_sync]])
  then show ?thesis by (rule output_only_trans [OF _ output_only_flush])
qed

lemma end_frame_stages:
  assumes "initialized ctx" "in_frame ctx"
  shows "\<exists>c1 c3. tui_end_frame (Some ctx) =
           Some ((tui_output_flush (tui_ansi_end_sync
                   (if cursor_visible c3
                    then tui_ansi_show_cursor (tui_ansi_move_cursor c3 (cursor_x c3) (cursor_y c3))
                    else c3)))\<lparr>in_frame := False\<rparr>) \<and>
         c3 = d_ctx (end_frame_diff (tui_ansi_begin_sync c1)) \<and>
         (\<not> needs_redraw ctx \<longrightarrow> c1 = ctx) \<and>
         (\<exists>F t ob. c1 = ctx\<lparr>needs_redraw := False, front_buffer := F,
                                output_buffer := ob, tty_out := t\<rparr>)"
proof -
  define r5 where "r5 = tui_output_flush (tui_output_str (tui_output_str (tui_output_str
                        (ctx\<lparr>needs_redraw := False\<rparr>) (ESC # ascii ''[0m'')) (ESC # ascii ''[2J''))
                        (ESC # ascii ''[H''))"
  define c1 where "c1 = (if needs_redraw ctx
       then r5\<lparr>front_buffer := tui_clear_buffer (front_buffer r5) TUI_MAX_WIDTH TUI_MAX_HEIGHT\<rparr>
       else ctx)"
  define c3 where "c3 = d_ctx (end_frame_diff (tui_ansi_begin_sync c1))"
  have "tui_end_frame (Some ctx) =
      (if \<not> initialized ctx \<or> \<not> in_frame ctx then Some ctx
       else Some ((tui_output_flush (tui_ansi_end_sync
                   (if cursor_visible c3
                    then tui_ansi_show_cursor (tui_ansi_move_cursor c3 (cursor_x c3) (cursor_y c3))
                    else c3)))\<lparr>in_frame := False\<rparr>))"
    unfolding tui_end_frame_def Let_def option.case c3_def c1_def r5_def by (rule refl)
  with assms have res: "tui_end_frame (Some ctx) =
       Some ((tui_output_flush (tui_ansi_end_sync
                   (if cursor_visible c3
                    then tui_ansi_show_cursor (tui_ansi_move_cursor c3 (cursor_x c3) (cursor_y c3))
                    else c3)))\<lparr>in_frame := False\<rparr>)"
    by simp
  have idle: "\<not> needs_redraw ctx \<longrightarrow> c1 = ctx" by (simp add: c1_def)
  have "output_only (ctx\<lparr>needs_redraw := False\<rparr>) r5"
    unfolding r5_def
    by (intro output_only_trans [OF _ output_only_flush] output_only_then_str output_only_refl)
  then obtain t ob where r5: "r5 = ctx\<lparr>needs_redraw := False, output_buffer := ob, tty_out := t\<rparr>"
    unfolding output_only_def by auto
  have shape: "\<exists>F t ob. c1 = ctx\<lparr>needs_redraw := False, front_buffer := F,
                                output_buffer := ob, tty_out := t\<rparr>"
  proof (cases "needs_redraw ctx")
    case True
    then have "c1 = ctx\<lparr>needs_redraw := False,
        front_buffer := tui_clear_buffer (front_buffer r5) TUI_MAX_WIDTH TUI_MAX_HEIGHT,
        output_buffer := ob, tty_out := t\<rparr>"
      by (simp add: c1_def r5)
    then show ?thesis by blast
  next
    case False
    then have "c1 = ctx\<lparr>needs_redraw := False, front_buffer := front_buffer ctx,
        output_buffer := output_buffer ctx, tty_out := tty_out ctx\<rparr>"
      by (simp add: c1_def)
    then show ?thesis by blast
  qed
  from res idle shape c3_def show ?thesis by blast
qed

lemma end_frame_result:
  assumes "initialized ctx" "in_frame ctx"
  shows "\<exists>c'. tui_end_frame (Some ctx) = Some c' \<and>
           back_buffer c' = back_buffer ctx \<and> width c' = width ctx \<and> height c' = height ctx \<and>
           visible_cells c' \<subseteq> agree c' \<and> \<not> in_frame c' \<and> \<not> needs_redraw c' \<and>
           output_buffer c' = [] \<and> initialized c' \<and>
           current_underline_color c' = current_underline_color ctx \<and>
           cursor_visible c' = cursor_visible ctx \<and>
           cursor_x c' = cursor_x ctx \<and> cursor_y c' = cursor_y ctx"
proof -
  from end_frame_stages [OF assms] obtain c1 c3 F t ob where
    res: "tui_end_frame (Some ctx) =
           Some ((tui_output_flush (tui_ansi_end_sync
                   (if cursor_visible c3
                    then tui_ansi_show_cursor (tui_ansi_move_cursor c3 (cursor_x c3) (cursor_y c3))
                    else c3)))\<lparr>in_frame := False\<rparr>)"
    and c3: "c3 = d_ctx (end_frame_diff (tui_ansi_begin_sync c1))"
    and c1: "c1 = ctx\<lparr>needs_redraw := False, front_buffer := F, output_buffer := ob, tty_out := t\<rparr>"
    by blast
  define c2 where "c2 = tui_ansi_begin_sync c1"
  define c6 where "c6 = tui_output_flush (tui_ansi_end_sync
                   (if cursor_visible c3
                    then tui_ansi_show_cursor (tui_ansi_move_cursor c3 (cursor_x c3) (cursor_y c3))
                    else c3))"
  have o12: "output_only c1 c2"
    unfolding c2_def by (rule emits_output_only [OF emits_begin_sync])
  have f23: "flushes c2 c3" and vis3: "visible_cells c2 \<subseteq> agree c3"
    using end_frame_diff_flushes [of c2] by (simp_all add: c3 c2_def)
  have o36: "output_only c3 c6"
    unfolding c6_def
    by (rule output_only_after_diff)
  have f16: "flushes c1 c6"
    using o12 f23 o36 by (blast intro: flushes_trans output_only_flushes)
  have vis6: "visible_cells c6 \<subseteq> agree c6"
    using vis3 o36 f23 by (simp add: output_only_fields flushes_visible)
  have out6: "output_buffer c6 = []" by (simp add: c6_def flush_result)
  let ?c = "c6\<lparr>in_frame := False\<rparr>"
  have "tui_end_frame (Some ctx) = Some ?c" using res by (simp add: c6_def)
  moreover have "back_buffer ?c = back_buffer ctx" "width ?c = width ctx" "height ?c = height ctx"
    "\<not> needs_redraw ?c" "initialized ?c"
    "current_underline_color ?c = current_underline_color ctx"
    "cursor_visible ?c = cursor_visible ctx"
    "cursor_x ?c = cursor_x ctx" "cursor_y ?c = cursor_y ctx"
    using flushes_fields [OF f16] assms by (simp_all add: c1)
  moreover have "visible_cells ?c \<subseteq> agree ?c"
    using vis6 by (simp add: visible_cells_def agree_def)
  moreover have "\<not> in_frame ?c" "output_buffer ?c = []" using out6 by simp_all
  ultimately show ?thesis by blast
qed

lemma end_frame_idle:
  assumes "initialized ctx" "in_frame ctx" "\<not> needs_redraw ctx"
    and "visible_cells ctx \<subseteq> agree ctx"
    and cur: "INT_MIN \<le> cursor_x ctx" "cursor_x ctx < INT_MAX"
      "INT_MIN \<le> cursor_y ctx" "cursor_y ctx < INT_MAX"
  shows "\<exists>c'. tui_end_frame (Some ctx) = Some c' \<and>
           tty_out c' = tty_out ctx @ output_buffer ctx @ BEGIN_SYNC @
             (if cursor_visible ctx
              then move_cursor_bytes (cursor_x ctx) (cursor_y ctx) @ show_cursor_bytes else []) @
             END_SYNC"
proof -
  from end_frame_stages [OF assms(1,2)] assms(3) obtain c3 where
    res: "tui_end_frame (Some ctx) =
           Some ((tui_output_flush (tui_ansi_end_sync
                   (if cursor_visible c3
                    then tui_ansi_show_cursor (tui_ansi_move_cursor c3 (cursor_x c3) (cursor_y c3))
                    else c3)))\<lparr>in_frame := False\<rparr>)"
    and c3: "c3 = d_ctx (end_frame_diff (tui_ansi_begin_sync ctx))"
    by blast
  define c2 where "c2 = tui_ansi_begin_sync ctx"
  from emits_begin_sync obtain t ob where
    c2: "c2 = ctx\<lparr>output_buffer := ob, tty_out := t\<rparr>"
    and tob: "t @ ob = tty_out ctx @ output_buffer ctx @ BEGIN_SYNC"
    unfolding emits_def c2_def by blast
  have "visible_cells c2 \<subseteq> agree c2"
    using assms(4) by (simp add: c2 visible_cells_def agree_def)
  then have c3eq: "c3 = c2" using end_frame_diff_unchanged [of c2] by (simp add: c3 c2_def)
  define c6 where "c6 = tui_output_flush (tui_ansi_end_sync
                   (if cursor_visible c3
                    then tui_ansi_show_cursor (tui_ansi_move_cursor c3 (cursor_x c3) (cursor_y c3))
                    else c3))"
  have cur3: "INT_MIN \<le> cursor_x c3" "cursor_x c3 < INT_MAX"
      "INT_MIN \<le> cursor_y c3" "cursor_y c3 < INT_MAX"
    using cur by (simp_all add: c3eq c2)
  from emits_after_diff [OF cur3, of "cursor_visible c3"]
  obtain t' ob' where c6: "c6 = c3\<lparr>output_buffer := ob', tty_out := t'\<rparr>"
    and tob': "t' @ ob' = tty_out c3 @ output_buffer c3 @
       ((if cursor_visible c3 then move_cursor_bytes (cursor_x c3) (cursor_y c3) @ show_cursor_bytes
         else []) @ END_SYNC)"
    unfolding emits_def c6_def by blast
  have "ob' = []" using c6 flush_result(2) [of "tui_ansi_end_sync
                   (if cursor_visible c3
                    then tui_ansi_show_cursor (tui_ansi_move_cursor c3 (cursor_x c3) (cursor_y c3))
                    else c3)"]
    unfolding c6_def [symmetric] by simp
  with tob' have "t' = (t @ ob) @
       ((if cursor_visible ctx then move_cursor_bytes (cursor_x ctx) (cursor_y ctx) @ show_cursor_bytes
         else []) @ END_SYNC)"
    by (simp add: c3eq c2)
  then have "tty_out (c6\<lparr>in_frame := False\<rparr>) = tty_out ctx @ output_buffer ctx @ BEGIN_SYNC @
             (if cursor_visible ctx
              then move_cursor_bytes (cursor_x ctx) (cursor_y ctx) @ show_cursor_bytes else []) @
             END_SYNC"
    using tob by (simp add: c6)
  moreover have "tui_end_frame (Some ctx) = Some (c6\<lparr>in_frame := False\<rparr>)"
    using res by (simp add: c6_def)
  ultimately show ?thesis by blast
qed


section \<open>Drawing calls inside a frame\<close>


lemma composes_refl: "composes a a"
  by (cases a) (simp_all add: composes_def)

lemma composes_trans: "composes a b \<Longrightarrow> composes b c \<Longrightarrow> composes a c"
  by (cases a) (auto simp: composes_def)

lemma composes_None: "composes None b \<longleftrightarrow> b = None"
  by (simp add: composes_def)

lemma composes_set_cell: "composes c (tui_set_cell c px py cp)"
  by (cases c) (simp_all add: composes_def tui_set_cell_def Let_def)

lemma composes_set_cell_wide: "composes c (tui_set_cell_wide c px py cp)"
  by (cases c) (simp_all add: composes_def tui_set_cell_wide_def Let_def)

lemma composes_label_loop: "composes c (label_loop c x0 cur_x py rest)"
proof (induction c x0 cur_x py rest rule: label_loop.induct)
  case (1 ctxp x0 cur_x py rest)
  show ?case
  proof (cases ctxp)
    case None
    then show ?thesis by (subst label_loop.simps) (simp add: composes_def)
  next
    case (Some ctx)
    show ?thesis
    proof (cases "rest \<noteq> [] \<and> cur_x < width ctx")
      case False
      then have "label_loop ctxp x0 cur_x py rest = ctxp"
        using Some by (subst label_loop.simps) auto
      then show ?thesis by (simp add: composes_refl)
    next
      case True
      note IH = "1.IH" [OF Some True refl refl refl]
      define cp where "cp = snd (tui_utf8_decode rest)"
      define more where "more = drop (fst (tui_utf8_decode rest)) rest"
      have unfold: "label_loop ctxp x0 cur_x py rest =
        (if cp = 0x0A then label_loop ctxp x0 x0 (int32 (py + 1)) more
         else if cp \<ge> 32 then
           (if tui_char_width cp = 2 then
              (if int32 (cur_x + 1) < width ctx
               then label_loop (tui_set_cell_wide ctxp cur_x py cp) x0 (int32 (cur_x + 2)) py more
               else label_loop ctxp x0 (int32 (cur_x + 1)) py more)
            else if tui_char_width cp = 1
              then label_loop (tui_set_cell ctxp cur_x py cp) x0 (int32 (cur_x + 1)) py more
            else label_loop ctxp x0 cur_x py more)
         else label_loop ctxp x0 cur_x py more)"
        using True Some by (subst label_loop.simps) (simp add: Let_def cp_def more_def)
      note IH' = IH [folded cp_def more_def]
      have wide: "composes ctxp (label_loop (tui_set_cell_wide ctxp cur_x py cp) x0 (int32 (cur_x + 2)) py more)"
        if "cp \<noteq> 0x0A" "32 \<le> cp" "tui_char_width cp = 2" "int32 (cur_x + 1) < width ctx"
        using that IH'(2) [OF _ _ refl] composes_set_cell_wide [of ctxp cur_x py cp]
        by (blast intro: composes_trans)
      have one: "composes ctxp (label_loop (tui_set_cell ctxp cur_x py cp) x0 (int32 (cur_x + 1)) py more)"
        if "cp \<noteq> 0x0A" "32 \<le> cp" "tui_char_width cp \<noteq> 2" "tui_char_width cp = 1"
        using that IH'(4) [OF _ _ refl] composes_set_cell [of ctxp cur_x py cp]
        by (blast intro: composes_trans)
      show ?thesis
        unfolding unfold
        using IH'(1) IH'(3) [OF _ _ refl] IH'(5) [OF _ _ refl] IH'(6) wide one
        by (simp split: if_split)
    qed
  qed
qed



lemma composes_label: "composes c (tui_label c px py str)"
proof (cases c)
  case None
  then show ?thesis by (simp add: tui_label_def composes_def)
next
  case (Some ctx)
  show ?thesis
  proof (cases str)
    case None
    then show ?thesis using Some by (simp add: tui_label_def composes_refl)
  next
    case (Some s)
    then show ?thesis using \<open>c = Some ctx\<close> composes_label_loop [of "Some ctx" px px py s]
      by (simp add: tui_label_def composes_refl)
  qed
qed

lemma composes_for_loop:
  assumes "\<And>i t. composes t (body i t)"
  shows "composes c (for_loop n body c)"
proof -
  have "composes c (for_loop n body c)"
  proof (rule for_loop_invariant [of "\<lambda>i t. composes c t" c n body])
    show "composes c c" by (rule composes_refl)
  next
    fix i t assume "composes c t"
    then show "composes c (body i t)" using assms [of t i] by (rule composes_trans)
  qed
  then show ?thesis .
qed

lemma composes_for_set_cell:
  "composes c (for_loop n (\<lambda>i t. tui_set_cell t (f i) (g i) glyph) c)"
  by (rule composes_for_loop) (rule composes_set_cell)

lemma composes_for_for_set_cell:
  "composes c (for_loop m (\<lambda>j. for_loop n (\<lambda>i t. tui_set_cell t (f i j) (g i j) glyph)) c)"
  by (rule composes_for_loop) (rule composes_for_set_cell)

lemma composes_clear: "composes c (tui_clear c)"
proof (cases c)
  case None
  then show ?thesis by (simp add: tui_clear_def composes_def)
next
  case (Some ctx)
  then show ?thesis
    using composes_for_for_set_cell [of "Some ctx" "height ctx" "width ctx" "\<lambda>i j. i" "\<lambda>i j. j" "0x20"]
    by (simp add: tui_clear_def composes_refl)
qed

lemma composes_fill: "composes c (tui_fill c px py w h glyph)"
proof (cases c)
  case None
  then show ?thesis by (simp add: tui_fill_def composes_def)
next
  case (Some ctx)
  then show ?thesis
    using composes_for_for_set_cell [of "Some ctx" h w "\<lambda>i j. px + i" "\<lambda>i j. py + j" glyph]
    by (simp add: tui_fill_def composes_refl)
qed

lemma composes_hline: "composes c (tui_hline c px py len glyph)"
proof (cases c)
  case None
  then show ?thesis by (simp add: tui_hline_def composes_def)
next
  case (Some ctx)
  then show ?thesis
    using composes_for_set_cell [of "Some ctx" len "\<lambda>i. px + i" "\<lambda>i. py" glyph]
    by (simp add: tui_hline_def composes_refl)
qed

lemma composes_vline: "composes c (tui_vline c px py len glyph)"
proof (cases c)
  case None
  then show ?thesis by (simp add: tui_vline_def composes_def)
next
  case (Some ctx)
  then show ?thesis
    using composes_for_set_cell [of "Some ctx" len "\<lambda>i. px" "\<lambda>i. py + i" glyph]
    by (simp add: tui_vline_def composes_refl)
qed

lemma composes_framed: "composes a b \<Longrightarrow> framed a \<Longrightarrow> framed b"
  by (cases a) (auto simp: composes_def framed_def)

lemma composes_set_fg: "composes c (tui_set_fg c v)"
  by (cases c) (simp_all add: composes_def tui_set_fg_def)

lemma composes_set_bg: "composes c (tui_set_bg c v)"
  by (cases c) (simp_all add: composes_def tui_set_bg_def)

lemma composes_set_style: "composes c (tui_set_style c v)"
  by (cases c) (simp_all add: composes_def tui_set_style_def)

lemma composes_set_underline_color: "composes c (tui_set_underline_color c v)"
  by (cases c) (simp_all add: composes_def tui_set_underline_color_def)

lemma composes_set_cursor: "composes c (tui_set_cursor c px py)"
  by (cases c) (simp_all add: composes_def tui_set_cursor_def)

lemma composes_show_cursor: "framed c \<Longrightarrow> composes c (tui_show_cursor c b)"
  by (cases c) (simp_all add: composes_def tui_show_cursor_def framed_def Let_def)

lemma composes_draw: "framed c \<Longrightarrow> composes c (draw c call)"
  by (cases call)
     (simp_all add: composes_set_fg composes_set_bg composes_set_style
        composes_set_underline_color composes_set_cell composes_set_cell_wide composes_label
        composes_clear composes_fill composes_hline composes_vline composes_set_cursor
        composes_show_cursor)

lemma composes_draw_all: "framed c \<Longrightarrow> composes c (draw_all c calls)"
proof (induction calls arbitrary: c)
  case Nil
  then show ?case by (simp add: draw_all_def composes_refl)
next
  case (Cons call calls)
  have step: "composes c (draw c call)" using Cons.prems by (rule composes_draw)
  then have "framed (draw c call)" using Cons.prems by (rule composes_framed)
  then have "composes (draw c call) (draw_all (draw c call) calls)" by (rule Cons.IH)
  with step have "composes c (draw_all (draw c call) calls)" by (rule composes_trans)
  then show ?case by (simp add: draw_all_def)
qed

lemma terminal_size_fields:
  "front_buffer (tui_get_terminal_size ctx ws) = front_buffer ctx"
  "needs_redraw (tui_get_terminal_size ctx ws) = needs_redraw ctx"
  "tty_out (tui_get_terminal_size ctx ws) = tty_out ctx"
  "output_buffer (tui_get_terminal_size ctx ws) = output_buffer ctx"
  "initialized (tui_get_terminal_size ctx ws) = initialized ctx"
  by (auto simp: tui_get_terminal_size_def Let_def split: option.splits prod.splits)

lemma begin_frame_result:
  assumes "initialized ctx"
  shows "\<exists>b. tui_begin_frame (Some ctx) ws = Some b \<and> in_frame b \<and> initialized b \<and>
           front_buffer b = front_buffer ctx \<and> needs_redraw b = needs_redraw ctx \<and>
           tty_out b = tty_out ctx \<and> output_buffer b = output_buffer ctx \<and>
           width b = width (tui_get_terminal_size ctx ws) \<and>
           height b = height (tui_get_terminal_size ctx ws)"
  using assms by (simp add: tui_begin_frame_def Let_def terminal_size_fields)

lemma terminal_size_same:
  "width (tui_get_terminal_size a ws) = width (tui_get_terminal_size b ws)"
  "height (tui_get_terminal_size a ws) = height (tui_get_terminal_size b ws)"
  by (auto simp: tui_get_terminal_size_def Let_def split: option.splits prod.splits)


section \<open>Whole frames\<close>


lemma frame_result:
  assumes "initialized ctx"
  shows "\<exists>b c'. draw_all (tui_begin_frame (Some ctx) ws) calls = Some b \<and>
           front_buffer b = front_buffer ctx \<and> in_frame b \<and>
           frame ws calls (Some ctx) = Some c' \<and> \<not> in_frame c' \<and> initialized c' \<and>
           \<not> needs_redraw c' \<and> output_buffer c' = [] \<and>
           back_buffer c' = back_buffer b \<and>
           current_underline_color c' = current_underline_color b \<and>
           cursor_visible c' = cursor_visible b \<and>
           width c' = width (tui_get_terminal_size ctx ws) \<and>
           height c' = height (tui_get_terminal_size ctx ws) \<and>
           visible_cells c' \<subseteq> agree c' \<and>
           cursor_x c' = cursor_x b \<and> cursor_y c' = cursor_y b"
proof -
  from begin_frame_result [OF assms, of ws] obtain b0 where
    b0: "tui_begin_frame (Some ctx) ws = Some b0" "in_frame b0" "initialized b0"
      "front_buffer b0 = front_buffer ctx"
      "width b0 = width (tui_get_terminal_size ctx ws)"
      "height b0 = height (tui_get_terminal_size ctx ws)"
    by blast
  have "framed (Some b0)" using b0(2) by (simp add: framed_def)
  then have "composes (Some b0) (draw_all (Some b0) calls)" by (rule composes_draw_all)
  then obtain b where
    b: "draw_all (Some b0) calls = Some b" "front_buffer b = front_buffer b0"
      "width b = width b0" "height b = height b0" "in_frame b" "initialized b"
    using b0(2,3) by (auto simp: composes_def)
  from end_frame_result [OF b(6,5)] obtain c' where
    c: "tui_end_frame (Some b) = Some c'" "back_buffer c' = back_buffer b"
      "width c' = width b" "height c' = height b" "visible_cells c' \<subseteq> agree c'"
      "\<not> in_frame c'" "\<not> needs_redraw c'" "output_buffer c' = []" "initialized c'"
      "current_underline_color c' = current_underline_color b"
      "cursor_visible c' = cursor_visible b"
      "cursor_x c' = cursor_x b" "cursor_y c' = cursor_y b"
    by blast
  have "frame ws calls (Some ctx) = Some c'"
    by (simp add: frame_def b0(1) b(1) c(1))
  then show ?thesis using b0 b c by simp
qed

lemma second_frame_output:
  assumes init: "initialized ctx"
    and f1: "frame ws calls (Some ctx) = Some c1"
    and b2: "draw_all (tui_begin_frame (Some c1) ws) calls' = Some b2"
    and same: "\<forall>px py. 0 \<le> px \<and> px < width b2 \<and> 0 \<le> py \<and> py < height b2 \<longrightarrow>
                 back_buffer b2 (cell_index px py) = back_buffer c1 (cell_index px py)"
    and cur: "INT_MIN \<le> cursor_x b2" "cursor_x b2 < INT_MAX"
      "INT_MIN \<le> cursor_y b2" "cursor_y b2 < INT_MAX"
  shows "\<exists>c2. tui_end_frame (Some b2) = Some c2 \<and>
           tty_out c2 = tty_out c1 @ BEGIN_SYNC @
             (if cursor_visible b2
              then move_cursor_bytes (cursor_x b2) (cursor_y b2) @ show_cursor_bytes else []) @
             END_SYNC"
proof -
  from frame_result [OF init, of ws calls] f1 have
    c1: "initialized c1" "\<not> needs_redraw c1" "output_buffer c1 = []"
      "width c1 = width (tui_get_terminal_size ctx ws)"
      "height c1 = height (tui_get_terminal_size ctx ws)"
      "visible_cells c1 \<subseteq> agree c1"
    by auto
  from begin_frame_result [OF c1(1), of ws] obtain b0 where
    b0: "tui_begin_frame (Some c1) ws = Some b0" "in_frame b0" "initialized b0"
      "front_buffer b0 = front_buffer c1" "needs_redraw b0 = needs_redraw c1"
      "tty_out b0 = tty_out c1" "output_buffer b0 = output_buffer c1"
      "width b0 = width (tui_get_terminal_size c1 ws)"
      "height b0 = height (tui_get_terminal_size c1 ws)"
    by blast
  have "framed (Some b0)" using b0(2) by (simp add: framed_def)
  then have "composes (Some b0) (draw_all (Some b0) calls')" by (rule composes_draw_all)
  then have
    b: "front_buffer b2 = front_buffer b0"
      "width b2 = width b0" "height b2 = height b0" "in_frame b2 = in_frame b0"
      "initialized b2 = initialized b0" "needs_redraw b2 = needs_redraw b0"
      "tty_out b2 = tty_out b0" "output_buffer b2 = output_buffer b0"
    using b2 b0(1) by (auto simp: composes_def)
  have size: "width b2 = width c1" "height b2 = height c1"
    using b(2,3) b0(8,9) c1(4,5) terminal_size_same [of c1 ws ctx] by simp_all
  have "visible_cells b2 \<subseteq> agree b2"
  proof
    fix i assume "i \<in> visible_cells b2"
    then obtain px py where i: "i = cell_index px py"
      and r: "0 \<le> px \<and> px < width b2 \<and> 0 \<le> py \<and> py < height b2"
      unfolding visible_cells_def by blast
    then have "i \<in> visible_cells c1" unfolding visible_cells_def size by blast
    then have "front_buffer c1 i = back_buffer c1 i" using c1(6) by (auto simp: agree_def)
    moreover have "back_buffer b2 i = back_buffer c1 i" using same r i by blast
    ultimately show "i \<in> agree b2" by (simp add: agree_def b(1) b0(4))
  qed
  from end_frame_idle [OF _ _ _ this cur] obtain c2 where
    "tui_end_frame (Some b2) = Some c2"
    "tty_out c2 = tty_out b2 @ output_buffer b2 @ BEGIN_SYNC @
             (if cursor_visible b2
              then move_cursor_bytes (cursor_x b2) (cursor_y b2) @ show_cursor_bytes else []) @
             END_SYNC"
    using b b0 c1 by auto
  then show ?thesis using b b0 c1 by simp
qed

lemma clear_buffer_row:
  "(\<forall>px. 0 \<le> px \<and> px < w \<longrightarrow>
      for_loop w (\<lambda>px b. b(py * TUI_MAX_WIDTH + px := tui_make_empty_cell)) buf
        (py * TUI_MAX_WIDTH + px) = tui_make_empty_cell) \<and>
   (\<forall>i. buf i = tui_make_empty_cell \<longrightarrow>
      for_loop w (\<lambda>px b. b(py * TUI_MAX_WIDTH + px := tui_make_empty_cell)) buf i
        = tui_make_empty_cell)"
proof -
  let ?body = "\<lambda>px (b :: int \<Rightarrow> tui_cell). b(py * TUI_MAX_WIDTH + px := tui_make_empty_cell)"
  let ?P = "\<lambda>n (b :: int \<Rightarrow> tui_cell).
      (\<forall>px. 0 \<le> px \<and> px < n \<longrightarrow> b (py * TUI_MAX_WIDTH + px) = tui_make_empty_cell) \<and>
      (\<forall>i. buf i = tui_make_empty_cell \<longrightarrow> b i = tui_make_empty_cell)"
  have "?P (max 0 w) (for_loop w ?body buf)"
  proof (rule for_loop_invariant [of ?P buf w ?body])
    show "?P 0 buf" by auto
  next
    fix n and b :: "int \<Rightarrow> tui_cell"
    assume "0 \<le> n" "n < w" and P: "?P n b"
    show "?P (n + 1) (?body n b)"
    proof (intro conjI allI impI)
      fix px assume "0 \<le> px \<and> px < n + 1"
      then have "px = n \<or> (0 \<le> px \<and> px < n)" by auto
      then show "(?body n b) (py * TUI_MAX_WIDTH + px) = tui_make_empty_cell"
        using P by auto
    next
      fix i assume "buf i = tui_make_empty_cell"
      then show "(?body n b) i = tui_make_empty_cell" using P by simp
    qed
  qed
  then show ?thesis by (auto simp: max_def split: if_splits)
qed

lemma clear_buffer_apply:
  assumes "0 \<le> px" "px < w" "0 \<le> py" "py < h"
  shows "tui_clear_buffer buf w h (py * TUI_MAX_WIDTH + px) = tui_make_empty_cell"
proof -
  let ?row = "\<lambda>py. for_loop w (\<lambda>px (b :: int \<Rightarrow> tui_cell). b(py * TUI_MAX_WIDTH + px := tui_make_empty_cell))"
  let ?P = "\<lambda>n (b :: int \<Rightarrow> tui_cell).
      (\<forall>px py. 0 \<le> px \<and> px < w \<and> 0 \<le> py \<and> py < n \<longrightarrow>
         b (py * TUI_MAX_WIDTH + px) = tui_make_empty_cell)"
  have "?P (max 0 h) (for_loop h ?row buf)"
  proof (rule for_loop_invariant [of ?P buf h ?row])
    show "?P 0 buf" by auto
  next
    fix n and b :: "int \<Rightarrow> tui_cell"
    assume "0 \<le> n" "n < h" and P: "?P n b"
    show "?P (n + 1) (?row n b)"
    proof (intro allI impI)
      fix px py assume r: "0 \<le> px \<and> px < w \<and> 0 \<le> py \<and> py < n + 1"
      show "(?row n b) (py * TUI_MAX_WIDTH + px) = tui_make_empty_cell"
      proof (cases "py = n")
        case True
        then show ?thesis using clear_buffer_row [of w n b] r by blast
      next
        case False
        then have "b (py * TUI_MAX_WIDTH + px) = tui_make_empty_cell" using P r by auto
        then show ?thesis using clear_buffer_row [of w n b] by blast
      qed
    qed
  qed
  then show ?thesis using assms by (auto simp: tui_clear_buffer_def max_def split: if_splits)
qed



lemma decode_H: "tui_utf8_decode (0x48 # rest) = (1, 0x48)"
  by (simp add: tui_utf8_decode_def)

lemma decode_i: "tui_utf8_decode (0x69 # rest) = (1, 0x69)"
  by (simp add: tui_utf8_decode_def)

lemma width_H: "tui_char_width 0x48 = 1" "tui_char_width 0x69 = 1"
  by (simp_all add: tui_char_width_def)

lemma ascii_Hi: "ascii ''Hi'' = [0x48, 0x69]"
  by (simp add: ascii_def)

lemma label_Hi:
  assumes "in_frame X" "width X = 10" "height X = 3"
  shows "label_loop (Some X) 0 0 0 [0x48, 0x69] =
    Some (X\<lparr>back_buffer := (back_buffer X)
      (0 := \<lparr>codepoint = 0x48, fg = current_fg X, bg = current_bg X,
               underline_color = current_underline_color X, style = current_style X\<rparr>,
       1 := \<lparr>codepoint = 0x69, fg = current_fg X, bg = current_bg X,
               underline_color = current_underline_color X, style = current_style X\<rparr>)\<rparr>)"
  using assms
  apply (subst label_loop.simps)
  apply (simp add: decode_H width_H Let_def tui_set_cell_def TUI_MAX_WIDTH_def int32_def)
  apply (subst label_loop.simps)
  apply (simp add: decode_i width_H Let_def tui_set_cell_def TUI_MAX_WIDTH_def int32_def)
  apply (subst label_loop.simps)
  apply simp
  done


section \<open>The "Hello write" frame on a 10 by 3 terminal\<close>


lemma created_fields:
  "initialized (created ws)" "\<not> in_frame (created ws)"
  "current_underline_color (created ws) = TUI_COLOR_DEFAULT"
  by (auto simp: created_def Let_def tui_get_terminal_size_def split: option.splits prod.splits)

lemma size_10_3:
  "width (tui_get_terminal_size c (Some (10, 3))) = 10"
  "height (tui_get_terminal_size c (Some (10, 3))) = 3"
  by (simp_all add: tui_get_terminal_size_def Let_def TUI_MAX_WIDTH_def TUI_MAX_HEIGHT_def)

lemma begin_frame_10_3:
  assumes "initialized c"
  shows "tui_begin_frame (Some c) (Some (10, 3)) =
    Some (c\<lparr>width := 10, height := 3,
             back_buffer := tui_clear_buffer (back_buffer c) TUI_MAX_WIDTH TUI_MAX_HEIGHT,
             current_fg := TUI_COLOR_DEFAULT, current_bg := TUI_COLOR_DEFAULT,
             current_style := TUI_STYLE_NONE, button_pressed := False, in_frame := True\<rparr>)"
  using assms
  by (simp add: tui_begin_frame_def tui_get_terminal_size_def Let_def TUI_MAX_WIDTH_def
      TUI_MAX_HEIGHT_def)

lemma hello_composed:
  assumes "initialized c"
  shows "draw_all (tui_begin_frame (Some c) (Some (10, 3))) hello_calls =
    Some (c\<lparr>width := 10, height := 3,
             back_buffer := hello_back c,
             current_fg := 0x00CC0000, current_bg := TUI_COLOR_DEFAULT,
             current_style := TUI_STYLE_NONE, button_pressed := False, in_frame := True\<rparr>)"
  unfolding begin_frame_10_3 [OF assms]
  by (simp add: draw_all_def hello_calls_def tui_set_fg_def tui_label_def ascii_Hi label_Hi
      hello_back_def)

lemma typing_composed:
  assumes "initialized c"
  shows "draw_all (tui_begin_frame (Some c) (Some (10, 3))) typing_calls =
    Some (c\<lparr>width := 10, height := 3,
             back_buffer := hello_back c,
             current_fg := 0x00CC0000, current_bg := TUI_COLOR_DEFAULT,
             current_style := TUI_STYLE_NONE, button_pressed := False, in_frame := True,
             cursor_x := 2, cursor_y := 0, cursor_visible := True\<rparr>)"
  using hello_composed [OF assms]
  by (simp add: typing_calls_def draw_all_def tui_set_cursor_def tui_show_cursor_def Let_def)

lemma hello_back_same:
  assumes "current_underline_color a = current_underline_color b"
    and "0 \<le> px" "px < 10" "0 \<le> py" "py < 3"
  shows "hello_back a (cell_index px py) = hello_back b (cell_index px py)"
proof -
  have "tui_clear_buffer buf TUI_MAX_WIDTH TUI_MAX_HEIGHT (py * TUI_MAX_WIDTH + px) = tui_make_empty_cell"
    for buf
    using assms(2-5) by (intro clear_buffer_apply) (simp_all add: TUI_MAX_WIDTH_def TUI_MAX_HEIGHT_def)
  then show ?thesis using assms(1) by (simp add: hello_back_def cell_index_def)
qed



lemma created_cursor:
  "\<not> cursor_visible (created ws)" "cursor_x (created ws) = 0" "cursor_y (created ws) = 0"
  by (auto simp: created_def Let_def tui_get_terminal_size_def split: option.splits prod.splits)

lemma hello_first_frame:
  "\<exists>c1. frame (Some (10, 3)) hello_calls (Some (created (Some (10, 3)))) = Some c1 \<and>
         initialized c1 \<and> back_buffer c1 = hello_back (created (Some (10, 3))) \<and>
         current_underline_color c1 = TUI_COLOR_DEFAULT \<and> \<not> cursor_visible c1 \<and>
         cursor_x c1 = 0 \<and> cursor_y c1 = 0"
proof -
  have i: "initialized (created (Some (10, 3)))" by (rule created_fields)
  from frame_result [OF i, of "Some (10, 3)" hello_calls] show ?thesis
    unfolding hello_composed [OF i]
    by (auto simp: created_fields created_cursor)
qed

lemma typing_first_frame:
  "\<exists>c1. frame (Some (10, 3)) typing_calls (Some (created (Some (10, 3)))) = Some c1 \<and>
         initialized c1 \<and> back_buffer c1 = hello_back (created (Some (10, 3))) \<and>
         current_underline_color c1 = TUI_COLOR_DEFAULT"
proof -
  have i: "initialized (created (Some (10, 3)))" by (rule created_fields)
  from frame_result [OF i, of "Some (10, 3)" typing_calls] show ?thesis
    unfolding typing_composed [OF i]
    by (auto simp: created_fields)
qed


section \<open>Display width and the label loop\<close>

lemma char_width_range: "tui_char_width cp = 0 \<or> tui_char_width cp = 1 \<or> tui_char_width cp = 2"
  by (simp add: tui_char_width_def)

lemma char_width_small: "cp < 32 \<Longrightarrow> tui_char_width cp = 0"
  by (simp add: tui_char_width_def)

lemma label_loop_stop:
  "rest = [] \<or> width ctx \<le> cur_x \<Longrightarrow> label_loop (Some ctx) px cur_x py rest = Some ctx"
  by (subst label_loop.simps) auto

lemma char_width_spec:
  "tui_char_width cp = (if spec_zero_width cp then 0 else if spec_wide_range cp then 2 else 1)"
  unfolding tui_char_width_def spec_zero_width_def spec_control_def spec_combining_def
    spec_zero_width_format_def spec_wide_range_def word_le_nat_alt word_less_nat_alt
  apply (cases "cp = 0")
   apply simp
  apply (simp only: if_False)
  apply (auto simp: unat_eq_0)
  done

lemma wide_zero_overlap:
  "spec_wide_range cp \<and> spec_zero_width cp \<longleftrightarrow> 0xFE20 \<le> cp \<and> cp \<le> 0xFE2F"
proof -
  have z: "unat cp = 0 \<longleftrightarrow> cp = 0" by (simp add: unat_eq_0)
  have a: "cp = 0x200B \<longleftrightarrow> unat cp = 0x200B" "cp = 0x200C \<longleftrightarrow> unat cp = 0x200C"
    "cp = 0x200D \<longleftrightarrow> unat cp = 0x200D" "cp = 0xFEFF \<longleftrightarrow> unat cp = 0xFEFF"
    by (simp_all add: word_unat_eq_iff)
  show ?thesis
    unfolding spec_zero_width_def spec_control_def spec_combining_def
      spec_zero_width_format_def spec_wide_range_def a
    unfolding word_le_nat_alt word_less_nat_alt
    by simp arith
qed

lemma in_frame_context_fields:
  "in_frame in_frame_context" "width in_frame_context = 10" "height in_frame_context = 3"
  by (simp_all add: in_frame_context_def begin_frame_10_3 created_fields)

lemma decode_zhong: "tui_utf8_decode [0xE4, 0xB8, 0xAD] = (3, 0x4E2D)"
  by (simp add: tui_utf8_decode_def)

lemma width_zhong: "tui_char_width 0x4E2D = 2"
  by (simp add: tui_char_width_def)

section \<open>Decoding on a fresh context\<close>

lemma created_None_ring:
  "input_start (created None) = 0" "input_end (created None) = 0"
  "input_buffer (created None) = (\<lambda>i. 0)" "width (created None) = 80" "height (created None) = 24"
  by (simp_all add: created_def Let_def tui_get_terminal_size_def TUI_MAX_WIDTH_def TUI_MAX_HEIGHT_def)

lemmas poll_fresh_eval =
  poll_fresh_def tui_poll_event_def tui_posix_read_input_def created_None_ring
  tui_get_terminal_size_def TUI_MAX_WIDTH_def TUI_MAX_HEIGHT_def
  TUI_INPUT_BUFFER_SIZE_def Let_def ascii_def ESC_def
  tui_input_available_def tui_parse_escape_sequence_def tui_input_peek_def store_bytes_def
  byte_def parse_csi_def tui_parse_csi_params_def csi_params_loop.simps
  sgr_mouse_button_def tui_input_consume_def zero_event_def int32_def

section \<open>The label loop and the label of the specification\<close>

lemma set_cell_some:
  "\<exists>c'. tui_set_cell (Some ctx) px py cp = Some c' \<and> width c' = width ctx"
  by (simp add: tui_set_cell_def Let_def)

lemma set_cell_wide_some:
  "\<exists>c'. tui_set_cell_wide (Some ctx) px py cp = Some c' \<and> width c' = width ctx"
  by (simp add: tui_set_cell_wide_def Let_def)

lemma reached_beyond: "W \<le> cur_x \<Longrightarrow> reached W x0 cur_x cps = []"
  by (cases cps) simp_all

lemma code_points_Nil: "code_points [] = []"
  by (subst code_points.simps) simp

lemma code_points_step:
  "rest \<noteq> [] \<Longrightarrow> code_points rest =
     snd (tui_utf8_decode rest) # code_points (drop (fst (tui_utf8_decode rest)) rest)"
  by (subst code_points.simps) simp

lemma decode_shorter:
  "rest \<noteq> [] \<Longrightarrow> length (drop (fst (tui_utf8_decode rest)) rest) < length rest"
  by (cases rest) (simp_all add: tui_utf8_decode_def Let_def)

lemma label_loop_reached:
  assumes "width ctx \<le> TUI_MAX_WIDTH"
    and "INT_MIN \<le> cur_x" and "INT_MIN \<le> x0" and "x0 \<le> INT_MAX"
    and "INT_MIN \<le> py" and "py + int (length rest) \<le> INT_MAX"
  shows "label_loop (Some ctx) x0 cur_x py rest =
         spec_label (width ctx) (Some ctx) x0 cur_x py
           (reached (width ctx) x0 cur_x (code_points rest))"
  using assms
proof (induction "length rest" arbitrary: rest ctx cur_x py rule: less_induct)
  case less
  show ?case
  proof (cases "rest \<noteq> [] \<and> cur_x < width ctx")
    case False
    then have "label_loop (Some ctx) x0 cur_x py rest = Some ctx"
      by (intro label_loop_stop) auto
    moreover have "reached (width ctx) x0 cur_x (code_points rest) = []"
      using False by (cases "rest = []") (simp_all add: code_points_Nil reached_beyond)
    ultimately show ?thesis by simp
  next
    case True
    define cp where "cp = snd (tui_utf8_decode rest)"
    define more where "more = drop (fst (tui_utf8_decode rest)) rest"
    have len: "length more < length rest" using True decode_shorter [of rest] by (simp add: more_def)
    have cps: "code_points rest = cp # code_points more"
      using True by (simp add: code_points_step cp_def more_def)
    have unfold: "label_loop (Some ctx) x0 cur_x py rest =
        (if cp = 0x0A then label_loop (Some ctx) x0 x0 (int32 (py + 1)) more
         else if cp \<ge> 32 then
           (if tui_char_width cp = 2 then
              (if int32 (cur_x + 1) < width ctx
               then label_loop (tui_set_cell_wide (Some ctx) cur_x py cp) x0 (int32 (cur_x + 2)) py more
               else label_loop (Some ctx) x0 (int32 (cur_x + 1)) py more)
            else if tui_char_width cp = 1
              then label_loop (tui_set_cell (Some ctx) cur_x py cp) x0 (int32 (cur_x + 1)) py more
            else label_loop (Some ctx) x0 cur_x py more)
         else label_loop (Some ctx) x0 cur_x py more)"
      using True by (subst label_loop.simps) (simp add: Let_def cp_def more_def)
    have w: "width ctx \<le> 512" using less.prems(1) by (simp add: TUI_MAX_WIDTH_def)
    have i1: "int32 (cur_x + 1) = cur_x + 1" and i2: "int32 (cur_x + 2) = cur_x + 2"
      using True w less.prems(2) by (simp_all add: int32_id INT_MIN_def INT_MAX_def)
    have iy: "int32 (py + 1) = py + 1"
      using True less.prems(5,6) by (cases rest) (simp_all add: int32_id INT_MIN_def INT_MAX_def)
    have ylen: "py + 1 + int (length more) \<le> INT_MAX" "py + int (length more) \<le> INT_MAX"
      using len less.prems(6) by simp_all
    have y1: "INT_MIN \<le> py + 1" using less.prems(5) by simp
    have x1: "INT_MIN \<le> cur_x + 1" "INT_MIN \<le> cur_x + 2" using less.prems(2) by simp_all
    note IH = less.hyps [OF len]
    show ?thesis
    proof (cases "cp = 0x0A")
      case True
      have "label_loop (Some ctx) x0 x0 (py + 1) more =
            spec_label (width ctx) (Some ctx) x0 x0 (py + 1)
              (reached (width ctx) x0 x0 (code_points more))"
        by (rule IH [OF less.prems(1) less.prems(3) less.prems(3) less.prems(4) y1 ylen(1)])
      then show ?thesis
        using True \<open>rest \<noteq> [] \<and> cur_x < width ctx\<close> by (simp add: unfold iy cps)
    next
      case nl: False
      show ?thesis
      proof (cases "tui_char_width cp = 0")
        case True
        have "label_loop (Some ctx) x0 cur_x py more =
            spec_label (width ctx) (Some ctx) x0 cur_x py
              (reached (width ctx) x0 cur_x (code_points more))"
          by (rule IH [OF less.prems(1) less.prems(2) less.prems(3) less.prems(4) less.prems(5) ylen(2)])
        then show ?thesis
          using True nl \<open>rest \<noteq> [] \<and> cur_x < width ctx\<close> by (simp add: unfold cps)
      next
        case nz: False
        have big: "cp \<ge> 32"
        proof (rule ccontr)
          assume "\<not> cp \<ge> 32"
          then have "cp < 32" by (simp add: not_le)
          then show False using char_width_small [of cp] nz by simp
        qed
        show ?thesis
        proof (cases "tui_char_width cp = 2")
          case True
          show ?thesis
          proof (cases "cur_x + 1 < width ctx")
            case fits: True
            from set_cell_wide_some [of ctx cur_x py cp] obtain c' where
              c': "tui_set_cell_wide (Some ctx) cur_x py cp = Some c'" "width c' = width ctx"
              by blast
            have "label_loop (Some c') x0 (cur_x + 2) py more =
              spec_label (width c') (Some c') x0 (cur_x + 2) py
                (reached (width c') x0 (cur_x + 2) (code_points more))"
              using less.prems(1) c'(2)
              by (intro IH [OF _ x1(2) less.prems(3) less.prems(4) less.prems(5) ylen(2)]) simp
            then show ?thesis
              using True nl big fits \<open>rest \<noteq> [] \<and> cur_x < width ctx\<close>
              by (simp add: unfold cps i1 i2 c')
          next
            case edge: False
            have "label_loop (Some ctx) x0 (cur_x + 1) py more = Some ctx"
              using edge by (intro label_loop_stop) simp
            moreover have "reached (width ctx) x0 (cur_x + 2) (code_points more) = []"
              using edge by (intro reached_beyond) simp
            ultimately show ?thesis
              using True nl big edge \<open>rest \<noteq> [] \<and> cur_x < width ctx\<close>
              by (simp add: unfold cps i1 i2)
          qed
        next
          case False
          then have one: "tui_char_width cp = 1" using nz char_width_range [of cp] by auto
          from set_cell_some [of ctx cur_x py cp] obtain c' where
            c': "tui_set_cell (Some ctx) cur_x py cp = Some c'" "width c' = width ctx"
            by blast
          have "label_loop (Some c') x0 (cur_x + 1) py more =
            spec_label (width c') (Some c') x0 (cur_x + 1) py
              (reached (width c') x0 (cur_x + 1) (code_points more))"
            using less.prems(1) c'(2)
            by (intro IH [OF _ x1(1) less.prems(3) less.prems(4) less.prems(5) ylen(2)]) simp
          then show ?thesis
            using one nl big \<open>rest \<noteq> [] \<and> cur_x < width ctx\<close>
            by (simp add: unfold cps i1 c')
        qed
      qed
    qed
  qed
qed


lemma spec_label_outside:
  "\<not> in_frame ctx \<Longrightarrow> spec_label W (Some ctx) x0 cur_x py cps = Some ctx"
  by (induction cps arbitrary: cur_x py)
     (simp_all add: tui_set_cell_def tui_set_cell_wide_def)

lemma spec_label_beyond:
  "10 \<notin> set cps \<Longrightarrow> width ctx \<le> cur_x \<Longrightarrow>
     spec_label (width ctx) (Some ctx) x0 cur_x py cps = Some ctx"
proof (induction cps arbitrary: cur_x)
  case Nil
  then show ?case by simp
next
  case (Cons cp cps)
  have sc: "tui_set_cell (Some ctx) cur_x py cp = Some ctx"
    using Cons.prems(2) by (simp add: tui_set_cell_def)
  have nxt: "spec_label (width ctx) (Some ctx) x0 (cur_x + k) py cps = Some ctx"
    if "0 \<le> k" for k
    using Cons.prems that by (intro Cons.IH) simp_all
  show ?case
    using Cons.prems sc nxt [of 0] nxt [of 1] nxt [of 2] by simp
qed

lemma spec_label_one_line:
  "10 \<notin> set cps \<Longrightarrow>
     spec_label (width ctx) (Some ctx) x0 cur_x py (reached (width ctx) x0 cur_x cps) =
     spec_label (width ctx) (Some ctx) x0 cur_x py cps"
proof (induction cps arbitrary: ctx cur_x)
  case Nil
  then show ?case by simp
next
  case (Cons cp cps)
  show ?case
  proof (cases "cur_x < width ctx")
    case False
    then have "spec_label (width ctx) (Some ctx) x0 cur_x py (cp # cps) = Some ctx"
      using Cons.prems by (intro spec_label_beyond) simp_all
    then show ?thesis using False by simp
  next
    case True
    from set_cell_some [of ctx cur_x py cp] obtain c1 where
      c1: "tui_set_cell (Some ctx) cur_x py cp = Some c1" "width c1 = width ctx" by blast
    from set_cell_wide_some [of ctx cur_x py cp] obtain c2 where
      c2: "tui_set_cell_wide (Some ctx) cur_x py cp = Some c2" "width c2 = width ctx" by blast
    have nn: "10 \<notin> set cps" "cp \<noteq> 10" using Cons.prems by auto
    note a = Cons.IH [OF nn(1), of ctx] Cons.IH [OF nn(1), of c1] Cons.IH [OF nn(1), of c2]
    show ?thesis
      using True nn(2) a char_width_range [of cp]
      by (auto simp: c1 c2)
  qed
qed


lemma red_context_fields:
  "in_frame red_context" "width red_context = 10" "height red_context = 3"
  "current_fg red_context = 0x00CC0000" "current_bg red_context = TUI_COLOR_DEFAULT"
  "current_style red_context = TUI_STYLE_NONE"
  "current_underline_color red_context = TUI_COLOR_DEFAULT"
  by (simp_all add: red_context_def tui_set_fg_def in_frame_context_def begin_frame_10_3
      created_fields)

lemma red_context_blank:
  assumes "0 \<le> px" "px < 10" "0 \<le> py" "py < 3"
  shows "back_buffer red_context (py * 512 + px) = tui_make_empty_cell"
proof -
  have "tui_clear_buffer buf TUI_MAX_WIDTH TUI_MAX_HEIGHT (py * TUI_MAX_WIDTH + px) = tui_make_empty_cell"
    for buf
    using assms by (intro clear_buffer_apply) (simp_all add: TUI_MAX_WIDTH_def TUI_MAX_HEIGHT_def)
  then show ?thesis
    by (simp add: red_context_def tui_set_fg_def in_frame_context_def begin_frame_10_3
        created_fields TUI_MAX_WIDTH_def)
qed

lemma code_points_two_lines: "code_points two_lines = [0x61, 0x62, 0x0A, 0x63, 0x64]"
  by (simp add: two_lines_def ascii_def code_points_step code_points_Nil tui_utf8_decode_def)

lemma code_points_wide_then_A: "code_points wide_then_A = [0x4E2D, 0x41]"
  by (simp add: wide_then_A_def code_points_step code_points_Nil tui_utf8_decode_def)

lemma code_points_zhong: "code_points [0xE4, 0xB8, 0xAD] = [0x4E2D]"
  by (simp add: code_points_step code_points_Nil tui_utf8_decode_def)

lemma widths_abcd:
  "tui_char_width 0x61 = 1" "tui_char_width 0x62 = 1" "tui_char_width 0x63 = 1"
  "tui_char_width 0x64 = 1" "tui_char_width 0x41 = 1" "tui_char_width 0x4E2D = 2"
  by (simp_all add: tui_char_width_def)

lemma red_label_range:
  "width red_context \<le> TUI_MAX_WIDTH" "INT_MIN \<le> 8" "(8::int) \<le> INT_MAX" "INT_MIN \<le> 0"
  "INT_MIN \<le> 9" "(9::int) \<le> INT_MAX" "(0::int) \<le> INT_MAX"
  "0 + int (length two_lines) \<le> INT_MAX" "0 + int (length wide_then_A) \<le> INT_MAX"
  "0 + int (length [0xE4, 0xB8, 0xAD :: u8]) \<le> INT_MAX"
  by (simp_all add: red_context_fields TUI_MAX_WIDTH_def INT_MIN_def INT_MAX_def two_lines_def
      wide_then_A_def ascii_def)

lemma label_two_lines:
  "tui_label (Some red_context) 8 0 (Some two_lines) =
     Some (red_context\<lparr>back_buffer := (back_buffer red_context)
       (8 := red_cell 0x61, 9 := red_cell 0x62)\<rparr>)"
  using label_loop_reached [OF red_label_range(1,2,2,3,4,8)]
  by (simp add: tui_label_def red_context_fields code_points_two_lines widths_abcd
      tui_set_cell_def Let_def red_cell_def TUI_MAX_WIDTH_def)

lemma spec_two_lines:
  "spec_label 10 (Some red_context) 8 8 0 (code_points two_lines) =
     Some (red_context\<lparr>back_buffer := (back_buffer red_context)
       (8 := red_cell 0x61, 9 := red_cell 0x62, 520 := red_cell 0x63, 521 := red_cell 0x64)\<rparr>)"
  by (simp add: red_context_fields code_points_two_lines widths_abcd
      tui_set_cell_def Let_def red_cell_def TUI_MAX_WIDTH_def)

lemma label_wide_then_A:
  "tui_label (Some red_context) 0 0 (Some wide_then_A) =
     Some (red_context\<lparr>back_buffer := (back_buffer red_context)
       (0 := red_cell 0x4E2D, 1 := red_cell 0x20, 2 := red_cell 0x41)\<rparr>)"
  using label_loop_reached [OF red_label_range(1,4,4,7,4,9)]
  by (simp add: tui_label_def red_context_fields code_points_wide_then_A widths_abcd
      tui_set_cell_def tui_set_cell_wide_def Let_def red_cell_def TUI_MAX_WIDTH_def)

lemma label_wide_at_edge:
  "tui_label (Some red_context) 9 0 (Some [0xE4, 0xB8, 0xAD]) = Some red_context"
  using label_loop_reached [OF red_label_range(1,5,5,6,4,10)]
  by (simp add: tui_label_def red_context_fields code_points_zhong widths_abcd)


section \<open>Splitting a textarea line\<close>






section \<open>Hotkey matching\<close>









section \<open>The claims\<close>

text \<open>
  C1. For every frame (\<^verbatim>\<open>tui_begin_frame\<close>, any sequence of drawing calls,
  \<^verbatim>\<open>tui_end_frame\<close>) on an initialized context: while the frame is composed the front
  buffer stays what the last flush left; after \<^verbatim>\<open>tui_end_frame\<close> the context is outside a
  frame and the front buffer equals the back buffer (the one the calls composed) at every
  cell (x, y) with 0 \<le> x < W and 0 \<le> y < H, for the current terminal size W by H.
\<close>

theorem end_frame_front_equals_back:
  assumes "initialized ctx"
  shows "\<exists>b c'. draw_all (tui_begin_frame (Some ctx) ws) calls = Some b \<and>
           front_buffer b = front_buffer ctx \<and>
           frame ws calls (Some ctx) = Some c' \<and> \<not> in_frame c' \<and>
           width c' = width (tui_get_terminal_size ctx ws) \<and>
           height c' = height (tui_get_terminal_size ctx ws) \<and>
           (\<forall>px py. 0 \<le> px \<and> px < width c' \<and> 0 \<le> py \<and> py < height c' \<longrightarrow>
              front_buffer c' (py * TUI_MAX_WIDTH + px) = back_buffer c' (py * TUI_MAX_WIDTH + px) \<and>
              back_buffer c' (py * TUI_MAX_WIDTH + px) = back_buffer b (py * TUI_MAX_WIDTH + px))"
proof -
  from frame_result [OF assms, of ws calls] obtain b c' where
    r: "draw_all (tui_begin_frame (Some ctx) ws) calls = Some b"
      "front_buffer b = front_buffer ctx"
      "frame ws calls (Some ctx) = Some c'" "\<not> in_frame c'"
      "back_buffer c' = back_buffer b"
      "width c' = width (tui_get_terminal_size ctx ws)"
      "height c' = height (tui_get_terminal_size ctx ws)"
      "visible_cells c' \<subseteq> agree c'"
    by blast
  have "front_buffer c' (py * TUI_MAX_WIDTH + px) = back_buffer c' (py * TUI_MAX_WIDTH + px)"
    if "0 \<le> px \<and> px < width c' \<and> 0 \<le> py \<and> py < height c'" for px py
  proof -
    have "cell_index px py \<in> visible_cells c'"
      using that unfolding visible_cells_def by blast
    then have "cell_index px py \<in> agree c'" using r(8) by blast
    then show ?thesis by (simp add: agree_def cell_index_def)
  qed
  with r show ?thesis by simp
qed

theorem end_frame_front_equals_back_witness:
  "initialized (created (Some (10, 3))) \<and>
   (\<exists>c'. frame (Some (10, 3)) hello_calls (Some (created (Some (10, 3)))) = Some c' \<and>
         width c' = 10 \<and> height c' = 3 \<and>
         front_buffer c' 0 = back_buffer c' 0)"
proof -
  have i: "initialized (created (Some (10, 3)))" by (rule created_fields)
  from end_frame_front_equals_back [OF i, of "Some (10, 3)" hello_calls]
  obtain c' where
    f: "frame (Some (10, 3)) hello_calls (Some (created (Some (10, 3)))) = Some c'"
    and w: "width c' = 10" and h: "height c' = 3"
    and eq: "\<forall>px py. 0 \<le> px \<and> px < width c' \<and> 0 \<le> py \<and> py < height c' \<longrightarrow>
              front_buffer c' (py * TUI_MAX_WIDTH + px) = back_buffer c' (py * TUI_MAX_WIDTH + px)"
    by (auto simp: size_10_3)
  have "front_buffer c' 0 = back_buffer c' 0"
    using eq [rule_format, of 0 0] w h by simp
  with i f w h show ?thesis by blast
qed


text \<open>
  C2, as amended. When the same visible image is composed twice in a row (the terminal
  not resized, no redraw pending) and the cursor coordinates are \<^verbatim>\<open>int\<close> values below
  \<open>INT_MAX\<close> (so that the 1-based row and column are \<^verbatim>\<open>int\<close> values too), the second
  \<^verbatim>\<open>tui_end_frame\<close> emits the synchronized-output wrapper and, between its two halves,
  nothing if the cursor is hidden and exactly one cursor move to (cursor_x, cursor_y)
  followed by show-cursor if the cursor is visible: no byte for any cell, no SGR byte, no
  glyph byte.
\<close>

theorem idempotent_redraw:
  assumes "initialized ctx"
    and "frame ws calls (Some ctx) = Some c1"
    and "draw_all (tui_begin_frame (Some c1) ws) calls' = Some b2"
    and "\<forall>px py. 0 \<le> px \<and> px < width b2 \<and> 0 \<le> py \<and> py < height b2 \<longrightarrow>
           back_buffer b2 (cell_index px py) = back_buffer c1 (cell_index px py)"
    and "INT_MIN \<le> cursor_x b2" and "cursor_x b2 < INT_MAX"
    and "INT_MIN \<le> cursor_y b2" and "cursor_y b2 < INT_MAX"
  shows "\<exists>c2. tui_end_frame (Some b2) = Some c2 \<and>
           tty_out c2 = tty_out c1 @ BEGIN_SYNC @
             (if cursor_visible b2
              then move_cursor_bytes (cursor_x b2) (cursor_y b2) @ show_cursor_bytes else []) @
             END_SYNC"
  using assms by (rule second_frame_output)

theorem idempotent_redraw_witness:
  "tty_out (the (frame (Some (10, 3)) hello_calls
             (frame (Some (10, 3)) hello_calls (Some (created (Some (10, 3))))))) =
   tty_out (the (frame (Some (10, 3)) hello_calls (Some (created (Some (10, 3)))))) @
   BEGIN_SYNC @ END_SYNC"
proof -
  have i: "initialized (created (Some (10, 3)))" by (rule created_fields)
  from hello_first_frame obtain c1 where
    f1: "frame (Some (10, 3)) hello_calls (Some (created (Some (10, 3)))) = Some c1"
    and c1: "initialized c1" "back_buffer c1 = hello_back (created (Some (10, 3)))"
      "current_underline_color c1 = TUI_COLOR_DEFAULT" "\<not> cursor_visible c1"
      "cursor_x c1 = 0" "cursor_y c1 = 0"
    by blast
  define b2 where "b2 = c1\<lparr>width := 10, height := 3,
             back_buffer := hello_back c1,
             current_fg := 0x00CC0000, current_bg := TUI_COLOR_DEFAULT,
             current_style := TUI_STYLE_NONE, button_pressed := False, in_frame := True\<rparr>"
  have d2: "draw_all (tui_begin_frame (Some c1) (Some (10, 3))) hello_calls = Some b2"
    unfolding b2_def by (rule hello_composed [OF c1(1)])
  have same: "\<forall>px py. 0 \<le> px \<and> px < width b2 \<and> 0 \<le> py \<and> py < height b2 \<longrightarrow>
           back_buffer b2 (cell_index px py) = back_buffer c1 (cell_index px py)"
    using hello_back_same [of c1 "created (Some (10, 3))"] c1
    by (simp add: b2_def created_fields)
  have cur: "INT_MIN \<le> cursor_x b2" "cursor_x b2 < INT_MAX"
      "INT_MIN \<le> cursor_y b2" "cursor_y b2 < INT_MAX"
    using c1(5,6) by (simp_all add: b2_def INT_MIN_def INT_MAX_def)
  from idempotent_redraw [OF i f1 d2 same cur] obtain c2 where
    "tui_end_frame (Some b2) = Some c2"
    "tty_out c2 = tty_out c1 @ BEGIN_SYNC @ END_SYNC"
    using c1(4) by (auto simp: b2_def)
  moreover have "frame (Some (10, 3)) hello_calls (Some c1) = tui_end_frame (Some b2)"
    by (simp only: frame_def d2)
  ultimately show ?thesis by (simp add: f1)
qed


text \<open>
  C2 as stated fails when the cursor is visible: the second, identical frame still emits
  the cursor move CSI 1;3 H (a repositioning sequence) and show-cursor.
\<close>

theorem idempotent_redraw_counterexample:
  "tty_out (the (frame (Some (10, 3)) typing_calls
             (frame (Some (10, 3)) typing_calls (Some (created (Some (10, 3))))))) =
   tty_out (the (frame (Some (10, 3)) typing_calls (Some (created (Some (10, 3)))))) @
   BEGIN_SYNC @ (ESC # ascii ''[1;3H'') @ (ESC # ascii ''[?25h'') @ END_SYNC"
proof -
  have i: "initialized (created (Some (10, 3)))" by (rule created_fields)
  from typing_first_frame obtain c1 where
    f1: "frame (Some (10, 3)) typing_calls (Some (created (Some (10, 3)))) = Some c1"
    and c1: "initialized c1" "back_buffer c1 = hello_back (created (Some (10, 3)))"
      "current_underline_color c1 = TUI_COLOR_DEFAULT"
    by blast
  define b2 where "b2 = c1\<lparr>width := 10, height := 3,
             back_buffer := hello_back c1,
             current_fg := 0x00CC0000, current_bg := TUI_COLOR_DEFAULT,
             current_style := TUI_STYLE_NONE, button_pressed := False, in_frame := True,
             cursor_x := 2, cursor_y := 0, cursor_visible := True\<rparr>"
  have d2: "draw_all (tui_begin_frame (Some c1) (Some (10, 3))) typing_calls = Some b2"
    unfolding b2_def by (rule typing_composed [OF c1(1)])
  have same: "\<forall>px py. 0 \<le> px \<and> px < width b2 \<and> 0 \<le> py \<and> py < height b2 \<longrightarrow>
           back_buffer b2 (cell_index px py) = back_buffer c1 (cell_index px py)"
    using hello_back_same [of c1 "created (Some (10, 3))"] c1
    by (simp add: b2_def created_fields)
  have bytes: "move_cursor_bytes 2 0 = ESC # ascii ''[1;3H''"
    by (simp add: move_cursor_bytes_def int_text_def int_digits.simps ascii_def)
  have cur: "INT_MIN \<le> cursor_x b2" "cursor_x b2 < INT_MAX"
      "INT_MIN \<le> cursor_y b2" "cursor_y b2 < INT_MAX"
    by (simp_all add: b2_def INT_MIN_def INT_MAX_def)
  from second_frame_output [OF i f1 d2 same cur] obtain c2 where
    "tui_end_frame (Some b2) = Some c2"
    "tty_out c2 = tty_out c1 @ BEGIN_SYNC @ (ESC # ascii ''[1;3H'') @ (ESC # ascii ''[?25h'') @ END_SYNC"
    by (auto simp: b2_def bytes show_cursor_bytes_def)
  moreover have "frame (Some (10, 3)) typing_calls (Some c1) = tui_end_frame (Some b2)"
    by (simp only: frame_def d2)
  ultimately show ?thesis by (simp add: f1)
qed


text \<open>
  C7. What \<^verbatim>\<open>tui_label\<close> draws, compared with the label of the specification
  (\<open>spec_label\<close>). For every context whose width is at most \<^verbatim>\<open>TUI_MAX_WIDTH\<close>, every
  start (x, y) and every text, with \<^verbatim>\<open>int\<close> values that the row counter cannot leave:
  \<^verbatim>\<open>tui_label\<close> treats the code points it reaches as the specification says (newline to
  (x, y + 1), width 0 nothing, width 1 one cell, width 2 two cells or none at the right
  edge), and it reaches the text only up to the first code point that would be placed at
  or beyond the right edge W. So a label without a newline is drawn as specified. A label
  with a newline is not, when the line before the newline reaches the right edge: on a 10
  by 3 screen \<^verbatim>\<open>tui_label(ctx, 8, 0, "ab\ncd")\<close> writes a at (8, 0) and b at (9, 0) and
  leaves (8, 1) and (9, 1) blank, where the specification has c and d. A wide code point
  followed by A at (0, 0) fills the cells (0, 0), (1, 0) and (2, 0); a wide code point at
  x = W - 1 writes no cell.
\<close>

theorem tui_label_draws_reached:
  "(width ctx \<le> TUI_MAX_WIDTH \<and> INT_MIN \<le> px \<and> px \<le> INT_MAX \<and> INT_MIN \<le> py \<and>
    py + int (length str) \<le> INT_MAX \<and> int (length str) \<le> INT_MAX \<longrightarrow>
      tui_label (Some ctx) px py (Some str) =
        spec_label (width ctx) (Some ctx) px px py
          (reached (width ctx) px px (code_points str)) \<and>
      (0x0A \<notin> set (code_points str) \<longrightarrow>
         tui_label (Some ctx) px py (Some str) =
           spec_label (width ctx) (Some ctx) px px py (code_points str))) \<and>
   drawn (tui_label (Some red_context) 8 0 (Some two_lines)) 8 0 = Some (red_cell 0x61) \<and>
   drawn (tui_label (Some red_context) 8 0 (Some two_lines)) 9 0 = Some (red_cell 0x62) \<and>
   drawn (tui_label (Some red_context) 8 0 (Some two_lines)) 8 1 = Some tui_make_empty_cell \<and>
   drawn (tui_label (Some red_context) 8 0 (Some two_lines)) 9 1 = Some tui_make_empty_cell \<and>
   drawn (spec_label 10 (Some red_context) 8 8 0 (code_points two_lines)) 8 1 = Some (red_cell 0x63) \<and>
   drawn (spec_label 10 (Some red_context) 8 8 0 (code_points two_lines)) 9 1 = Some (red_cell 0x64) \<and>
   drawn (tui_label (Some red_context) 0 0 (Some wide_then_A)) 0 0 = Some (red_cell 0x4E2D) \<and>
   drawn (tui_label (Some red_context) 0 0 (Some wide_then_A)) 1 0 = Some (red_cell 0x20) \<and>
   drawn (tui_label (Some red_context) 0 0 (Some wide_then_A)) 2 0 = Some (red_cell 0x41) \<and>
   tui_label (Some red_context) 9 0 (Some [0xE4, 0xB8, 0xAD]) = Some red_context"
proof -
  have general: "tui_label (Some ctx) px py (Some str) =
        spec_label (width ctx) (Some ctx) px px py
          (reached (width ctx) px px (code_points str)) \<and>
      (0x0A \<notin> set (code_points str) \<longrightarrow>
         tui_label (Some ctx) px py (Some str) =
           spec_label (width ctx) (Some ctx) px px py (code_points str))"
    if r: "width ctx \<le> TUI_MAX_WIDTH \<and> INT_MIN \<le> px \<and> px \<le> INT_MAX \<and> INT_MIN \<le> py \<and>
           py + int (length str) \<le> INT_MAX \<and> int (length str) \<le> INT_MAX"
  proof -
    have a: "tui_label (Some ctx) px py (Some str) =
        spec_label (width ctx) (Some ctx) px px py
          (reached (width ctx) px px (code_points str))"
    proof (cases "in_frame ctx")
      case True
      then show ?thesis
        using r label_loop_reached [of ctx px px py str] by (simp add: tui_label_def)
    next
      case False
      then show ?thesis by (simp add: tui_label_def spec_label_outside)
    qed
    then show ?thesis using spec_label_one_line [of "code_points str" ctx px px py] by simp
  qed
  have blank: "back_buffer red_context 520 = tui_make_empty_cell"
      "back_buffer red_context 521 = tui_make_empty_cell"
    using red_context_blank [of 8 1] red_context_blank [of 9 1] by simp_all
  have two: "drawn (tui_label (Some red_context) 8 0 (Some two_lines)) 8 0 = Some (red_cell 0x61)"
    "drawn (tui_label (Some red_context) 8 0 (Some two_lines)) 9 0 = Some (red_cell 0x62)"
    "drawn (tui_label (Some red_context) 8 0 (Some two_lines)) 8 1 = Some tui_make_empty_cell"
    "drawn (tui_label (Some red_context) 8 0 (Some two_lines)) 9 1 = Some tui_make_empty_cell"
    by (simp_all add: label_two_lines drawn_def cell_index_def TUI_MAX_WIDTH_def blank)
  have spec: "drawn (spec_label 10 (Some red_context) 8 8 0 (code_points two_lines)) 8 1 = Some (red_cell 0x63)"
    "drawn (spec_label 10 (Some red_context) 8 8 0 (code_points two_lines)) 9 1 = Some (red_cell 0x64)"
    by (simp_all add: spec_two_lines drawn_def cell_index_def TUI_MAX_WIDTH_def)
  have wide: "drawn (tui_label (Some red_context) 0 0 (Some wide_then_A)) 0 0 = Some (red_cell 0x4E2D)"
    "drawn (tui_label (Some red_context) 0 0 (Some wide_then_A)) 1 0 = Some (red_cell 0x20)"
    "drawn (tui_label (Some red_context) 0 0 (Some wide_then_A)) 2 0 = Some (red_cell 0x41)"
    by (simp_all add: label_wide_then_A drawn_def cell_index_def TUI_MAX_WIDTH_def)
  from general two spec wide label_wide_at_edge show ?thesis by blast
qed

theorem tui_label_draws_reached_witness:
  "tui_label (Some red_context) 8 0 (Some two_lines) =
     spec_label 10 (Some red_context) 8 8 0 [0x61, 0x62] \<and>
   0x0A \<notin> set (code_points (ascii ''ab'')) \<and>
   tui_label (Some red_context) 8 0 (Some (ascii ''ab'')) =
     spec_label 10 (Some red_context) 8 8 0 (code_points (ascii ''ab''))"
proof -
  have r: "width red_context \<le> TUI_MAX_WIDTH \<and> INT_MIN \<le> 8 \<and> (8::int) \<le> INT_MAX \<and> INT_MIN \<le> 0 \<and>
           0 + int (length two_lines) \<le> INT_MAX \<and> int (length two_lines) \<le> INT_MAX"
    "width red_context \<le> TUI_MAX_WIDTH \<and> INT_MIN \<le> 8 \<and> (8::int) \<le> INT_MAX \<and> INT_MIN \<le> 0 \<and>
           0 + int (length (ascii ''ab'')) \<le> INT_MAX \<and> int (length (ascii ''ab'')) \<le> INT_MAX"
    by (simp_all add: red_context_fields TUI_MAX_WIDTH_def INT_MIN_def INT_MAX_def two_lines_def
        ascii_def)
  have ab: "code_points (ascii ''ab'') = [0x61, 0x62]"
    by (simp add: ascii_def code_points_step code_points_Nil tui_utf8_decode_def)
  from tui_label_draws_reached [of red_context 8 0 two_lines, THEN conjunct1] r(1)
  have "tui_label (Some red_context) 8 0 (Some two_lines) =
        spec_label (width red_context) (Some red_context) 8 8 0
          (reached (width red_context) 8 8 (code_points two_lines))"
    by blast
  then have one: "tui_label (Some red_context) 8 0 (Some two_lines) =
     spec_label 10 (Some red_context) 8 8 0 [0x61, 0x62]"
    by (simp add: red_context_fields code_points_two_lines widths_abcd)
  from tui_label_draws_reached [of red_context 8 0 "ascii ''ab''", THEN conjunct1] r(2)
  have "0x0A \<notin> set (code_points (ascii ''ab'')) \<longrightarrow>
     tui_label (Some red_context) 8 0 (Some (ascii ''ab'')) =
       spec_label (width red_context) (Some red_context) 8 8 0 (code_points (ascii ''ab''))"
    by blast
  moreover have nn: "0x0A \<notin> set (code_points (ascii ''ab''))" by (simp add: ab)
  ultimately have "tui_label (Some red_context) 8 0 (Some (ascii ''ab'')) =
       spec_label 10 (Some red_context) 8 8 0 (code_points (ascii ''ab''))"
    by (simp add: red_context_fields)
  with one nn show ?thesis by blast
qed

text \<open>
  C8, as amended. \<^verbatim>\<open>tui_char_width\<close> depends on the code point alone. It is 0 for
  controls, combining marks and zero-width format characters; otherwise 2 for every code
  point of the ranges of section 6; otherwise 1. The width-0 classes come first: the only
  code points of the section 6 ranges that they cover are the Combining Half Marks
  0xFE20-0xFE2F inside 0xFE10-0xFE6F, which have width 0 and not 2.
\<close>

theorem tui_char_width_classes:
  "tui_char_width cp = (if spec_zero_width cp then 0 else if spec_wide_range cp then 2 else 1) \<and>
   ((spec_wide_range cp \<and> spec_zero_width cp) = (0xFE20 \<le> cp \<and> cp \<le> 0xFE2F))"
  using char_width_spec [of cp] wide_zero_overlap [of cp] by simp

text \<open>
  C8 as stated fails at 0xFE20: it lies in the listed range 0xFE10-0xFE6F, and its
  width is 0.
\<close>

theorem tui_char_width_counterexample:
  "spec_wide_range 0xFE20 \<and> tui_char_width 0xFE20 = 0"
  by (simp add: spec_wide_range_def tui_char_width_def)

text \<open>
  C4. What the decoder does with complete SGR mouse reports, polled on a fresh context.
  ESC [ < 0 ; 5 ; 3 M is one MOUSE event, button LEFT at (4, 2); with final m it is
  RELEASE at (4, 2); 1 and 2 select MIDDLE and RIGHT; 64 and 65 are wheel up and down.
  The claim also says that a button code with bit 32 set is a MOVE event. The source
  masks the code with 0x43 before it looks at bit 32, so ESC [ < 32 ; 5 ; 3 M (motion
  with the left button held) is decoded as LEFT, and ESC [ < 35 ; 5 ; 3 M (motion with
  no button) as RELEASE: bit 32 is looked at only when the masked code is 66 or 67.
\<close>

theorem sgr_mouse_reports:
  "poll_fresh (ESC # ascii ''[<0;5;3M'') =
     (1, Some (zero_event\<lparr>ev_type := TUI_EVENT_MOUSE, mouse_button := TUI_MOUSE_LEFT,
                           mouse_x := 4, mouse_y := 2\<rparr>)) \<and>
   poll_fresh (ESC # ascii ''[<0;5;3m'') =
     (1, Some (zero_event\<lparr>ev_type := TUI_EVENT_MOUSE, mouse_button := TUI_MOUSE_RELEASE,
                           mouse_x := 4, mouse_y := 2\<rparr>)) \<and>
   poll_fresh (ESC # ascii ''[<1;5;3M'') =
     (1, Some (zero_event\<lparr>ev_type := TUI_EVENT_MOUSE, mouse_button := TUI_MOUSE_MIDDLE,
                           mouse_x := 4, mouse_y := 2\<rparr>)) \<and>
   poll_fresh (ESC # ascii ''[<2;5;3M'') =
     (1, Some (zero_event\<lparr>ev_type := TUI_EVENT_MOUSE, mouse_button := TUI_MOUSE_RIGHT,
                           mouse_x := 4, mouse_y := 2\<rparr>)) \<and>
   poll_fresh (ESC # ascii ''[<64;5;3M'') =
     (1, Some (zero_event\<lparr>ev_type := TUI_EVENT_MOUSE, mouse_button := TUI_MOUSE_WHEEL_UP,
                           mouse_x := 4, mouse_y := 2\<rparr>)) \<and>
   poll_fresh (ESC # ascii ''[<65;5;3M'') =
     (1, Some (zero_event\<lparr>ev_type := TUI_EVENT_MOUSE, mouse_button := TUI_MOUSE_WHEEL_DOWN,
                           mouse_x := 4, mouse_y := 2\<rparr>)) \<and>
   poll_fresh (ESC # ascii ''[<32;5;3M'') =
     (1, Some (zero_event\<lparr>ev_type := TUI_EVENT_MOUSE, mouse_button := TUI_MOUSE_LEFT,
                           mouse_x := 4, mouse_y := 2\<rparr>)) \<and>
   poll_fresh (ESC # ascii ''[<35;5;3M'') =
     (1, Some (zero_event\<lparr>ev_type := TUI_EVENT_MOUSE, mouse_button := TUI_MOUSE_RELEASE,
                           mouse_x := 4, mouse_y := 2\<rparr>)) \<and>
   sgr_mouse_button 32 (byte CHR ''M'') \<noteq> TUI_MOUSE_MOVE"
  by (simp add: poll_fresh_eval)




text \<open>
  C10. The entry points of the model on a \<^verbatim>\<open>NULL\<close> handle, for all other arguments.
  \<^verbatim>\<open>tui_poll_event(NULL, e)\<close> returns 0 and leaves the event, the resize latch and the
  waiting input as they are; \<^verbatim>\<open>tui_get_width(NULL)\<close> and \<^verbatim>\<open>tui_get_height(NULL)\<close> return 0;
  \<^verbatim>\<open>tui_set_cell\<close>, \<^verbatim>\<open>tui_set_cell_wide\<close>, \<^verbatim>\<open>tui_label\<close>, \<^verbatim>\<open>tui_begin_frame\<close>,
  \<^verbatim>\<open>tui_end_frame\<close>, the colour and style setters, \<^verbatim>\<open>tui_clear\<close>, \<^verbatim>\<open>tui_fill\<close>,
  \<^verbatim>\<open>tui_hline\<close>, \<^verbatim>\<open>tui_vline\<close>, \<^verbatim>\<open>tui_set_cursor\<close> and \<^verbatim>\<open>tui_show_cursor\<close> return with
  the pointer still \<^verbatim>\<open>NULL\<close>: there is no context whose state or output could change;
  \<^verbatim>\<open>tui_wm_route_event\<close> with a \<^verbatim>\<open>NULL\<close> manager returns, whatever the event pointer, with
  the widgets and the record of invocations as they were; \<^verbatim>\<open>tui_wm_focus\<close>,
  \<^verbatim>\<open>tui_wm_focus_next\<close> and \<^verbatim>\<open>tui_wm_hit_test\<close> with a \<^verbatim>\<open>NULL\<close> manager leave the widgets
  as they were, the hit test returning \<^verbatim>\<open>NULL\<close>. With a context, \<^verbatim>\<open>tui_poll_event\<close> of a
  \<^verbatim>\<open>NULL\<close> event pointer and \<^verbatim>\<open>tui_label\<close> of a \<^verbatim>\<open>NULL\<close> text change nothing either.
\<close>

theorem null_handles:
  "tui_poll_event None eventp sigwinch ws tty = (0, None, eventp, sigwinch, tty) \<and>
   tui_poll_event ctxp None sigwinch ws tty = (0, ctxp, None, sigwinch, tty) \<and>
   tui_get_width None = 0 \<and> tui_get_height None = 0 \<and>
   tui_set_cell None px py cp = None \<and>
   tui_set_cell_wide None px py cp = None \<and>
   tui_label None px py str = None \<and>
   tui_label (Some ctx) px py None = Some ctx \<and>
   tui_begin_frame None ws = None \<and>
   tui_end_frame None = None \<and>
   tui_set_fg None color = None \<and> tui_set_bg None color = None \<and>
   tui_set_style None st = None \<and> tui_set_underline_color None color = None \<and>
   tui_clear None = None \<and> tui_fill None px py w h cp = None \<and>
   tui_hline None px py len cp = None \<and> tui_vline None px py len cp = None \<and>
   tui_set_cursor None px py = None \<and> tui_show_cursor None b = None \<and>
   tui_wm_route_event others None evp wd = Some (None, wd) \<and>
   tui_wm_route_event others wmp None wd = Some (wmp, wd) \<and>
   tui_wm_focus None widget wds = (None, wds) \<and>
   tui_wm_focus_next None wds = Some (None, wds) \<and>
   tui_wm_hit_test None wds px py = Some None"
proof -
  have poll: "tui_poll_event None eventp sigwinch ws tty = (0, None, eventp, sigwinch, tty)"
    "tui_poll_event ctxp None sigwinch ws tty = (0, ctxp, None, sigwinch, tty)"
    by (simp_all add: tui_poll_event_def split: option.split)
  have size: "tui_get_width None = 0" "tui_get_height None = 0"
    by (simp_all add: tui_get_width_def tui_get_height_def)
  have cells: "tui_set_cell None px py cp = None" "tui_set_cell_wide None px py cp = None"
    "tui_label None px py str = None" "tui_label (Some ctx) px py None = Some ctx"
    by (simp_all add: tui_set_cell_def tui_set_cell_wide_def tui_label_def)
  have frames: "tui_begin_frame None ws = None" "tui_end_frame None = None"
    by (simp_all add: tui_begin_frame_def tui_end_frame_def)
  have setters: "tui_set_fg None color = None" "tui_set_bg None color = None"
    "tui_set_style None st = None" "tui_set_underline_color None color = None"
    by (simp_all add: tui_set_fg_def tui_set_bg_def tui_set_style_def tui_set_underline_color_def)
  have fills: "tui_clear None = None" "tui_fill None px py w h cp = None"
    "tui_hline None px py len cp = None" "tui_vline None px py len cp = None"
    by (simp_all add: tui_clear_def tui_fill_def tui_hline_def tui_vline_def)
  have cursor: "tui_set_cursor None px py = None" "tui_show_cursor None b = None"
    by (simp_all add: tui_set_cursor_def tui_show_cursor_def)
  have route: "tui_wm_route_event others None evp wd = Some (None, wd)"
    "tui_wm_route_event others wmp None wd = Some (wmp, wd)"
    by (simp_all add: tui_wm_route_event_def split: option.split)
  have wm: "tui_wm_focus None widget wds = (None, wds)"
    "tui_wm_focus_next None wds = Some (None, wds)"
    "tui_wm_hit_test None wds px py = Some None"
    by (simp_all add: tui_wm_focus_def tui_wm_focus_next_def tui_wm_hit_test_def)
  from poll size cells frames setters fills cursor route wm show ?thesis by simp
qed

theorem null_handles_witness:
  "tui_poll_event None (Some zero_event) True (Some (10, 3)) [0x1B] =
     (0, None, Some zero_event, True, [0x1B]) \<and>
   tui_get_width None = 0 \<and>
   tui_set_cell None 0 0 0x41 = None \<and>
   tui_label None 0 0 (Some (ascii ''Hi'')) = None \<and>
   tui_begin_frame None (Some (10, 3)) = None \<and>
   tui_end_frame None = None"
  using null_handles [where eventp = "Some zero_event" and sigwinch = True
      and ws = "Some (10, 3)" and tty = "[0x1B]" and px = 0 and py = 0 and cp = "0x41"
      and str = "Some (ascii ''Hi'')"]
  by simp




end
